theory Spec2Isabelle
  imports Complex_Main
begin

section \<open>Errors, numeric kinds and events\<close>

text \<open>
  The Python exceptions raised by \<^verbatim>\<open>pyfar/signal.py\<close> and by the numpy
  operations it calls. The message is kept: two \<^verbatim>\<open>ValueError\<close>s of the source
  differ only in it.
\<close>

datatype error =
    ValueError string
  | TypeError string
  | IndexError string
  | RuntimeError string
  | StopIteration

text \<open>
  The element kind of a numpy array (\<^verbatim>\<open>ndarray.dtype\<close>). \<^verbatim>\<open>np.double\<close> is
  \<open>Float64\<close> and \<^verbatim>\<open>np.complex\<close> is \<open>Complex128\<close>; \<open>OtherKind\<close> stands for
  every kind that is not a number (strings, objects, dates).
\<close>

datatype dtype =
    BoolKind
  | Int8 | Int16 | Int32 | Int64
  | UInt8 | UInt16 | UInt32 | UInt64
  | Float16 | Float32 | Float64 | Float128
  | Complex64 | Complex128 | Complex256
  | OtherKind string

text \<open>
  What a run leaves behind besides its result: the calls into \<^verbatim>\<open>pyfar.fft\<close>
  (with the sample count, sampling rate and normalization they were given) and the
  warnings.
\<close>

datatype event =
    EvRfft int real string
  | EvIrfft int real string
  | EvNormalization int real string bool
  | EvWarn string

section \<open>Arrays\<close>

text \<open>
  An n-dimensional array in C order: its shape and its elements, row-major. The same type
  holds numbers (the contents of a buffer) and positions (a view into a buffer).
\<close>

record 'e arr =
  shape :: "nat list"
  elems :: "'e list"

definition map_arr :: "('e \<Rightarrow> 'f) \<Rightarrow> 'e arr \<Rightarrow> 'f arr" where
  "map_arr f a = \<lparr>shape = shape a, elems = map f (elems a)\<rparr>"

text \<open>\<^verbatim>\<open>np.atleast_2d\<close>: rank 0 becomes (1, 1), rank 1 becomes (1, n).\<close>

fun atleast_2d_shape :: "nat list \<Rightarrow> nat list" where
  "atleast_2d_shape [] = [1, 1]"
| "atleast_2d_shape [n] = [1, n]"
| "atleast_2d_shape sh = sh"

definition atleast_2d_arr :: "'e arr \<Rightarrow> 'e arr" where
  "atleast_2d_arr a = a\<lparr>shape := atleast_2d_shape (shape a)\<rparr>"

subsection \<open>Indexing\<close>

text \<open>
  One entry of an index tuple, as numpy reads it: an integer, a slice
  \<^verbatim>\<open>start:stop:step\<close> (each part may be absent), \<^verbatim>\<open>...\<close>, \<^verbatim>\<open>None\<close>
  (\<^verbatim>\<open>np.newaxis\<close>), an array or list of integers, an array or list of booleans (a
  single \<^verbatim>\<open>bool\<close> is one of rank 0), or anything else, which numpy refuses. A key
  is what stands between the brackets: an \<^verbatim>\<open>int\<close>, a \<^verbatim>\<open>bool\<close> (which
  \<^verbatim>\<open>isinstance\<close> counts as an \<^verbatim>\<open>int\<close>), a \<^verbatim>\<open>slice\<close>, a
  \<^verbatim>\<open>tuple\<close> of entries, or an object of another type, of which only the type's
  name matters.
\<close>

datatype index =
    IxInt int
  | IxSlice "int option" "int option" "int option"
  | IxEllipsis
  | IxNewaxis
  | IxArray "int arr"
  | IxMask "bool arr"
  | IxOther

datatype key = KInt int | KBool bool | KSlice "int option" "int option" "int option"
  | KTuple "index list" | KOther string

text \<open>
  Integers, slices, \<^verbatim>\<open>...\<close> and \<^verbatim>\<open>None\<close> are basic indexing; an array, a list
  or a bool among the entries makes numpy use advanced indexing.
\<close>

fun is_advanced :: "index \<Rightarrow> bool" where
  "is_advanced (IxArray _) = True"
| "is_advanced (IxMask _) = True"
| "is_advanced _ = False"

fun consumes_axis :: "index \<Rightarrow> bool" where
  "consumes_axis (IxInt _) = True"
| "consumes_axis (IxSlice _ _ _) = True"
| "consumes_axis _ = False"

text \<open>Python's wrap-around of a negative index; None when it is out of bounds.\<close>

definition norm_index :: "int \<Rightarrow> nat \<Rightarrow> nat option" where
  "norm_index i n =
     (let j = (if i < 0 then i + int n else i)
      in if 0 \<le> j \<and> j < int n then Some (nat j) else None)"

text \<open>\<^verbatim>\<open>slice.indices(len)\<close>, as the list of the selected positions.\<close>

definition slice_indices :: "int option \<Rightarrow> int option \<Rightarrow> int option \<Rightarrow> nat \<Rightarrow> error + nat list" where
  "slice_indices start stop step len =
     (let st = (case step of None \<Rightarrow> 1 | Some s \<Rightarrow> s); n = int len in
      if st = 0 then Inl (ValueError ''slice step cannot be zero'')
      else
        let lower = (if st < 0 then - 1 else 0);
            upper = (if st < 0 then n - 1 else n);
            a = (case start of
                   None \<Rightarrow> (if st < 0 then upper else lower)
                 | Some i \<Rightarrow> (if i < 0 then max (i + n) lower else min i upper));
            b = (case stop of
                   None \<Rightarrow> (if st < 0 then lower else upper)
                 | Some j \<Rightarrow> (if j < 0 then max (j + n) lower else min j upper));
            cnt = (if st < 0
                   then (if b < a then (a - b - 1) div (- st) + 1 else 0)
                   else (if a < b then (b - a - 1) div st + 1 else 0))
        in Inr (map (\<lambda>k. nat (a + int k * st)) [0..<nat cnt]))"

text \<open>Row \<open>j\<close> along the first axis of elements laid out with row shape \<open>rest\<close>.\<close>

definition row :: "nat list \<Rightarrow> 'e list \<Rightarrow> nat \<Rightarrow> 'e list" where
  "row rest xs j = take (prod_list rest) (drop (j * prod_list rest) xs)"

text \<open>
  \<^verbatim>\<open>...\<close> stands for as many full slices as the other entries leave axes; an index
  tuple may hold one.
\<close>

definition expand_ellipsis :: "nat \<Rightarrow> index list \<Rightarrow> error + index list" where
  "expand_ellipsis ndim ixs =
     (if 1 < length (filter (\<lambda>ix. ix = IxEllipsis) ixs)
      then Inl (IndexError ''an index can only have a single ellipsis ('...')'')
      else Inr (concat (map (\<lambda>ix. if ix = IxEllipsis
                                   then replicate (ndim - length (filter consumes_axis ixs))
                                          (IxSlice None None None)
                                   else [ix]) ixs)))"

text \<open>
  Basic indexing \<^verbatim>\<open>a[ix0, ix1, ...]\<close> on shape and elements: an integer selects a
  row and drops the axis, a slice selects rows and keeps it, \<^verbatim>\<open>None\<close> adds an axis
  of length 1; axes past the tuple are taken whole. The entries of advanced indexing are
  not for this function. Where numpy's IndexError names the index, the axis, its size or
  the number of axes, the message here is cut short.
\<close>

fun index_arr :: "nat list \<Rightarrow> 'e list \<Rightarrow> index list \<Rightarrow> error + (nat list \<times> 'e list)" where
  "index_arr sh xs [] = Inr (sh, xs)"
| "index_arr sh xs (IxNewaxis # ixs) =
     (case index_arr sh xs ixs of
        Inl e \<Rightarrow> Inl e
      | Inr (sh', ys) \<Rightarrow> Inr (1 # sh', ys))"
| "index_arr sh xs (IxEllipsis # ixs) =
     Inl (IndexError ''an index can only have a single ellipsis ('...')'')"
| "index_arr sh xs (IxArray _ # ixs) = Inl (IndexError ''not a basic index'')"
| "index_arr sh xs (IxMask _ # ixs) = Inl (IndexError ''not a basic index'')"
| "index_arr sh xs (IxOther # ixs) =
     Inl (IndexError ''only integers, slices (`:`), ellipsis (`...`), numpy.newaxis (`None`) and integer or boolean arrays are valid indices'')"
| "index_arr [] xs (ix # ixs) = Inl (IndexError ''too many indices for array'')"
| "index_arr (n # rest) xs (IxInt i # ixs) =
     (case norm_index i n of
        None \<Rightarrow> Inl (IndexError ''index is out of bounds'')
      | Some j \<Rightarrow> index_arr rest (row rest xs j) ixs)"
| "index_arr (n # rest) xs (IxSlice a b c # ixs) =
     (case slice_indices a b c n of
        Inl e \<Rightarrow> Inl e
      | Inr js \<Rightarrow>
          (case index_arr rest (row rest xs 0) ixs of
             Inl e \<Rightarrow> Inl e
           | Inr (sh', _) \<Rightarrow>
               Inr (length js # sh',
                    concat (map (\<lambda>j. case index_arr rest (row rest xs j) ixs of
                                        Inl _ \<Rightarrow> [] | Inr (_, ys) \<Rightarrow> ys) js))))"

definition getitem_arr :: "'e arr \<Rightarrow> index list \<Rightarrow> error + 'e arr" where
  "getitem_arr a ixs =
     (case expand_ellipsis (length (shape a)) ixs of
        Inl e \<Rightarrow> Inl e
      | Inr ixs' \<Rightarrow>
          (case index_arr (shape a) (elems a) ixs' of
             Inl e \<Rightarrow> Inl e
           | Inr (sh, xs) \<Rightarrow> Inr \<lparr>shape = sh, elems = xs\<rparr>))"

text \<open>\<^verbatim>\<open>a[..., 0, :]\<close>: position 0 of the axis before the last one.\<close>

definition ellipsis_0_colon :: "'e arr \<Rightarrow> error + 'e arr" where
  "ellipsis_0_colon a =
     (let sh = shape a in
      if length sh < 2 then Inl (IndexError ''too many indices for array'')
      else
        let n = last sh; m = last (butlast sh); lead = butlast (butlast sh) in
        if m = 0 then Inl (IndexError ''index 0 is out of bounds'')
        else Inr \<lparr>shape = lead @ [n],
                  elems = concat (map (\<lambda>b. take n (drop (b * m * n) (elems a)))
                                      [0..<prod_list lead])\<rparr>)"

subsection \<open>Broadcasting\<close>

text \<open>The multi-index of flat position \<open>k\<close> in an array of the given shape, and back.\<close>

fun unravel :: "nat list \<Rightarrow> nat \<Rightarrow> nat list" where
  "unravel [] k = []"
| "unravel (n # rest) k = k div prod_list rest # unravel rest (k mod prod_list rest)"

fun ravel :: "nat list \<Rightarrow> nat list \<Rightarrow> nat" where
  "ravel (n # rest) (i # is) = i * prod_list rest + ravel rest is"
| "ravel _ _ = 0"

text \<open>
  numpy's broadcasting of two shapes, aligned at the trailing axis: two lengths agree when
  they are equal or one of them is 1. The recursion runs over the reversed shapes.
\<close>

fun broadcast_rev :: "nat list \<Rightarrow> nat list \<Rightarrow> nat list option" where
  "broadcast_rev [] ys = Some ys"
| "broadcast_rev xs [] = Some xs"
| "broadcast_rev (x # xs) (y # ys) =
     (if x = y \<or> y = 1 then map_option ((#) x) (broadcast_rev xs ys)
      else if x = 1 then map_option ((#) y) (broadcast_rev xs ys)
      else None)"

definition broadcast_shapes :: "nat list \<Rightarrow> nat list \<Rightarrow> nat list option" where
  "broadcast_shapes s t = map_option rev (broadcast_rev (rev s) (rev t))"

text \<open>The elements of \<open>a\<close> read out in the broadcast shape \<open>t\<close>.\<close>

definition broadcast_position :: "nat list \<Rightarrow> nat list \<Rightarrow> nat \<Rightarrow> nat" where
  "broadcast_position s t k =
     ravel s (map2 (\<lambda>n i. if n = 1 then 0 else i) s
                   (drop (length t - length s) (unravel t k)))"

definition broadcast_to :: "'e arr \<Rightarrow> nat list \<Rightarrow> 'e list" where
  "broadcast_to a t =
     map (\<lambda>k. elems a ! broadcast_position (shape a) t k) [0..<prod_list t]"

section \<open>Buffers, array objects and the external numeric services\<close>

text \<open>
  A numpy array object is a view: the buffer it reads (by address), its element kind, and
  for each of its elements the position in that buffer. Two array objects with the same
  base share memory. An array taken out of memory is a kind with shape and elements.
\<close>

record ndarray =
  nd_base :: nat
  nd_dtype :: dtype
  cells :: "nat arr"

type_synonym 'a typed_arr = "dtype \<times> 'a arr"

definition nd_shape :: "ndarray \<Rightarrow> nat list" where
  "nd_shape a = shape (cells a)"

definition atleast_2d :: "ndarray \<Rightarrow> ndarray" where
  "atleast_2d a = a\<lparr>cells := atleast_2d_arr (cells a)\<rparr>"

datatype binop = Add | Subtract | Multiply | Divide | Power

text \<open>
  What the source takes from outside: the transforms and the normalization of
  \<^verbatim>\<open>pyfar.fft\<close> (not among the sources; numeric black boxes that return a new
  array and leave their argument alone), and numpy's arithmetic on elements: the cast of
  an element to another kind, the elementwise operations and the kind of their result;
  and which elements numpy's advanced indexing selects. All are parameters of the model.
\<close>

record 'a backend =
  rfft :: "'a typed_arr \<Rightarrow> int \<Rightarrow> real \<Rightarrow> string \<Rightarrow> 'a typed_arr"
  irfft :: "'a typed_arr \<Rightarrow> int \<Rightarrow> real \<Rightarrow> string \<Rightarrow> 'a typed_arr"
  normalization :: "'a typed_arr \<Rightarrow> int \<Rightarrow> real \<Rightarrow> string \<Rightarrow> bool \<Rightarrow> 'a typed_arr"
  astype :: "dtype \<Rightarrow> dtype \<Rightarrow> 'a \<Rightarrow> 'a"
  scalar_op :: "binop \<Rightarrow> dtype \<Rightarrow> dtype \<Rightarrow> 'a \<Rightarrow> 'a \<Rightarrow> 'a"
  result_type :: "binop \<Rightarrow> 'a typed_arr \<Rightarrow> 'a typed_arr \<Rightarrow> dtype"
  advanced_index :: "'a typed_arr \<Rightarrow> index list \<Rightarrow> error + 'a typed_arr"

text \<open>
  Modelled from the spec: \<^verbatim>\<open>fft._n_bins\<close> is not among the sources; the spec gives
  "number of frequency bins = floor(sample_count/2) + 1 (one-sided spectrum)".
\<close>

definition fft_n_bins :: "int \<Rightarrow> int" where
  "fft_n_bins n_samples = n_samples div 2 + 1"

text \<open>
  numpy's division of floats does not raise: a division by zero gives inf or nan, written
  None here.
\<close>

definition np_divide :: "real \<Rightarrow> real \<Rightarrow> real option" where
  "np_divide x y = (if y = 0 then None else Some (x / y))"

text \<open>
  Modelled from the spec: \<^verbatim>\<open>fft.rfftfreq\<close> is not among the sources; the spec gives
  "frequencies = canonical real-FFT bin frequencies for sample_count and sampling_rate",
  that is \<open>k * sampling_rate / sample_count\<close> for each of the bins.
\<close>

definition fft_rfftfreq :: "int \<Rightarrow> real \<Rightarrow> real option list" where
  "fft_rfftfreq n_samples sampling_rate =
     map (\<lambda>k. np_divide (real k * sampling_rate) (of_int n_samples))
         [0..<nat (fft_n_bins n_samples)]"

section \<open>The Signal class\<close>

record signal =
  sig_comment :: string
  sig_dtype :: dtype
  sig_domain :: string
  sig_data :: ndarray
  sig_sampling_rate :: real
  sig_n_samples :: int
  sig_fft_norm :: string

text \<open>
  The state of a run: the Signal objects by identity (a reference to a Signal is its
  position in \<open>sigs\<close>), the buffers by address, and the events so far, oldest first.
\<close>

record 'a state =
  sigs :: "signal list"
  mem :: "'a list list"
  trace :: "event list"

text \<open>Reading an array out of memory, and a new array in a buffer of its own.\<close>

definition contents :: "'a state \<Rightarrow> ndarray \<Rightarrow> 'a typed_arr" where
  "contents st a = (nd_dtype a, map_arr (\<lambda>p. mem st ! nd_base a ! p) (cells a))"

definition new_array :: "'a typed_arr \<Rightarrow> 'a state \<Rightarrow> ndarray \<times> 'a state" where
  "new_array v st =
     (\<lparr>nd_base = length (mem st), nd_dtype = fst v,
       cells = \<lparr>shape = shape (snd v), elems = [0..<length (elems (snd v))]\<rparr>\<rparr>,
      st\<lparr>mem := mem st @ [elems (snd v)]\<rparr>)"

text \<open>
  \<^verbatim>\<open>np.asarray(a, dtype=dt)\<close> on an array: the array itself when its kind is
  \<open>dt\<close> already, a converted copy otherwise.
\<close>

definition asarray :: "'a backend \<Rightarrow> ndarray \<Rightarrow> dtype \<Rightarrow> 'a state \<Rightarrow> ndarray \<times> 'a state" where
  "asarray nx a dt st =
     (if nd_dtype a = dt then (a, st)
      else new_array (dt, map_arr (astype nx (nd_dtype a) dt) (snd (contents st a))) st)"

definition emit :: "event \<Rightarrow> 'a state \<Rightarrow> 'a state" where
  "emit ev st = st\<lparr>trace := trace st @ [ev]\<rparr>"

subsection \<open>Construction\<close>

definition VALID_DOMAINS :: "string list" where
  "VALID_DOMAINS = [''time'', ''freq'']"

definition VALID_FFT_NORMS :: "string list" where
  "VALID_FFT_NORMS = [''none'', ''unitary'', ''amplitude'', ''rms'', ''power'', ''psd'']"

text \<open>
  The initialisers return the attributes they assign. \<^verbatim>\<open>_Audio.__init__\<close> assigns
  the comment, the kind and the domain; the nan placeholder it stores as data is
  overwritten before anything reads it and is left out.
\<close>

definition Audio_init :: "string \<Rightarrow> string option \<Rightarrow> dtype \<Rightarrow> error + (string \<times> dtype \<times> string)" where
  "Audio_init domain comment dt =
     (let c = (case comment of None \<Rightarrow> ''none'' | Some v \<Rightarrow> v) in
      if domain \<in> set VALID_DOMAINS then Inr (c, dt, domain)
      else Inl (ValueError ''Incorrect domain, needs to be time/freq.''))"

text \<open>
  \<^verbatim>\<open>np.any(np.diff(x) <= 0)\<close>. A comparison with nan is False. The vectors
  tested here are the times and the frequencies of a Signal, whose entries are all
  finite or, at sampling rate 0 or sample count 0, all not finite, with differences
  that are nan.
\<close>

definition any_diff_le_0 :: "real option list \<Rightarrow> bool" where
  "any_diff_le_0 xs =
     list_ex (\<lambda>i. case (xs ! i, xs ! Suc i) of
                    (Some a, Some b) \<Rightarrow> b - a \<le> 0
                  | _ \<Rightarrow> False) [0..<length xs - 1]"

text \<open>The block that validates \<^verbatim>\<open>fft_norm\<close>, the same in both initialisers.\<close>

definition check_fft_norm :: "string option \<Rightarrow> error + string" where
  "check_fft_norm fft_norm =
     (let v = (case fft_norm of None \<Rightarrow> ''none'' | Some x \<Rightarrow> x) in
      if v \<in> set VALID_FFT_NORMS then Inr v
      else Inl (ValueError (''Invalid FFT normalization. Has to be none, unitary, amplitude, rms, power, psd, but found '' @ [CHR 0x27] @ v @ [CHR 0x27])))"

text \<open>
  \<^verbatim>\<open>TimeData.__init__\<close> run on a Signal: assigns comment, kind, domain 'time', the
  data and \<^verbatim>\<open>_n_samples\<close> (returned in this order, the domain left out).
\<close>

definition TimeData_init ::
  "'a backend \<Rightarrow> ndarray \<Rightarrow> real option list \<Rightarrow> string option \<Rightarrow> dtype \<Rightarrow> 'a state
     \<Rightarrow> (error + (string \<times> dtype \<times> ndarray \<times> int)) \<times> 'a state" where
  "TimeData_init nx data time_stamps comment dt st =
     (case Audio_init ''time'' comment dt of
        Inl e \<Rightarrow> (Inl e, st)
      | Inr (c, dt', _) \<Rightarrow>
          (case asarray nx data dt st of
             (a, st1) \<Rightarrow>
               let d = atleast_2d a; n_samples = int (last (nd_shape d)) in
               if int (length time_stamps) \<noteq> n_samples
               then (Inl (ValueError ''The length of times must be data.shape[-1]''), st1)
               else if any_diff_le_0 time_stamps \<and> length time_stamps > 1
               then (Inl (ValueError ''Times must be monotonously increasing.''), st1)
               else (Inr (c, dt', d, n_samples), st1)))"

text \<open>
  \<^verbatim>\<open>FrequencyData.__init__\<close> run on a Signal: assigns comment, kind, domain 'freq',
  the data and \<^verbatim>\<open>_fft_norm\<close>. \<open>n_bins\<close> is \<^verbatim>\<open>self.n_bins\<close>, which for a
  Signal comes from its sample count.
\<close>

definition FrequencyData_init ::
  "'a backend \<Rightarrow> ndarray \<Rightarrow> real option list \<Rightarrow> string option \<Rightarrow> string option \<Rightarrow> dtype
     \<Rightarrow> int \<Rightarrow> 'a state \<Rightarrow> (error + (string \<times> dtype \<times> ndarray \<times> string)) \<times> 'a state" where
  "FrequencyData_init nx data frequencies fft_norm comment dt n_bins st =
     (case Audio_init ''freq'' comment dt of
        Inl e \<Rightarrow> (Inl e, st)
      | Inr (c, dt', _) \<Rightarrow>
          (case asarray nx data Complex128 st of
             (a, st1) \<Rightarrow>
               let d = atleast_2d a in
               if int (length frequencies) \<noteq> n_bins
               then (Inl (ValueError ''The number of freqencies must be data.shape[-1]''), st1)
               else if any_diff_le_0 frequencies \<and> length frequencies > 1
               then (Inl (ValueError ''Frequencies must be monotonously increasing.''), st1)
               else (case check_fft_norm fft_norm of
                       Inl e \<Rightarrow> (Inl e, st1)
                     | Inr v \<Rightarrow> (Inr (c, dt', d, v), st1))))"

text \<open>The properties \<^verbatim>\<open>times\<close>, \<^verbatim>\<open>frequencies\<close>, \<^verbatim>\<open>n_bins\<close> and \<^verbatim>\<open>cshape\<close>.\<close>

definition times_of :: "real \<Rightarrow> int \<Rightarrow> real option list" where
  "times_of sampling_rate n_samples =
     map (\<lambda>k. np_divide (real k) sampling_rate) [0..<nat n_samples]"

definition Signal_times :: "signal \<Rightarrow> real option list" where
  "Signal_times s = times_of (sig_sampling_rate s) (sig_n_samples s)"

definition Signal_frequencies :: "signal \<Rightarrow> real option list" where
  "Signal_frequencies s = fft_rfftfreq (sig_n_samples s) (sig_sampling_rate s)"

definition Signal_n_bins :: "signal \<Rightarrow> int" where
  "Signal_n_bins s = fft_n_bins (sig_n_samples s)"

definition cshape :: "signal \<Rightarrow> nat list" where
  "cshape s = butlast (nd_shape (sig_data s))"

definition new_signal :: "signal \<Rightarrow> 'a state \<Rightarrow> (error + nat) \<times> 'a state" where
  "new_signal s st = (Inr (length (sigs st)), st\<lparr>sigs := sigs st @ [s]\<rparr>)"

text \<open>
  \<^verbatim>\<open>Signal.__init__(data, sampling_rate, n_samples, domain, fft_norm, comment, dtype)\<close>.
  \<open>data\<close> is an array; absent optional arguments are None. The result is the reference
  to the new Signal.
\<close>

definition Signal_init ::
  "'a backend \<Rightarrow> ndarray \<Rightarrow> real \<Rightarrow> int option \<Rightarrow> string \<Rightarrow> string option \<Rightarrow> string option
     \<Rightarrow> dtype \<Rightarrow> 'a state \<Rightarrow> (error + nat) \<times> 'a state" where
  "Signal_init nx data sampling_rate n_samples domain fft_norm comment dt st =
     (case Audio_init domain comment dt of
        Inl e \<Rightarrow> (Inl e, st)
      | Inr _ \<Rightarrow>
          if domain = ''time'' then
            (case asarray nx data dt st of
               (a, st1) \<Rightarrow>
                 let n = int (last (nd_shape (atleast_2d a))) in
                 (case check_fft_norm fft_norm of
                    Inl e \<Rightarrow> (Inl e, st1)
                  | Inr v \<Rightarrow>
                      (case TimeData_init nx data (times_of sampling_rate n) comment dt st1 of
                         (Inl e, st2) \<Rightarrow> (Inl e, st2)
                       | (Inr (c, dt', d, n'), st2) \<Rightarrow>
                           new_signal \<lparr>sig_comment = c, sig_dtype = dt', sig_domain = ''time'',
                                       sig_data = d, sig_sampling_rate = sampling_rate,
                                       sig_n_samples = n', sig_fft_norm = v\<rparr> st2)))
          else if domain = ''freq'' then
            (case asarray nx data Complex128 st of
               (a, st1) \<Rightarrow>
                 let n_bins = int (last (nd_shape (atleast_2d a))) in
                 (case (case n_samples of
                          None \<Rightarrow> Inr ((n_bins - 1) * 2,
                                       emit (EvWarn ''Number of time samples not given, assuming an even number of samples from the number of frequency bins.'') st1)
                        | Some n \<Rightarrow>
                            if n > 2 * n_bins - 1
                            then Inl (ValueError ''n_samples can not be larger than 2 * data.shape[-1] - 2'')
                            else Inr (n, st1)) of
                    Inl e \<Rightarrow> (Inl e, st1)
                  | Inr (n, st2) \<Rightarrow>
                      (case FrequencyData_init nx data (fft_rfftfreq n sampling_rate) fft_norm
                              comment dt (fft_n_bins n) st2 of
                         (Inl e, st3) \<Rightarrow> (Inl e, st3)
                       | (Inr (c, dt', d, v), st3) \<Rightarrow>
                           new_signal \<lparr>sig_comment = c, sig_dtype = dt', sig_domain = ''freq'',
                                       sig_data = d, sig_sampling_rate = sampling_rate,
                                       sig_n_samples = n, sig_fft_norm = v\<rparr> st3)))
          else (Inl (ValueError ''Invalid domain. Has to be 'time' or 'freq'.''), st))"

subsection \<open>Domain conversion and the setters\<close>

definition set_sig :: "nat \<Rightarrow> signal \<Rightarrow> 'a state \<Rightarrow> 'a state" where
  "set_sig sid s st = st\<lparr>sigs := (sigs st)[sid := s]\<rparr>"

text \<open>The setter of \<^verbatim>\<open>TimeData.time\<close>, which Signal inherits.\<close>

definition TimeData_time_set :: "nat \<Rightarrow> ndarray \<Rightarrow> 'a state \<Rightarrow> 'a state" where
  "TimeData_time_set sid v st =
     (let d = atleast_2d v in
      set_sig sid ((sigs st ! sid)\<lparr>sig_data := d, sig_n_samples := int (last (nd_shape d)),
                                 sig_domain := ''time''\<rparr>) st)"

text \<open>The setter of \<^verbatim>\<open>FrequencyData.freq\<close>, and the one of Signal that calls it.\<close>

definition FrequencyData_freq_set :: "nat \<Rightarrow> ndarray \<Rightarrow> 'a state \<Rightarrow> 'a state" where
  "FrequencyData_freq_set sid v st =
     set_sig sid ((sigs st ! sid)\<lparr>sig_data := atleast_2d (atleast_2d v),
                                sig_domain := ''freq''\<rparr>) st"

definition Signal_freq_set :: "nat \<Rightarrow> ndarray \<Rightarrow> 'a state \<Rightarrow> 'a state" where
  "Signal_freq_set sid v st =
     (let st1 = FrequencyData_freq_set sid v st; s = sigs st1 ! sid in
      if int (last (nd_shape (sig_data s))) = Signal_n_bins s
      then set_sig sid (s\<lparr>sig_n_samples := sig_n_samples s\<rparr>) st1
      else
        let st2 = emit (EvWarn ''Number of frequency bins changed, assuming an even number of samples from the number of frequency bins.'') st1
        in set_sig sid (s\<lparr>sig_n_samples := (int (last (nd_shape (sig_data s))) - 1) * 2\<rparr>) st2)"

text \<open>The setter of \<^verbatim>\<open>Signal.domain\<close>: the only place a transform is called.\<close>

definition Signal_domain_set :: "'a backend \<Rightarrow> nat \<Rightarrow> string \<Rightarrow> 'a state \<Rightarrow> (error + unit) \<times> 'a state" where
  "Signal_domain_set nx sid new_domain st =
     (if new_domain \<notin> set VALID_DOMAINS
      then (Inl (ValueError ''Incorrect domain, needs to be time/freq.''), st)
      else
        let s = sigs st ! sid in
        if \<not> (sig_domain s = new_domain) then
          if new_domain = ''time'' then
            (case new_array (irfft nx (contents st (sig_data s)) (sig_n_samples s)
                               (sig_sampling_rate s) (sig_fft_norm s))
                    (emit (EvIrfft (sig_n_samples s) (sig_sampling_rate s) (sig_fft_norm s)) st) of
               (a, st1) \<Rightarrow> (Inr (), TimeData_time_set sid a st1))
          else if new_domain = ''freq'' then
            (case new_array (rfft nx (contents st (sig_data s)) (sig_n_samples s)
                               (sig_sampling_rate s) (sig_fft_norm s))
                    (emit (EvRfft (sig_n_samples s) (sig_sampling_rate s) (sig_fft_norm s)) st) of
               (a, st1) \<Rightarrow> (Inr (), Signal_freq_set sid a st1))
          else (Inr (), st)
        else (Inr (), st))"

text \<open>The getters of \<^verbatim>\<open>Signal.time\<close> and \<^verbatim>\<open>Signal.freq\<close>.\<close>

definition Signal_time :: "'a backend \<Rightarrow> nat \<Rightarrow> 'a state \<Rightarrow> (error + ndarray) \<times> 'a state" where
  "Signal_time nx sid st =
     (case Signal_domain_set nx sid ''time'' st of
        (Inl e, st1) \<Rightarrow> (Inl e, st1)
      | (Inr _, st1) \<Rightarrow> (Inr (sig_data (sigs st1 ! sid)), st1))"

definition Signal_freq :: "'a backend \<Rightarrow> nat \<Rightarrow> 'a state \<Rightarrow> (error + ndarray) \<times> 'a state" where
  "Signal_freq nx sid st =
     (case Signal_domain_set nx sid ''freq'' st of
        (Inl e, st1) \<Rightarrow> (Inl e, st1)
      | (Inr _, st1) \<Rightarrow> (Inr (sig_data (sigs st1 ! sid)), st1))"

text \<open>The setter of \<^verbatim>\<open>Signal.fft_norm\<close>.\<close>

definition Signal_fft_norm_set :: "'a backend \<Rightarrow> nat \<Rightarrow> string \<Rightarrow> 'a state \<Rightarrow> (error + unit) \<times> 'a state" where
  "Signal_fft_norm_set nx sid v st =
     (if v \<notin> set VALID_FFT_NORMS
      then (Inl (ValueError (''Invalid FFT normalization. Has to be none, unitary, amplitude, rms, power, psd, but found '' @ [CHR 0x27] @ v @ [CHR 0x27])), st)
      else
        let s = sigs st ! sid in
        if sig_fft_norm s \<noteq> v \<and> sig_domain s = ''freq'' then
          (case new_array (normalization nx (contents st (sig_data s)) (sig_n_samples s)
                             (sig_sampling_rate s) (sig_fft_norm s) True)
                  (emit (EvNormalization (sig_n_samples s) (sig_sampling_rate s) (sig_fft_norm s) True) st) of
             (a1, st1) \<Rightarrow>
               (case new_array (normalization nx (contents st1 a1) (sig_n_samples s)
                                  (sig_sampling_rate s) v False)
                       (emit (EvNormalization (sig_n_samples s) (sig_sampling_rate s) v False) st1) of
                  (a2, st2) \<Rightarrow>
                    (Inr (), set_sig sid (s\<lparr>sig_data := a2, sig_fft_norm := v\<rparr>) st2)))
        else (Inr (), set_sig sid (s\<lparr>sig_fft_norm := v\<rparr>) st))"

subsection \<open>Operands, indexing and channel assignment\<close>

text \<open>
  An operand of the arithmetic functions, and the value of a channel assignment: a
  reference to a Signal, or anything else as \<^verbatim>\<open>np.asarray\<close> sees it (a Python
  number is an array of rank 0).
\<close>

datatype 'a operand = OSignal nat | OArray "'a typed_arr"

definition Signal_assert_matching_meta_data :: "'a state \<Rightarrow> nat \<Rightarrow> 'a operand \<Rightarrow> error option" where
  "Signal_assert_matching_meta_data st sid other =
     (case other of
        OArray _ \<Rightarrow> Some (ValueError ''Comparison only valid against Signal objects.'')
      | OSignal oid \<Rightarrow>
          let s = sigs st ! sid; t = sigs st ! oid in
          if sig_sampling_rate s \<noteq> sig_sampling_rate t
          then Some (ValueError ''The sampling rates do not match.'')
          else if sig_n_samples s \<noteq> sig_n_samples t
          then Some (ValueError ''The number of samples does not match.'')
          else if sig_fft_norm s \<noteq> sig_fft_norm t
          then Some (ValueError ''The FFT norms do not match.'')
          else None)"

definition Signal_return_item :: "'a backend \<Rightarrow> nat \<Rightarrow> ndarray \<Rightarrow> 'a state \<Rightarrow> (error + nat) \<times> 'a state" where
  "Signal_return_item nx sid data st =
     (let s = sigs st ! sid in
      Signal_init nx data (sig_sampling_rate s) (Some (sig_n_samples s)) (sig_domain s)
        (Some (sig_fft_norm s)) (Some (sig_comment s)) (sig_dtype s) st)"

text \<open>Basic indexing of an array object gives a view: same buffer, selected positions.\<close>

definition nd_view :: "ndarray \<Rightarrow> index list \<Rightarrow> error + ndarray" where
  "nd_view a ixs =
     (case getitem_arr (cells a) ixs of
        Inl e \<Rightarrow> Inl e
      | Inr c \<Rightarrow> Inr (a\<lparr>cells := c\<rparr>))"

text \<open>
  numpy's \<^verbatim>\<open>a[ixs]\<close> on an array object. With an array, a list or a bool among the
  entries it is advanced indexing: the selected elements are copied into a new array.
  Otherwise it is basic indexing.
\<close>

definition nd_getitem ::
  "'a backend \<Rightarrow> ndarray \<Rightarrow> index list \<Rightarrow> 'a state \<Rightarrow> (error + ndarray) \<times> 'a state" where
  "nd_getitem nx a ixs st =
     (if IxOther \<in> set ixs
      then (Inl (IndexError ''only integers, slices (`:`), ellipsis (`...`), numpy.newaxis (`None`) and integer or boolean arrays are valid indices''), st)
      else if list_ex is_advanced ixs then
        (case advanced_index nx (contents st a) ixs of
           Inl e \<Rightarrow> (Inl e, st)
         | Inr v \<Rightarrow> (case new_array v st of (b, st1) \<Rightarrow> (Inr b, st1)))
      else
        (case nd_view a ixs of
           Inl e \<Rightarrow> (Inl e, st)
         | Inr d \<Rightarrow> (Inr d, st)))"

text \<open>A key that is no tuple is the tuple of one entry.\<close>

fun key_indices :: "key \<Rightarrow> index list" where
  "key_indices (KInt i) = [IxInt i]"
| "key_indices (KBool b) = [IxMask \<lparr>shape = [], elems = [b]\<rparr>]"
| "key_indices (KSlice a b c) = [IxSlice a b c]"
| "key_indices (KTuple ixs) = ixs"
| "key_indices (KOther t) = []"

text \<open>
  \<^verbatim>\<open>_Audio.__getitem__\<close>. numpy reports a bad index with IndexError, which the
  \<^verbatim>\<open>except KeyError\<close> of the source lets through.
\<close>

definition Signal_getitem :: "'a backend \<Rightarrow> nat \<Rightarrow> key \<Rightarrow> 'a state \<Rightarrow> (error + nat) \<times> 'a state" where
  "Signal_getitem nx sid k st =
     (case k of
        KOther t \<Rightarrow> (Inl (TypeError (''Index must be int, not '' @ t)), st)
      | _ \<Rightarrow>
          (case nd_getitem nx (sig_data (sigs st ! sid)) (key_indices k) st of
             (Inl e, st1) \<Rightarrow> (Inl e, st1)
           | (Inr data, st1) \<Rightarrow> Signal_return_item nx sid data st1))"

text \<open>
  numpy's \<^verbatim>\<open>a[ixs] = src\<close>: leading axes of length 1 that \<open>src\<close> has in excess are
  dropped, then \<open>src\<close> must broadcast to the shape of the target; its elements are cast
  and written to the target's positions. The target of a basic index is the view it
  selects; the target of \<^verbatim>\<open>True\<close> is the whole array under a new axis of length 1,
  that of \<^verbatim>\<open>False\<close> is empty.
\<close>

fun strip_leading_ones :: "nat \<Rightarrow> nat list \<Rightarrow> nat list" where
  "strip_leading_ones r [] = []"
| "strip_leading_ones r (n # ns) =
     (if r < length (n # ns) \<and> n = 1 then strip_leading_ones r ns else n # ns)"

definition nd_assign :: "'a backend \<Rightarrow> ndarray \<Rightarrow> nat arr \<Rightarrow> ndarray \<Rightarrow> 'a state \<Rightarrow> (error + unit) \<times> 'a state" where
  "nd_assign nx a target src st =
     (let v = snd (contents st src);
          vs = strip_leading_ones (length (shape target)) (shape v) in
      if length vs \<le> length (shape target) \<and>
         list_all2 (\<lambda>n t. n = t \<or> n = 1) vs (drop (length (shape target) - length vs) (shape target))
      then
        (Inr (),
         st\<lparr>mem := (mem st)[nd_base a :=
                fold (\<lambda>(p, x) buf. buf[p := x])
                     (zip (elems target)
                          (map (astype nx (nd_dtype src) (nd_dtype a))
                               (broadcast_to \<lparr>shape = vs, elems = elems v\<rparr> (shape target))))
                     (mem st ! nd_base a)]\<rparr>)
      else (Inl (ValueError ''could not broadcast input array''), st))"

definition nd_setitem :: "'a backend \<Rightarrow> ndarray \<Rightarrow> index list \<Rightarrow> ndarray \<Rightarrow> 'a state \<Rightarrow> (error + unit) \<times> 'a state" where
  "nd_setitem nx a ixs src st =
     (case getitem_arr (cells a) ixs of
        Inl e \<Rightarrow> (Inl e, st)
      | Inr target \<Rightarrow> nd_assign nx a target src st)"

definition nd_setitem_bool :: "'a backend \<Rightarrow> ndarray \<Rightarrow> bool \<Rightarrow> ndarray \<Rightarrow> 'a state \<Rightarrow> (error + unit) \<times> 'a state" where
  "nd_setitem_bool nx a b src st =
     nd_assign nx a
       (if b then \<lparr>shape = 1 # shape (cells a), elems = elems (cells a)\<rparr>
        else \<lparr>shape = 0 # shape (cells a), elems = []\<rparr>) src st"

text \<open>
  \<^verbatim>\<open>_Audio.__setitem__\<close>: the key may be an \<^verbatim>\<open>int\<close> (or \<^verbatim>\<open>bool\<close>) or a
  \<^verbatim>\<open>slice\<close>.
  A value that passed the assertion is a Signal, so it has \<^verbatim>\<open>_data\<close>.
\<close>

definition Signal_setitem :: "'a backend \<Rightarrow> nat \<Rightarrow> key \<Rightarrow> 'a operand \<Rightarrow> 'a state \<Rightarrow> (error + unit) \<times> 'a state" where
  "Signal_setitem nx sid k v st =
     (case Signal_assert_matching_meta_data st sid v of
        Some e \<Rightarrow> (Inl e, st)
      | None \<Rightarrow>
          (case v of
             OArray _ \<Rightarrow> (Inl (ValueError ''Comparison only valid against Signal objects.''), st)
           | OSignal vid \<Rightarrow>
               (case k of
                  KInt i \<Rightarrow>
                    nd_setitem nx (sig_data (sigs st ! sid)) [IxInt i] (sig_data (sigs st ! vid)) st
                | KBool b \<Rightarrow>
                    nd_setitem_bool nx (sig_data (sigs st ! sid)) b (sig_data (sigs st ! vid)) st
                | KSlice a b c \<Rightarrow>
                    nd_setitem nx (sig_data (sigs st ! sid)) [IxSlice a b c] (sig_data (sigs st ! vid)) st
                | KTuple _ \<Rightarrow> (Inl (TypeError ''Index must be int, not tuple''), st)
                | KOther t \<Rightarrow> (Inl (TypeError (''Index must be int, not '' @ t)), st))))"

subsection \<open>Iteration\<close>

text \<open>
  numpy's iterator over an array: the array and the next position along its first axis.
  Each step gives the view \<^verbatim>\<open>a[i]\<close>.
\<close>

record array_iterator =
  it_array :: ndarray
  it_index :: nat

definition ndarray_iter :: "ndarray \<Rightarrow> error + array_iterator" where
  "ndarray_iter a =
     (if nd_shape a = [] then Inl (TypeError ''iteration over a 0-d array'')
      else Inr \<lparr>it_array = a, it_index = 0\<rparr>)"

definition array_iterator_next :: "array_iterator \<Rightarrow> (error + ndarray) \<times> array_iterator" where
  "array_iterator_next it =
     (if it_index it < hd (nd_shape (it_array it))
      then (nd_view (it_array it) [IxInt (int (it_index it))],
            it\<lparr>it_index := Suc (it_index it)\<rparr>)
      else (Inl StopIteration, it))"

text \<open>
  The class \<^verbatim>\<open>SignalIterator\<close>: the array iterator, the Signal iterated over and the
  one Signal object that every step returns, both by reference.
\<close>

record signal_iterator =
  si_array_iterator :: array_iterator
  si_signal :: nat
  si_iterated_sig :: nat

definition nd_ellipsis_0_colon :: "ndarray \<Rightarrow> error + ndarray" where
  "nd_ellipsis_0_colon a =
     (case ellipsis_0_colon (cells a) of
        Inl e \<Rightarrow> Inl e
      | Inr c \<Rightarrow> Inr (a\<lparr>cells := c\<rparr>))"

definition SignalIterator_init ::
  "'a backend \<Rightarrow> array_iterator \<Rightarrow> nat \<Rightarrow> 'a state \<Rightarrow> (error + signal_iterator) \<times> 'a state" where
  "SignalIterator_init nx ai sid st =
     (let s = sigs st ! sid in
      case nd_ellipsis_0_colon (sig_data s) of
        Inl e \<Rightarrow> (Inl e, st)
      | Inr d \<Rightarrow>
          (case Signal_init nx d (sig_sampling_rate s) (Some (sig_n_samples s)) (sig_domain s)
                  (Some (sig_fft_norm s)) None (sig_dtype s) st of
             (Inl e, st1) \<Rightarrow> (Inl e, st1)
           | (Inr it_sid, st1) \<Rightarrow>
               (Inr \<lparr>si_array_iterator = ai, si_signal = sid, si_iterated_sig = it_sid\<rparr>, st1)))"

definition SignalIterator_next ::
  "signal_iterator \<Rightarrow> 'a state \<Rightarrow> (error + nat) \<times> signal_iterator \<times> 'a state" where
  "SignalIterator_next it st =
     (if sig_domain (sigs st ! si_signal it) = sig_domain (sigs st ! si_iterated_sig it) then
        (case array_iterator_next (si_array_iterator it) of
           (Inl e, ai) \<Rightarrow> (Inl e, it\<lparr>si_array_iterator := ai\<rparr>, st)
         | (Inr data, ai) \<Rightarrow>
             (Inr (si_iterated_sig it), it\<lparr>si_array_iterator := ai\<rparr>,
              set_sig (si_iterated_sig it)
                ((sigs st ! si_iterated_sig it)\<lparr>sig_data := atleast_2d data\<rparr>) st))
      else (Inl (RuntimeError ''domain changes during iterations break stuff!''), it, st))"

text \<open>\<^verbatim>\<open>Signal.__iter__\<close>: the array iterator is made first, then the SignalIterator.\<close>

definition Signal_iter :: "'a backend \<Rightarrow> nat \<Rightarrow> 'a state \<Rightarrow> (error + signal_iterator) \<times> 'a state" where
  "Signal_iter nx sid st =
     (case ndarray_iter (sig_data (sigs st ! sid)) of
        Inl e \<Rightarrow> (Inl e, st)
      | Inr ai \<Rightarrow> SignalIterator_init nx ai sid st)"

text \<open>
  What a \<^verbatim>\<open>for\<close> loop over the iterator sees in its first \<open>k\<close> rounds: the Signal
  each call of \<^verbatim>\<open>__next__\<close> returned, as it was when it was returned.
\<close>

fun take_steps ::
  "nat \<Rightarrow> signal_iterator \<Rightarrow> 'a state \<Rightarrow> (error + signal list) \<times> signal_iterator \<times> 'a state" where
  "take_steps 0 it st = (Inr [], it, st)"
| "take_steps (Suc k) it st =
     (case SignalIterator_next it st of
        (Inl e, it1, st1) \<Rightarrow> (Inl e, it1, st1)
      | (Inr r, it1, st1) \<Rightarrow>
          (case take_steps k it1 st1 of
             (Inl e, rest) \<Rightarrow> (Inl e, rest)
           | (Inr xs, rest) \<Rightarrow> (Inr (sigs st1 ! r # xs), rest)))"

subsection \<open>Arithmetic\<close>

text \<open>numpy's elementwise operation on two arrays, with broadcasting.\<close>

definition np_binop :: "'a backend \<Rightarrow> binop \<Rightarrow> 'a typed_arr \<Rightarrow> 'a typed_arr \<Rightarrow> error + 'a typed_arr" where
  "np_binop nx f a b =
     (case broadcast_shapes (shape (snd a)) (shape (snd b)) of
        None \<Rightarrow> Inl (ValueError ''operands could not be broadcast together'')
      | Some t \<Rightarrow>
          Inr (result_type nx f a b,
               \<lparr>shape = t,
                elems = map2 (scalar_op nx f (fst a) (fst b))
                             (broadcast_to (snd a) t) (broadcast_to (snd b) t)\<rparr>))"

definition add_op :: "'a backend \<Rightarrow> 'a typed_arr \<Rightarrow> 'a typed_arr \<Rightarrow> error + 'a typed_arr" where
  "add_op nx a b = np_binop nx Add a b"

definition subtract_op :: "'a backend \<Rightarrow> 'a typed_arr \<Rightarrow> 'a typed_arr \<Rightarrow> error + 'a typed_arr" where
  "subtract_op nx a b = np_binop nx Subtract a b"

definition multiply_op :: "'a backend \<Rightarrow> 'a typed_arr \<Rightarrow> 'a typed_arr \<Rightarrow> error + 'a typed_arr" where
  "multiply_op nx a b = np_binop nx Multiply a b"

definition divide_op :: "'a backend \<Rightarrow> 'a typed_arr \<Rightarrow> 'a typed_arr \<Rightarrow> error + 'a typed_arr" where
  "divide_op nx a b = np_binop nx Divide a b"

definition power_op :: "'a backend \<Rightarrow> 'a typed_arr \<Rightarrow> 'a typed_arr \<Rightarrow> error + 'a typed_arr" where
  "power_op nx a b = np_binop nx Power a b"

text \<open>
  \<^verbatim>\<open>_assert_match_for_arithmetic\<close>. The three results are None together, so they
  are one optional triple (sampling rate, sample count, normalization). The loop over the
  operands is \<open>assert_match_loop\<close>.
\<close>

definition arithmetic_dtypes :: "dtype list" where
  "arithmetic_dtypes = [Int8, Int16, Int32, Int64, Float32, Float64, Complex64, Complex128]"

fun assert_match_loop ::
  "signal list \<Rightarrow> string \<Rightarrow> (real \<times> int \<times> string) option \<Rightarrow> 'a operand list
     \<Rightarrow> error + (real \<times> int \<times> string) option" where
  "assert_match_loop ss domain acc [] = Inr acc"
| "assert_match_loop ss domain acc (OSignal i # ds) =
     (let d = ss ! i in
      case (case acc of
              None \<Rightarrow> Inr (sig_sampling_rate d, sig_n_samples d, sig_fft_norm d)
            | Some (sampling_rate, n_samples, fft_norm) \<Rightarrow>
                if sampling_rate \<noteq> sig_sampling_rate d
                then Inl (ValueError ''The sampling rates do not match.'')
                else if n_samples \<noteq> sig_n_samples d
                then Inl (ValueError ''The number of samples does not match.'')
                else Inr (sampling_rate, n_samples, fft_norm)) of
        Inl e \<Rightarrow> Inl e
      | Inr (sampling_rate, n_samples, fft_norm) \<Rightarrow>
          assert_match_loop ss domain
            (Some (sampling_rate, n_samples,
                   if sig_fft_norm d \<noteq> ''none'' \<and> fft_norm = ''none''
                   then sig_fft_norm d else fft_norm)) ds)"
| "assert_match_loop ss domain acc (OArray v # ds) =
     (if fst v \<notin> set arithmetic_dtypes
      then Inl (ValueError ''Input must be of type Signal, int8, int16, int32, int64, float32, float64, complex64, complex128'')
      else if fst v \<in> set [Complex64, Complex128] \<and> domain = ''time''
      then Inl (ValueError ''Complex input can not be applied in the time domain.'')
      else assert_match_loop ss domain acc ds)"

definition assert_match_for_arithmetic ::
  "'a state \<Rightarrow> 'a operand list \<Rightarrow> string \<Rightarrow> error + (real \<times> int \<times> string) option" where
  "assert_match_for_arithmetic st data domain =
     (if domain \<notin> set [''time'', ''freq'']
      then Inl (ValueError (''domain must be time or freq but is '' @ domain @ ''.''))
      else assert_match_loop (sigs st) domain None data)"

text \<open>
  \<^verbatim>\<open>_get_arithmetic_data\<close>: the copy of a Signal's data in the domain asked for,
  with the normalization taken off in the frequency domain; any other operand as it is.
  \<^verbatim>\<open>_arithmetic\<close> passes a sample count whenever an operand is a Signal.
\<close>

definition get_arithmetic_data ::
  "'a backend \<Rightarrow> 'a operand \<Rightarrow> int option \<Rightarrow> string \<Rightarrow> 'a state \<Rightarrow> (error + 'a typed_arr) \<times> 'a state" where
  "get_arithmetic_data nx d n_samples domain st =
     (case d of
        OArray v \<Rightarrow> (Inr v, st)
      | OSignal i \<Rightarrow>
          if domain = ''time'' then
            (case Signal_time nx i st of
               (Inl e, st1) \<Rightarrow> (Inl e, st1)
             | (Inr a, st1) \<Rightarrow> (Inr (contents st1 a), st1))
          else if domain = ''freq'' then
            (case Signal_freq nx i st of
               (Inl e, st1) \<Rightarrow> (Inl e, st1)
             | (Inr a, st1) \<Rightarrow>
                 let s = sigs st1 ! i in
                 if sig_fft_norm s \<noteq> ''none'' then
                   (case n_samples of
                      None \<Rightarrow> (Inl (TypeError ''n_samples is None''), st1)
                    | Some n \<Rightarrow>
                        (Inr (normalization nx (contents st1 a) n (sig_sampling_rate s)
                                (sig_fft_norm s) True),
                         emit (EvNormalization n (sig_sampling_rate s) (sig_fft_norm s) True) st1))
                 else (Inr (contents st1 a), st1))
          else (Inl (ValueError (''domain must be 'time' or 'freq' but found '' @ domain)), st))"

text \<open>The loop of \<^verbatim>\<open>_arithmetic\<close> over the operands after the first.\<close>

fun arithmetic_fold ::
  "'a backend \<Rightarrow> ('a typed_arr \<Rightarrow> 'a typed_arr \<Rightarrow> error + 'a typed_arr) \<Rightarrow> int option \<Rightarrow> string
     \<Rightarrow> 'a typed_arr \<Rightarrow> 'a operand list \<Rightarrow> 'a state \<Rightarrow> (error + 'a typed_arr) \<times> 'a state" where
  "arithmetic_fold nx operation n_samples domain result [] st = (Inr result, st)"
| "arithmetic_fold nx operation n_samples domain result (d # ds) st =
     (case get_arithmetic_data nx d n_samples domain st of
        (Inl e, st1) \<Rightarrow> (Inl e, st1)
      | (Inr v, st1) \<Rightarrow>
          (case operation result v of
             Inl e \<Rightarrow> (Inl e, st1)
           | Inr r \<Rightarrow> arithmetic_fold nx operation n_samples domain r ds st1))"

datatype 'a outcome = RSignal nat | RArray "'a typed_arr"

text \<open>
  \<^verbatim>\<open>_arithmetic(data, domain, operation)\<close>. The result is a new Signal (by
  reference) when an operand is a Signal, the bare array otherwise.
\<close>

definition arithmetic ::
  "'a backend \<Rightarrow> 'a operand list \<Rightarrow> string \<Rightarrow> ('a typed_arr \<Rightarrow> 'a typed_arr \<Rightarrow> error + 'a typed_arr)
     \<Rightarrow> 'a state \<Rightarrow> (error + 'a outcome) \<times> 'a state" where
  "arithmetic nx data domain operation st =
     (case assert_match_for_arithmetic st data domain of
        Inl e \<Rightarrow> (Inl e, st)
      | Inr meta \<Rightarrow>
          (case data of
             [] \<Rightarrow> (Inl (IndexError ''tuple index out of range''), st)
           | d0 # ds \<Rightarrow>
               (case get_arithmetic_data nx d0 (map_option (\<lambda>m. fst (snd m)) meta) domain st of
                  (Inl e, st1) \<Rightarrow> (Inl e, st1)
                | (Inr r0, st1) \<Rightarrow>
                    (case arithmetic_fold nx operation (map_option (\<lambda>m. fst (snd m)) meta)
                            domain r0 ds st1 of
                       (Inl e, st2) \<Rightarrow> (Inl e, st2)
                     | (Inr result, st2) \<Rightarrow>
                         (case meta of
                            None \<Rightarrow> (Inr (RArray result), st2)
                          | Some (sampling_rate, n_samples, fft_norm) \<Rightarrow>
                              (case (if domain = ''freq''
                                     then (normalization nx result n_samples sampling_rate fft_norm False,
                                           emit (EvNormalization n_samples sampling_rate fft_norm False) st2)
                                     else (result, st2)) of
                                 (result1, st3) \<Rightarrow>
                                   (case new_array result1 st3 of
                                      (a, st4) \<Rightarrow>
                                        (case Signal_init nx a sampling_rate (Some n_samples) domain
                                                (Some fft_norm) None Float64 st4 of
                                           (Inl e, st5) \<Rightarrow> (Inl e, st5)
                                         | (Inr r, st5) \<Rightarrow> (Inr (RSignal r), st5)))))))))"

text \<open>The public functions; the domain defaults to 'freq' in the source.\<close>

definition add_signals :: "'a backend \<Rightarrow> 'a operand list \<Rightarrow> string \<Rightarrow> 'a state \<Rightarrow> (error + 'a outcome) \<times> 'a state" where
  "add_signals nx data domain st = arithmetic nx data domain (add_op nx) st"

definition subtract_signals :: "'a backend \<Rightarrow> 'a operand list \<Rightarrow> string \<Rightarrow> 'a state \<Rightarrow> (error + 'a outcome) \<times> 'a state" where
  "subtract_signals nx data domain st = arithmetic nx data domain (subtract_op nx) st"

definition multiply_signals :: "'a backend \<Rightarrow> 'a operand list \<Rightarrow> string \<Rightarrow> 'a state \<Rightarrow> (error + 'a outcome) \<times> 'a state" where
  "multiply_signals nx data domain st = arithmetic nx data domain (multiply_op nx) st"

definition divide_signals :: "'a backend \<Rightarrow> 'a operand list \<Rightarrow> string \<Rightarrow> 'a state \<Rightarrow> (error + 'a outcome) \<times> 'a state" where
  "divide_signals nx data domain st = arithmetic nx data domain (divide_op nx) st"

definition power_signals :: "'a backend \<Rightarrow> 'a operand list \<Rightarrow> string \<Rightarrow> 'a state \<Rightarrow> (error + 'a outcome) \<times> 'a state" where
  "power_signals nx data domain st = arithmetic nx data domain (power_op nx) st"

subsection \<open>Copies and writes in place\<close>


text \<open>
  A client's write through an array object, \<^verbatim>\<open>a.flat[k] = x\<close>, and what a client
  reads through a Signal's data.
\<close>

definition nd_store :: "ndarray \<Rightarrow> nat \<Rightarrow> 'a \<Rightarrow> 'a state \<Rightarrow> 'a state" where
  "nd_store a k x st =
     st\<lparr>mem := (mem st)[nd_base a := (mem st ! nd_base a)[elems (cells a) ! k := x]]\<rparr>"


section \<open>Notions used in the statements\<close>

text \<open>How often the forward transform was called, read off the events.\<close>

definition forward_transform_calls :: "event list \<Rightarrow> nat" where
  "forward_transform_calls tr =
     length (filter (\<lambda>e. case e of EvRfft _ _ _ \<Rightarrow> True | _ \<Rightarrow> False) tr)"

text \<open>The five public functions.\<close>

definition arithmetic_functions ::
  "'a backend \<Rightarrow> ('a operand list \<Rightarrow> string \<Rightarrow> 'a state \<Rightarrow> (error + 'a outcome) \<times> 'a state) list" where
  "arithmetic_functions nx =
     [add_signals nx, subtract_signals nx, multiply_signals nx, divide_signals nx, power_signals nx]"

text \<open>
  The normalization of the result in the spec's words: 'none' if every Signal operand
  uses 'none', otherwise that of the first Signal operand whose normalization is not
  'none'. \<open>signal_operands\<close> are the Signal operands of a tuple, in order.
\<close>

fun signal_operands :: "'a operand list \<Rightarrow> nat list" where
  "signal_operands [] = []"
| "signal_operands (OSignal i # ds) = i # signal_operands ds"
| "signal_operands (OArray v # ds) = signal_operands ds"

definition first_not_none :: "string list \<Rightarrow> string" where
  "first_not_none vs = (case filter (\<lambda>v. v \<noteq> ''none'') vs of [] \<Rightarrow> ''none'' | v # _ \<Rightarrow> v)"

text \<open>The view \<^verbatim>\<open>a[j]\<close> of an array along its first axis.\<close>

definition channel_view :: "ndarray \<Rightarrow> nat \<Rightarrow> ndarray" where
  "channel_view a j =
     a\<lparr>cells := \<lparr>shape = tl (nd_shape a),
                  elems = row (tl (nd_shape a)) (elems (cells a)) j\<rparr>\<rparr>"

text \<open>Every Signal's data are in a buffer that exists.\<close>

definition buffers_ok :: "'a state \<Rightarrow> bool" where
  "buffers_ok st \<longleftrightarrow> (\<forall>s \<in> set (sigs st). nd_base (sig_data s) < length (mem st))"

text \<open>
  The length of the last axis of a shape, None at rank 0, and what numpy's broadcasting
  makes of the last axes of two shapes that broadcast: the one that is not 1.
\<close>

definition last_axis :: "nat list \<Rightarrow> nat option" where
  "last_axis sh = (if sh = [] then None else Some (last sh))"

definition broadcast_last :: "nat option \<Rightarrow> nat option \<Rightarrow> nat option" where
  "broadcast_last a b =
     (case a of
        None \<Rightarrow> b
      | Some x \<Rightarrow> (case b of None \<Rightarrow> Some x | Some y \<Rightarrow> Some (if x = 1 then y else x)))"

text \<open>
  The last axis of an operand read in the time domain, when the Signals have \<open>n\<close>
  samples, and that of the operands of a tuple combined from left to right; at rank 0 it
  is the 1 that \<^verbatim>\<open>np.atleast_2d\<close> adds.
\<close>

definition operand_last_axis :: "nat \<Rightarrow> 'a operand \<Rightarrow> nat option" where
  "operand_last_axis n d = (case d of OSignal _ \<Rightarrow> Some n | OArray v \<Rightarrow> last_axis (shape (snd v)))"

definition combined_last_axis :: "nat \<Rightarrow> 'a operand list \<Rightarrow> nat" where
  "combined_last_axis n data =
     (case foldl broadcast_last None (map (operand_last_axis n) data) of
        None \<Rightarrow> 1
      | Some k \<Rightarrow> k)"

text \<open>
  Every operand that is not a Signal is of rank 0 or has a last axis of length 1 or
  \<open>n\<close>.
\<close>

definition last_axes_fit :: "nat \<Rightarrow> 'a operand list \<Rightarrow> bool" where
  "last_axes_fit n data =
     list_all (\<lambda>d. case d of
                      OSignal _ \<Rightarrow> True
                    | OArray v \<Rightarrow> shape (snd v) = [] \<or> last (shape (snd v)) = 1
                                  \<or> last (shape (snd v)) = n) data"

text \<open>
  Modelled from the spec: \<^verbatim>\<open>fft.irfft\<close> is not among the sources; section 6 of the
  spec gives "inverse(frequency_buffer, sample_count, sampling_rate) -> time_buffer
  producing exactly sample_count real samples". Here: for a positive sample count the
  result has a last axis of that length.
\<close>

definition irfft_length_ok :: "'a backend \<Rightarrow> bool" where
  "irfft_length_ok nx \<longleftrightarrow>
     (\<forall>v n sr fnorm. 0 < n \<longrightarrow>
        shape (snd (irfft nx v n sr fnorm)) \<noteq> [] \<and>
        last (shape (snd (irfft nx v n sr fnorm))) = nat n)"

text \<open>
  The Signal operands of a tuple exist, and those in the time domain have as many
  samples as the last axis of their data is long, as every Signal has that the class
  builds or converts.
\<close>

definition time_consistent :: "'a state \<Rightarrow> 'a operand list \<Rightarrow> bool" where
  "time_consistent st data =
     list_all (\<lambda>d. case d of
                      OArray _ \<Rightarrow> True
                    | OSignal j \<Rightarrow>
                        j < length (sigs st) \<and>
                        (sig_domain (sigs st ! j) = ''time'' \<longrightarrow>
                           nd_shape (sig_data (sigs st ! j)) \<noteq> [] \<and>
                           int (last (nd_shape (sig_data (sigs st ! j)))) = sig_n_samples (sigs st ! j))) data"



text \<open>
  The array object \<open>a\<close> is a view of \<open>b\<close>: it reads the buffer of \<open>b\<close>, at positions
  that \<open>b\<close> reads.
\<close>

definition view_of :: "ndarray \<Rightarrow> ndarray \<Rightarrow> bool" where
  "view_of a b \<longleftrightarrow>
     nd_base a = nd_base b \<and> list_all (\<lambda>p. p \<in> set (elems (cells b))) (elems (cells a))"

section \<open>Example inputs\<close>

text \<open>
  A stand-in for the external services, to run the model on concrete inputs: transforms
  that return zeros in the shapes section 6 of the spec gives them (one-sided bins
  \<open>floor(n/2) + 1\<close>, and \<open>n\<close> samples back), a normalization and a cast that change
  nothing, the arithmetic of the reals, and an advanced indexing that selects everything.
\<close>

definition toy_backend :: "real backend" where
  "toy_backend =
     \<lparr>rfft = (\<lambda>v n sr norm.
         (Complex128,
          \<lparr>shape = butlast (shape (snd v)) @ [nat (n div 2 + 1)],
           elems = replicate (prod_list (butlast (shape (snd v))) * nat (n div 2 + 1)) 0\<rparr>)),
      irfft = (\<lambda>v n sr norm.
         (Float64,
          \<lparr>shape = butlast (shape (snd v)) @ [nat n],
           elems = replicate (prod_list (butlast (shape (snd v))) * nat n) 0\<rparr>)),
      normalization = (\<lambda>v n sr norm inverse. v),
      astype = (\<lambda>from to x. x),
      scalar_op = (\<lambda>f ka kb x y.
         case f of Add \<Rightarrow> x + y | Subtract \<Rightarrow> x - y | Multiply \<Rightarrow> x * y
                 | Divide \<Rightarrow> x / y | Power \<Rightarrow> x powr y),
      result_type = (\<lambda>f a b. fst a),
      advanced_index = (\<lambda>v ixs. Inr v)\<rparr>"

text \<open>
  A state with one Signal: its data are one buffer of zeros of the given shape and
  kind, laid out in C order.
\<close>

definition one_signal ::
  "string \<Rightarrow> dtype \<Rightarrow> nat list \<Rightarrow> real \<Rightarrow> int \<Rightarrow> string \<Rightarrow> real state" where
  "one_signal domain kind sh sampling_rate n_samples fft_norm =
     \<lparr>sigs = [\<lparr>sig_comment = ''none'', sig_dtype = Float64, sig_domain = domain,
               sig_data = \<lparr>nd_base = 0, nd_dtype = kind,
                           cells = \<lparr>shape = sh, elems = [0..<prod_list sh]\<rparr>\<rparr>,
               sig_sampling_rate = sampling_rate, sig_n_samples = n_samples,
               sig_fft_norm = fft_norm\<rparr>],
      mem = [replicate (prod_list sh) 0],
      trace = []\<rparr>"

text \<open>
  A state with two Signals of the same domain, kind, shape and normalization, each with
  a buffer of zeros of its own; the second has the sampling rate and sample count given
  last.
\<close>

definition two_signals ::
  "string \<Rightarrow> dtype \<Rightarrow> nat list \<Rightarrow> real \<Rightarrow> int \<Rightarrow> string \<Rightarrow> real \<Rightarrow> int \<Rightarrow> real state" where
  "two_signals domain kind sh sampling_rate n_samples fft_norm sampling_rate2 n_samples2 =
     \<lparr>sigs = [\<lparr>sig_comment = ''none'', sig_dtype = Float64, sig_domain = domain,
               sig_data = \<lparr>nd_base = 0, nd_dtype = kind,
                           cells = \<lparr>shape = sh, elems = [0..<prod_list sh]\<rparr>\<rparr>,
               sig_sampling_rate = sampling_rate, sig_n_samples = n_samples,
               sig_fft_norm = fft_norm\<rparr>,
              \<lparr>sig_comment = ''none'', sig_dtype = Float64, sig_domain = domain,
               sig_data = \<lparr>nd_base = 1, nd_dtype = kind,
                           cells = \<lparr>shape = sh, elems = [0..<prod_list sh]\<rparr>\<rparr>,
               sig_sampling_rate = sampling_rate2, sig_n_samples = n_samples2,
               sig_fft_norm = fft_norm\<rparr>],
      mem = [replicate (prod_list sh) 0, replicate (prod_list sh) 0],
      trace = []\<rparr>"

section \<open>Basic facts\<close>

lemma expand_ellipsis_none [simp]:
  "IxEllipsis \<notin> set ixs \<Longrightarrow> expand_ellipsis n ixs = Inr ixs"
proof -
  assume a: "IxEllipsis \<notin> set ixs"
  then have "filter (\<lambda>ix. ix = IxEllipsis) ixs = []"
    by (induction ixs) auto
  moreover from a have "concat (map (\<lambda>ix. if ix = IxEllipsis then replicate k c else [ix]) ixs) = ixs"
    for k and c :: index
    by (induction ixs) auto
  ultimately show ?thesis
    by (simp add: expand_ellipsis_def)
qed

lemma nd_getitem_basic:
  "IxOther \<notin> set ixs \<Longrightarrow> \<not> list_ex is_advanced ixs \<Longrightarrow>
   nd_getitem nx a ixs st = (case nd_view a ixs of Inl e \<Rightarrow> (Inl e, st) | Inr d \<Rightarrow> (Inr d, st))"
  by (simp add: nd_getitem_def)

lemma atleast_2d_shape_idem: "atleast_2d_shape (atleast_2d_shape sh) = atleast_2d_shape sh"
  by (induction sh rule: atleast_2d_shape.induct) simp_all

lemma atleast_2d_idem: "atleast_2d (atleast_2d a) = atleast_2d a"
  by (simp add: atleast_2d_def atleast_2d_arr_def atleast_2d_shape_idem)

lemma sigs_set_sig: "i < length (sigs st) \<Longrightarrow> sigs (set_sig i s st) ! i = s"
  by (simp add: set_sig_def)

lemma set_sig_simps [simp]:
  "mem (set_sig i s st) = mem st" "trace (set_sig i s st) = trace st"
  "length (sigs (set_sig i s st)) = length (sigs st)"
  by (simp_all add: set_sig_def)

lemma new_array_simps [simp]:
  "sigs (snd (new_array v st)) = sigs st"
  "trace (snd (new_array v st)) = trace st"
  "mem (snd (new_array v st)) = mem st @ [elems (snd v)]"
  "nd_base (fst (new_array v st)) = length (mem st)"
  "nd_dtype (fst (new_array v st)) = fst v"
  "nd_shape (fst (new_array v st)) = shape (snd v)"
  by (simp_all add: new_array_def nd_shape_def)

lemma emit_simps [simp]:
  "sigs (emit ev st) = sigs st" "mem (emit ev st) = mem st"
  "trace (emit ev st) = trace st @ [ev]"
  by (simp_all add: emit_def)

lemma contents_new_array: "contents (snd (new_array v st)) (fst (new_array v st)) = v"
proof -
  have "map (\<lambda>p. (mem st @ [elems (snd v)]) ! length (mem st) ! p) [0..<length (elems (snd v))]
        = elems (snd v)"
    by (simp add: map_nth)
  then show ?thesis
    by (cases v) (simp add: contents_def new_array_def map_arr_def)
qed

lemma contents_atleast_2d:
  "contents st (atleast_2d a) = (fst (contents st a), atleast_2d_arr (snd (contents st a)))"
  by (simp add: contents_def atleast_2d_def atleast_2d_arr_def map_arr_def)

lemma contents_set_sig [simp]: "contents (set_sig i s st) a = contents st a"
  by (simp add: contents_def)

lemma contents_emit [simp]: "contents (emit ev st) a = contents st a"
  by (simp add: contents_def emit_def)

lemma Signal_freq_set_frame [simp]:
  "mem (Signal_freq_set sid v st) = mem st"
  "length (sigs (Signal_freq_set sid v st)) = length (sigs st)"
  by (simp_all add: Signal_freq_set_def FrequencyData_freq_set_def Let_def emit_def set_sig_def)

lemma contents_Signal_freq_set [simp]: "contents (Signal_freq_set sid v st) a = contents st a"
  by (simp add: contents_def)

lemma Signal_freq_set_fields:
  assumes "sid < length (sigs st)"
  shows "sig_data (sigs (Signal_freq_set sid v st) ! sid) = atleast_2d v"
    and "sig_domain (sigs (Signal_freq_set sid v st) ! sid) = ''freq''"
    and "sig_sampling_rate (sigs (Signal_freq_set sid v st) ! sid) = sig_sampling_rate (sigs st ! sid)"
    and "sig_fft_norm (sigs (Signal_freq_set sid v st) ! sid) = sig_fft_norm (sigs st ! sid)"
    and "forward_transform_calls (trace (Signal_freq_set sid v st)) = forward_transform_calls (trace st)"
  using assms
  by (simp_all add: Signal_freq_set_def FrequencyData_freq_set_def Let_def sigs_set_sig
      atleast_2d_idem emit_def set_sig_def forward_transform_calls_def)

lemma Signal_freq_in_freq:
  "sig_domain (sigs st ! sid) = ''freq'' \<Longrightarrow>
   Signal_freq nx sid st = (Inr (sig_data (sigs st ! sid)), st)"
  by (simp add: Signal_freq_def Signal_domain_set_def VALID_DOMAINS_def)

section \<open>Reading the frequency domain twice\<close>

text \<open>
  C3: for a Signal in the time domain, the first read of \<^verbatim>\<open>freq\<close> calls the forward
  transform once, stores its result (at least two-dimensional) as the data and sets the
  domain to 'freq'; a second read with nothing written in between returns the same array
  and leaves the state as it is, events included, so the transform is not called again.
\<close>

theorem freq_read_idempotent:
  assumes "sid < length (sigs st)" and "sig_domain (sigs st ! sid) = ''time''"
  shows "\<exists>a st1. Signal_freq nx sid st = (Inr a, st1)
      \<and> forward_transform_calls (trace st1) = Suc (forward_transform_calls (trace st))
      \<and> sig_domain (sigs st1 ! sid) = ''freq''
      \<and> sig_data (sigs st1 ! sid) = a
      \<and> contents st1 a =
          (fst (rfft nx (contents st (sig_data (sigs st ! sid))) (sig_n_samples (sigs st ! sid))
                  (sig_sampling_rate (sigs st ! sid)) (sig_fft_norm (sigs st ! sid))),
           atleast_2d_arr (snd (rfft nx (contents st (sig_data (sigs st ! sid)))
                  (sig_n_samples (sigs st ! sid)) (sig_sampling_rate (sigs st ! sid))
                  (sig_fft_norm (sigs st ! sid)))))
      \<and> Signal_freq nx sid st1 = (Inr a, st1)"
proof -
  let ?s = "sigs st ! sid"
  let ?ev = "EvRfft (sig_n_samples ?s) (sig_sampling_rate ?s) (sig_fft_norm ?s)"
  let ?v = "rfft nx (contents st (sig_data ?s)) (sig_n_samples ?s) (sig_sampling_rate ?s)
              (sig_fft_norm ?s)"
  let ?na = "new_array ?v (emit ?ev st)"
  let ?st1 = "Signal_freq_set sid (fst ?na) (snd ?na)"
  let ?a = "atleast_2d (fst ?na)"
  have len: "sid < length (sigs (snd ?na))"
    using assms(1) by (simp add: emit_def)
  have run: "Signal_freq nx sid st = (Inr (sig_data (sigs ?st1 ! sid)), ?st1)"
    using assms(2)
    by (simp add: Signal_freq_def Signal_domain_set_def VALID_DOMAINS_def Let_def case_prod_beta)
  have data: "sig_data (sigs ?st1 ! sid) = ?a"
    by (rule Signal_freq_set_fields(1) [OF len])
  have dom: "sig_domain (sigs ?st1 ! sid) = ''freq''"
    by (rule Signal_freq_set_fields(2) [OF len])
  have calls: "forward_transform_calls (trace ?st1) = Suc (forward_transform_calls (trace st))"
    by (simp add: Signal_freq_set_fields(5) [OF len])
       (simp add: emit_def forward_transform_calls_def)
  have cont: "contents ?st1 ?a = (fst ?v, atleast_2d_arr (snd ?v))"
    by (simp add: contents_atleast_2d contents_new_array)
  have again: "Signal_freq nx sid ?st1 = (Inr ?a, ?st1)"
    using Signal_freq_in_freq [OF dom, of nx] data by simp
  show ?thesis
    using run data dom calls cont again by (intro exI [of _ ?a] exI [of _ ?st1]) simp
qed


lemma one_signal_simps [simp]:
  "length (sigs (one_signal d k sh sr n fnorm)) = 1"
  "sig_domain (sigs (one_signal d k sh sr n fnorm) ! 0) = d"
  "sig_n_samples (sigs (one_signal d k sh sr n fnorm) ! 0) = n"
  "sig_sampling_rate (sigs (one_signal d k sh sr n fnorm) ! 0) = sr"
  "sig_fft_norm (sigs (one_signal d k sh sr n fnorm) ! 0) = fnorm"
  "nd_shape (sig_data (sigs (one_signal d k sh sr n fnorm) ! 0)) = sh"
  "trace (one_signal d k sh sr n fnorm) = []"
  by (simp_all add: one_signal_def nd_shape_def)

theorem freq_read_idempotent_witness:
  "0 < length (sigs (one_signal ''time'' Float64 [2, 8] 8 8 ''none'')) \<and>
   sig_domain (sigs (one_signal ''time'' Float64 [2, 8] 8 8 ''none'') ! 0) = ''time'' \<and>
   (\<exists>a st1. Signal_freq toy_backend 0 (one_signal ''time'' Float64 [2, 8] 8 8 ''none'') = (Inr a, st1)
      \<and> forward_transform_calls (trace st1) = 1
      \<and> sig_domain (sigs st1 ! 0) = ''freq''
      \<and> nd_shape a = [2, 5]
      \<and> Signal_freq toy_backend 0 st1 = (Inr a, st1))"
proof -
  let ?st = "one_signal ''time'' Float64 [2, 8] 8 8 ''none''"
  have h1: "0 < length (sigs ?st)" and h2: "sig_domain (sigs ?st ! 0) = ''time''"
    by simp_all
  from freq_read_idempotent [OF h1 h2, of toy_backend]
  obtain a st1 where r: "Signal_freq toy_backend 0 ?st = (Inr a, st1)"
      "forward_transform_calls (trace st1) = Suc (forward_transform_calls (trace ?st))"
      "sig_domain (sigs st1 ! 0) = ''freq''"
      "contents st1 a =
          (fst (rfft toy_backend (contents ?st (sig_data (sigs ?st ! 0))) (sig_n_samples (sigs ?st ! 0))
                  (sig_sampling_rate (sigs ?st ! 0)) (sig_fft_norm (sigs ?st ! 0))),
           atleast_2d_arr (snd (rfft toy_backend (contents ?st (sig_data (sigs ?st ! 0)))
                  (sig_n_samples (sigs ?st ! 0)) (sig_sampling_rate (sigs ?st ! 0))
                  (sig_fft_norm (sigs ?st ! 0)))))"
      "Signal_freq toy_backend 0 st1 = (Inr a, st1)"
    by blast
  have "shape (snd (contents st1 a)) = [2, 5]"
    unfolding r(4)
    by (simp add: toy_backend_def atleast_2d_arr_def contents_def map_arr_def one_signal_def)
  then have "nd_shape a = [2, 5]"
    by (simp add: contents_def map_arr_def nd_shape_def)
  with r h1 h2 show ?thesis
    by (simp add: forward_transform_calls_def)
qed

section \<open>Setting the normalization\<close>

text \<open>
  C4: setting \<^verbatim>\<open>fft_norm\<close> to a name outside the valid ones raises ValueError and
  leaves the state as it was. Setting it to a valid name other than the current one, in
  the frequency domain, calls the normalization twice, first inverse with the old name,
  then forward with the new one, and stores the result; in the time domain only the
  name changes: no call, no buffer touched.
\<close>

theorem fft_norm_set_cases:
  assumes "sid < length (sigs st)"
  shows "(v \<notin> set VALID_FFT_NORMS \<longrightarrow>
            (\<exists>msg. Signal_fft_norm_set nx sid v st = (Inl (ValueError msg), st)))
       \<and> (v \<in> set VALID_FFT_NORMS \<and> sig_fft_norm (sigs st ! sid) \<noteq> v
            \<and> sig_domain (sigs st ! sid) = ''freq'' \<longrightarrow>
            (\<exists>st'. Signal_fft_norm_set nx sid v st = (Inr (), st')
               \<and> trace st' = trace st @
                   [EvNormalization (sig_n_samples (sigs st ! sid)) (sig_sampling_rate (sigs st ! sid))
                      (sig_fft_norm (sigs st ! sid)) True,
                    EvNormalization (sig_n_samples (sigs st ! sid)) (sig_sampling_rate (sigs st ! sid))
                      v False]
               \<and> contents st' (sig_data (sigs st' ! sid)) =
                   normalization nx
                     (normalization nx (contents st (sig_data (sigs st ! sid)))
                        (sig_n_samples (sigs st ! sid)) (sig_sampling_rate (sigs st ! sid))
                        (sig_fft_norm (sigs st ! sid)) True)
                     (sig_n_samples (sigs st ! sid)) (sig_sampling_rate (sigs st ! sid)) v False
               \<and> sigs st' ! sid = (sigs st ! sid)\<lparr>sig_data := sig_data (sigs st' ! sid), sig_fft_norm := v\<rparr>))
       \<and> (v \<in> set VALID_FFT_NORMS \<and> sig_fft_norm (sigs st ! sid) \<noteq> v
            \<and> sig_domain (sigs st ! sid) = ''time'' \<longrightarrow>
            (\<exists>st'. Signal_fft_norm_set nx sid v st = (Inr (), st')
               \<and> trace st' = trace st \<and> mem st' = mem st
               \<and> sigs st' ! sid = (sigs st ! sid)\<lparr>sig_fft_norm := v\<rparr>))"
proof (intro conjI impI)
  assume "v \<notin> set VALID_FFT_NORMS"
  then show "\<exists>msg. Signal_fft_norm_set nx sid v st = (Inl (ValueError msg), st)"
    by (simp add: Signal_fft_norm_set_def)
next
  let ?s = "sigs st ! sid"
  let ?n = "sig_n_samples ?s" and ?sr = "sig_sampling_rate ?s" and ?old = "sig_fft_norm ?s"
  assume a: "v \<in> set VALID_FFT_NORMS \<and> ?old \<noteq> v \<and> sig_domain ?s = ''freq''"
  let ?v1 = "normalization nx (contents st (sig_data ?s)) ?n ?sr ?old True"
  let ?na1 = "new_array ?v1 (emit (EvNormalization ?n ?sr ?old True) st)"
  let ?v2 = "normalization nx (contents (snd ?na1) (fst ?na1)) ?n ?sr v False"
  let ?na2 = "new_array ?v2 (emit (EvNormalization ?n ?sr v False) (snd ?na1))"
  let ?st' = "set_sig sid (?s\<lparr>sig_data := fst ?na2, sig_fft_norm := v\<rparr>) (snd ?na2)"
  have run: "Signal_fft_norm_set nx sid v st = (Inr (), ?st')"
    using a by (simp add: Signal_fft_norm_set_def Let_def case_prod_beta)
  have len: "sid < length (sigs (snd ?na2))"
    using assms by (simp add: emit_def)
  have c1: "contents (snd ?na1) (fst ?na1) = ?v1"
    by (rule contents_new_array)
  have "contents ?st' (sig_data (sigs ?st' ! sid)) = ?v2"
    using assms by (simp add: sigs_set_sig contents_new_array)
  then have c2: "contents ?st' (sig_data (sigs ?st' ! sid))
      = normalization nx ?v1 ?n ?sr v False"
    by (simp only: c1)
  have tr: "trace ?st' = trace st @ [EvNormalization ?n ?sr ?old True, EvNormalization ?n ?sr v False]"
    by (simp add: emit_def)
  have rec: "sigs ?st' ! sid = ?s\<lparr>sig_data := sig_data (sigs ?st' ! sid), sig_fft_norm := v\<rparr>"
    by (simp add: sigs_set_sig [OF len])
  show "\<exists>st'. Signal_fft_norm_set nx sid v st = (Inr (), st')
               \<and> trace st' = trace st @ [EvNormalization ?n ?sr ?old True, EvNormalization ?n ?sr v False]
               \<and> contents st' (sig_data (sigs st' ! sid)) = normalization nx ?v1 ?n ?sr v False
               \<and> sigs st' ! sid = ?s\<lparr>sig_data := sig_data (sigs st' ! sid), sig_fft_norm := v\<rparr>"
    using run tr c2 rec by (intro exI [of _ ?st']) (simp only: simp_thms)
next
  assume a: "v \<in> set VALID_FFT_NORMS \<and> sig_fft_norm (sigs st ! sid) \<noteq> v
            \<and> sig_domain (sigs st ! sid) = ''time''"
  then show "\<exists>st'. Signal_fft_norm_set nx sid v st = (Inr (), st')
               \<and> trace st' = trace st \<and> mem st' = mem st
               \<and> sigs st' ! sid = (sigs st ! sid)\<lparr>sig_fft_norm := v\<rparr>"
    using assms by (simp add: Signal_fft_norm_set_def Let_def sigs_set_sig)
qed

theorem fft_norm_set_cases_witness:
  "0 < length (sigs (one_signal ''freq'' Complex128 [2, 5] 8 8 ''none'')) \<and>
   (\<exists>msg. Signal_fft_norm_set toy_backend 0 ''energy'' (one_signal ''freq'' Complex128 [2, 5] 8 8 ''none'')
      = (Inl (ValueError msg), one_signal ''freq'' Complex128 [2, 5] 8 8 ''none'')) \<and>
   (\<exists>st'. Signal_fft_norm_set toy_backend 0 ''amplitude'' (one_signal ''freq'' Complex128 [2, 5] 8 8 ''none'')
      = (Inr (), st')
      \<and> trace st' = [EvNormalization 8 8 ''none'' True, EvNormalization 8 8 ''amplitude'' False]
      \<and> sig_fft_norm (sigs st' ! 0) = ''amplitude'') \<and>
   (\<exists>st'. Signal_fft_norm_set toy_backend 0 ''amplitude'' (one_signal ''time'' Float64 [2, 8] 8 8 ''none'')
      = (Inr (), st')
      \<and> trace st' = [] \<and> mem st' = mem (one_signal ''time'' Float64 [2, 8] 8 8 ''none'')
      \<and> sig_fft_norm (sigs st' ! 0) = ''amplitude'')"
proof -
  let ?f = "one_signal ''freq'' Complex128 [2, 5] 8 8 ''none''"
  let ?t = "one_signal ''time'' Float64 [2, 8] 8 8 ''none''"
  have hf: "0 < length (sigs ?f)" and ht: "0 < length (sigs ?t)"
    by simp_all
  note f1 = fft_norm_set_cases [OF hf, of "''energy''" toy_backend]
  note f2 = fft_norm_set_cases [OF hf, of "''amplitude''" toy_backend]
  note t2 = fft_norm_set_cases [OF ht, of "''amplitude''" toy_backend]
  have p1: "\<exists>msg. Signal_fft_norm_set toy_backend 0 ''energy'' ?f = (Inl (ValueError msg), ?f)"
    using f1 by (simp add: VALID_FFT_NORMS_def)
  from f2 obtain st' where p2: "Signal_fft_norm_set toy_backend 0 ''amplitude'' ?f = (Inr (), st')"
      "trace st' = [EvNormalization 8 8 ''none'' True, EvNormalization 8 8 ''amplitude'' False]"
      "sigs st' ! 0 = (sigs ?f ! 0)\<lparr>sig_data := sig_data (sigs st' ! 0), sig_fft_norm := ''amplitude''\<rparr>"
    by (auto simp add: VALID_FFT_NORMS_def)
  have p2': "sig_fft_norm (sigs st' ! 0) = ''amplitude''"
    by (subst p2(3)) simp
  from t2 obtain st'' where p3: "Signal_fft_norm_set toy_backend 0 ''amplitude'' ?t = (Inr (), st'')"
      "trace st'' = []" "mem st'' = mem ?t"
      "sigs st'' ! 0 = (sigs ?t ! 0)\<lparr>sig_fft_norm := ''amplitude''\<rparr>"
    by (auto simp add: VALID_FFT_NORMS_def)
  have p3': "sig_fft_norm (sigs st'' ! 0) = ''amplitude''"
    by (subst p3(4)) simp
  show ?thesis
    using hf p1 p2(1,2) p2' p3(1,2,3) p3' by blast
qed

section \<open>Writing the frequency domain\<close>

text \<open>
  C5: a write of \<^verbatim>\<open>freq\<close> stores the value (at least two-dimensional) as the data
  with no call of a transform and sets the domain to 'freq'. When the length of the
  value's last axis differs from the current number of bins, the sample count becomes
  \<open>2 * (new bins - 1)\<close> and one warning is emitted; when it equals the current number
  of bins, the sample count stays and nothing is emitted.
\<close>

theorem freq_write_sample_count:
  assumes "sid < length (sigs st)"
  shows "(int (last (nd_shape (atleast_2d v))) \<noteq> Signal_n_bins (sigs st ! sid) \<longrightarrow>
           sig_data (sigs (Signal_freq_set sid v st) ! sid) = atleast_2d v \<and>
           sig_domain (sigs (Signal_freq_set sid v st) ! sid) = ''freq'' \<and>
           sig_n_samples (sigs (Signal_freq_set sid v st) ! sid)
             = 2 * (int (last (nd_shape (atleast_2d v))) - 1) \<and>
           trace (Signal_freq_set sid v st) = trace st @ [EvWarn ''Number of frequency bins changed, assuming an even number of samples from the number of frequency bins.''] \<and>
           mem (Signal_freq_set sid v st) = mem st)
       \<and> (int (last (nd_shape (atleast_2d v))) = Signal_n_bins (sigs st ! sid) \<longrightarrow>
           sig_data (sigs (Signal_freq_set sid v st) ! sid) = atleast_2d v \<and>
           sig_domain (sigs (Signal_freq_set sid v st) ! sid) = ''freq'' \<and>
           sig_n_samples (sigs (Signal_freq_set sid v st) ! sid) = sig_n_samples (sigs st ! sid) \<and>
           trace (Signal_freq_set sid v st) = trace st \<and>
           mem (Signal_freq_set sid v st) = mem st)"
  using assms
  by (simp add: Signal_freq_set_def FrequencyData_freq_set_def Let_def sigs_set_sig
      atleast_2d_idem Signal_n_bins_def emit_def set_sig_def)

theorem freq_write_sample_count_witness:
  "0 < length (sigs (one_signal ''freq'' Complex128 [2, 5] 8 8 ''none'')) \<and>
   sig_n_samples (sigs (Signal_freq_set 0
       \<lparr>nd_base = 0, nd_dtype = Complex128, cells = \<lparr>shape = [2, 4], elems = [0..<8]\<rparr>\<rparr>
       (one_signal ''freq'' Complex128 [2, 5] 8 8 ''none'')) ! 0) = 6 \<and>
   trace (Signal_freq_set 0
       \<lparr>nd_base = 0, nd_dtype = Complex128, cells = \<lparr>shape = [2, 4], elems = [0..<8]\<rparr>\<rparr>
       (one_signal ''freq'' Complex128 [2, 5] 8 8 ''none''))
     = [EvWarn ''Number of frequency bins changed, assuming an even number of samples from the number of frequency bins.''] \<and>
   sig_n_samples (sigs (Signal_freq_set 0
       \<lparr>nd_base = 0, nd_dtype = Complex128, cells = \<lparr>shape = [2, 5], elems = [0..<10]\<rparr>\<rparr>
       (one_signal ''freq'' Complex128 [2, 5] 8 8 ''none'')) ! 0) = 8 \<and>
   trace (Signal_freq_set 0
       \<lparr>nd_base = 0, nd_dtype = Complex128, cells = \<lparr>shape = [2, 5], elems = [0..<10]\<rparr>\<rparr>
       (one_signal ''freq'' Complex128 [2, 5] 8 8 ''none'')) = []"
proof -
  let ?st = "one_signal ''freq'' Complex128 [2, 5] 8 8 ''none''"
  have h: "0 < length (sigs ?st)"
    by simp
  note a = freq_write_sample_count [OF h,
    of "\<lparr>nd_base = 0, nd_dtype = Complex128, cells = \<lparr>shape = [2, 4], elems = [0..<8]\<rparr>\<rparr>"]
  note b = freq_write_sample_count [OF h,
    of "\<lparr>nd_base = 0, nd_dtype = Complex128, cells = \<lparr>shape = [2, 5], elems = [0..<10]\<rparr>\<rparr>"]
  show ?thesis
    using h a b
    by (simp add: Signal_n_bins_def fft_n_bins_def nd_shape_def atleast_2d_def atleast_2d_arr_def
        del: upt_rec_numeral)
qed

subsection \<open>The coordinate checks of the initialisers\<close>

lemma length_times_of [simp]: "length (times_of sr n) = nat n"
  by (simp add: times_of_def)

lemma length_fft_rfftfreq [simp]: "length (fft_rfftfreq n sr) = nat (n div 2 + 1)"
  by (simp add: fft_rfftfreq_def fft_n_bins_def)

lemma any_diff_times_of: "any_diff_le_0 (times_of sr n) \<longleftrightarrow> sr < 0 \<and> 1 < n"
proof -
  have step: "(case (times_of sr n ! i, times_of sr n ! Suc i) of
                 (Some a, Some b) \<Rightarrow> b - a \<le> 0 | _ \<Rightarrow> False) \<longleftrightarrow> sr < 0"
    if "Suc i < nat n" for i
  proof (cases "sr = 0")
    case True
    with that show ?thesis by (simp add: times_of_def np_divide_def)
  next
    case False
    have "(1 + real i) / sr - real i / sr = 1 / sr"
      by (simp add: add_divide_distrib)
    with False that show ?thesis
      by (auto simp add: times_of_def np_divide_def)
  qed
  have "any_diff_le_0 (times_of sr n) \<longleftrightarrow>
          (\<exists>i. Suc i < nat n \<and> (case (times_of sr n ! i, times_of sr n ! Suc i) of
                 (Some a, Some b) \<Rightarrow> b - a \<le> 0 | _ \<Rightarrow> False))"
    by (simp add: any_diff_le_0_def list_ex_iff Bex_def less_diff_conv)
  also have "\<dots> \<longleftrightarrow> (\<exists>i. Suc i < nat n \<and> sr < 0)"
    using step by blast
  also have "\<dots> \<longleftrightarrow> sr < 0 \<and> 1 < n"
  proof -
    have "(\<exists>i. Suc i < nat n) \<longleftrightarrow> 1 < n"
      by (rule iffI) (auto intro: exI [of _ 0])
    then show ?thesis by auto
  qed
  finally show ?thesis .
qed

lemma any_diff_fft_rfftfreq:
  assumes "0 < sr" and "0 < n"
  shows "\<not> any_diff_le_0 (fft_rfftfreq n sr)"
proof -
  have "\<not> (case (fft_rfftfreq n sr ! i, fft_rfftfreq n sr ! Suc i) of
                 (Some a, Some b) \<Rightarrow> b - a \<le> 0 | _ \<Rightarrow> False)"
    if "Suc i < nat (n div 2 + 1)" for i
  proof -
    have "(1 + real i) * sr / real_of_int n - real i * sr / real_of_int n = sr / real_of_int n"
      by (simp add: algebra_simps add_divide_distrib)
    moreover have "\<not> sr / real_of_int n \<le> 0"
      using assms by (simp add: not_le)
    ultimately show ?thesis
      using that assms by (simp add: fft_rfftfreq_def fft_n_bins_def np_divide_def)
  qed
  then show ?thesis
    by (simp add: any_diff_le_0_def list_ex_iff Bex_def less_diff_conv del: length_fft_rfftfreq)
       (simp add: fft_rfftfreq_def fft_n_bins_def)
qed

subsection \<open>What \<open>asarray\<close> and the initialisers leave behind\<close>

lemma asarray_simps [simp]:
  "sigs (snd (asarray nx a dt st)) = sigs st"
  "trace (snd (asarray nx a dt st)) = trace st"
  "nd_dtype (fst (asarray nx a dt st)) = dt"
  by (simp_all add: asarray_def)

lemma nd_shape_asarray [simp]: "nd_shape (fst (asarray nx a dt st)) = nd_shape a"
  by (simp add: asarray_def contents_def map_arr_def) (simp add: nd_shape_def)




lemma nd_shape_atleast_2d [simp]: "nd_shape (atleast_2d a) = atleast_2d_shape (nd_shape a)"
  by (simp add: nd_shape_def atleast_2d_def atleast_2d_arr_def)

lemma atleast_2d_fields [simp]:
  "nd_base (atleast_2d a) = nd_base a" "nd_dtype (atleast_2d a) = nd_dtype a"
  by (simp_all add: atleast_2d_def)

lemma check_fft_norm_Some:
  "check_fft_norm (Some v) = Inr w \<longleftrightarrow> v \<in> set VALID_FFT_NORMS \<and> w = v"
  by (auto simp add: check_fft_norm_def)

lemma check_fft_norm_Inr: "check_fft_norm f = Inr w \<Longrightarrow> w \<in> set VALID_FFT_NORMS"
  by (auto simp add: check_fft_norm_def Let_def split: if_splits option.splits)

text \<open>The time branch of the initialiser, written out.\<close>

lemma Signal_init_time:
  "Signal_init nx data sr ns ''time'' fnorm comment dt st =
     (case check_fft_norm fnorm of
        Inl e \<Rightarrow> (Inl e, snd (asarray nx data dt st))
      | Inr v \<Rightarrow>
          if sr < 0 \<and> 1 < last (atleast_2d_shape (nd_shape data))
          then (Inl (ValueError ''Times must be monotonously increasing.''),
                snd (asarray nx data dt (snd (asarray nx data dt st))))
          else new_signal
                 \<lparr>sig_comment = (case comment of None \<Rightarrow> ''none'' | Some c \<Rightarrow> c), sig_dtype = dt,
                  sig_domain = ''time'',
                  sig_data = atleast_2d (fst (asarray nx data dt (snd (asarray nx data dt st)))),
                  sig_sampling_rate = sr,
                  sig_n_samples = int (last (atleast_2d_shape (nd_shape data))),
                  sig_fft_norm = v\<rparr>
                 (snd (asarray nx data dt (snd (asarray nx data dt st)))))"
  by (auto simp add: Signal_init_def Audio_init_def TimeData_init_def VALID_DOMAINS_def Let_def
      case_prod_beta any_diff_times_of split: sum.splits)

text \<open>The frequency branch of the initialiser with a sample count given, written out.\<close>

lemma Signal_init_freq:
  assumes "0 < sr" and "0 < n"
  shows "Signal_init nx data sr (Some n) ''freq'' fnorm comment dt st =
     (if n > 2 * int (last (atleast_2d_shape (nd_shape data))) - 1
      then (Inl (ValueError ''n_samples can not be larger than 2 * data.shape[-1] - 2''),
            snd (asarray nx data Complex128 st))
      else
        (case check_fft_norm fnorm of
           Inl e \<Rightarrow> (Inl e, snd (asarray nx data Complex128 (snd (asarray nx data Complex128 st))))
         | Inr v \<Rightarrow>
             new_signal
               \<lparr>sig_comment = (case comment of None \<Rightarrow> ''none'' | Some c \<Rightarrow> c), sig_dtype = dt,
                sig_domain = ''freq'',
                sig_data = atleast_2d (fst (asarray nx data Complex128 (snd (asarray nx data Complex128 st)))),
                sig_sampling_rate = sr, sig_n_samples = n, sig_fft_norm = v\<rparr>
               (snd (asarray nx data Complex128 (snd (asarray nx data Complex128 st))))))"
proof -
  have "int (nat (n div 2 + 1)) = fft_n_bins n"
    using assms(2) by (simp add: fft_n_bins_def)
  then show ?thesis
    using any_diff_fft_rfftfreq [OF assms]
    by (auto simp add: Signal_init_def Audio_init_def FrequencyData_init_def VALID_DOMAINS_def
        Let_def case_prod_beta split: sum.splits)
qed


lemma new_signal_simps [simp]:
  "fst (new_signal s st) = Inr (length (sigs st))"
  "sigs (snd (new_signal s st)) = sigs st @ [s]"
  "mem (snd (new_signal s st)) = mem st"
  "trace (snd (new_signal s st)) = trace st"
  by (simp_all add: new_signal_def)

lemma new_signal_eq: "new_signal s st = (Inr r, st') \<longleftrightarrow>
    r = length (sigs st) \<and> st' = st\<lparr>sigs := sigs st @ [s]\<rparr>"
  by (auto simp add: new_signal_def)

text \<open>What a successful initialisation returns and stores, whatever the branch.\<close>

lemma Signal_init_Inr:
  assumes "Signal_init nx data sr ns domain fnorm comment dt st = (Inr r, st')"
  shows "r = length (sigs st)"
    and "\<exists>s. sigs st' = sigs st @ [s]"
    and "sig_sampling_rate (sigs st' ! r) = sr"
    and "sig_domain (sigs st' ! r) = domain"
    and "check_fft_norm fnorm = Inr (sig_fft_norm (sigs st' ! r))"
    and "sig_dtype (sigs st' ! r) = dt"
    and "nd_shape (sig_data (sigs st' ! r)) = atleast_2d_shape (nd_shape data)"
    and "domain = ''time'' \<or> domain = ''freq''"
    and "domain = ''time'' \<Longrightarrow>
           sig_n_samples (sigs st' ! r) = int (last (atleast_2d_shape (nd_shape data)))"
    and "domain = ''freq'' \<Longrightarrow>
           sig_n_samples (sigs st' ! r) =
             (case ns of Some n \<Rightarrow> n | None \<Rightarrow> (int (last (atleast_2d_shape (nd_shape data))) - 1) * 2)"
  using assms
  by (auto simp add: Signal_init_def Audio_init_def TimeData_init_def FrequencyData_init_def
      VALID_DOMAINS_def Let_def case_prod_beta new_signal_eq
      split: sum.splits if_splits option.splits)





section \<open>The sample count given with frequency data\<close>

text \<open>
  C10: a Signal built from frequency data with the sample count \<open>n\<close> given, where
  \<open>n_bins\<close> is the length of the last axis of the data (at least two-dimensional): the
  construction raises ValueError when \<open>n > 2 * n_bins - 1\<close>, and in every other case
  returns a new Signal with sample count \<open>n\<close> and emits nothing, whether or not
  \<open>n_bins = floor(n / 2) + 1\<close>. So \<open>n = 2 * n_bins - 1\<close> is accepted, while the message
  names the bound \<open>2 * data.shape[-1] - 2\<close>. The sampling rate and the sample count
  are positive and the normalization is absent or valid, as the data model has them.
\<close>

theorem Signal_init_freq_sample_count:
  assumes "0 < sr" and "0 < n" and "check_fft_norm fnorm = Inr v"
  shows "(n > 2 * int (last (nd_shape (atleast_2d data))) - 1 \<longrightarrow>
            fst (Signal_init nx data sr (Some n) ''freq'' fnorm comment dt st)
              = Inl (ValueError ''n_samples can not be larger than 2 * data.shape[-1] - 2''))
       \<and> (n \<le> 2 * int (last (nd_shape (atleast_2d data))) - 1 \<longrightarrow>
            (\<exists>st'. Signal_init nx data sr (Some n) ''freq'' fnorm comment dt st
                      = (Inr (length (sigs st)), st')
               \<and> sig_n_samples (sigs st' ! length (sigs st)) = n
               \<and> sig_domain (sigs st' ! length (sigs st)) = ''freq''
               \<and> nd_shape (sig_data (sigs st' ! length (sigs st))) = nd_shape (atleast_2d data)
               \<and> trace st' = trace st))"
  using assms(3)
  by (simp add: Signal_init_freq [OF assms(1,2)] new_signal_def)

theorem Signal_init_freq_sample_count_witness:
  "(0::real) < 8 \<and> (0::int) < 9 \<and> check_fft_norm None = Inr ''none'' \<and>
   fst (Signal_init toy_backend (sig_data (sigs (one_signal ''freq'' Complex128 [2, 5] 8 8 ''none'') ! 0))
          8 (Some 10) ''freq'' None None Float64 (one_signal ''freq'' Complex128 [2, 5] 8 8 ''none''))
     = Inl (ValueError ''n_samples can not be larger than 2 * data.shape[-1] - 2'') \<and>
   (\<exists>st'. Signal_init toy_backend (sig_data (sigs (one_signal ''freq'' Complex128 [2, 5] 8 8 ''none'') ! 0))
          8 (Some 9) ''freq'' None None Float64 (one_signal ''freq'' Complex128 [2, 5] 8 8 ''none'')
        = (Inr 1, st') \<and> sig_n_samples (sigs st' ! 1) = 9 \<and> trace st' = []) \<and>
   (\<exists>st'. Signal_init toy_backend (sig_data (sigs (one_signal ''freq'' Complex128 [2, 5] 8 8 ''none'') ! 0))
          8 (Some 3) ''freq'' None None Float64 (one_signal ''freq'' Complex128 [2, 5] 8 8 ''none'')
        = (Inr 1, st') \<and> sig_n_samples (sigs st' ! 1) = 3 \<and> trace st' = [])"
proof -
  let ?st = "one_signal ''freq'' Complex128 [2, 5] 8 8 ''none''"
  let ?d = "sig_data (sigs ?st ! 0)"
  have c: "check_fft_norm None = Inr ''none''"
    by (simp add: check_fft_norm_def VALID_FFT_NORMS_def)
  have sh: "nd_shape (atleast_2d ?d) = [2, 5]"
    by simp
  note a = Signal_init_freq_sample_count [of 8 10 None "''none''" ?d toy_backend None Float64 ?st]
  note b = Signal_init_freq_sample_count [of 8 9 None "''none''" ?d toy_backend None Float64 ?st]
  note d = Signal_init_freq_sample_count [of 8 3 None "''none''" ?d toy_backend None Float64 ?st]
  have p1: "fst (Signal_init toy_backend ?d 8 (Some 10) ''freq'' None None Float64 ?st)
     = Inl (ValueError ''n_samples can not be larger than 2 * data.shape[-1] - 2'')"
    using a c by (simp add: sh)
  have p2: "\<exists>st'. Signal_init toy_backend ?d 8 (Some 9) ''freq'' None None Float64 ?st = (Inr 1, st')
        \<and> sig_n_samples (sigs st' ! 1) = 9 \<and> trace st' = []"
    using b c by (simp add: sh) blast
  have p3: "\<exists>st'. Signal_init toy_backend ?d 8 (Some 3) ''freq'' None None Float64 ?st = (Inr 1, st')
        \<and> sig_n_samples (sigs st' ! 1) = 3 \<and> trace st' = []"
    using d c by (simp add: sh) blast
  show ?thesis
    using p1 p2 p3 c by simp
qed

subsection \<open>The validation loop of the arithmetic functions\<close>

text \<open>Every error of the validation is a ValueError.\<close>

lemma assert_match_loop_error:
  "assert_match_loop ss domain acc ds = Inl e \<Longrightarrow> \<exists>msg. e = ValueError msg"
proof (induction ss domain acc ds rule: assert_match_loop.induct)
  case (1 ss domain acc)
  then show ?case by simp
next
  case (2 ss domain acc i ds)
  then show ?case
    by (auto simp add: Let_def split: option.splits if_splits sum.splits prod.splits)
next
  case (3 ss domain acc v ds)
  then show ?case
    by (auto split: if_splits)
qed

text \<open>Once a Signal has been seen, the sampling rate and the sample count are kept.\<close>

lemma assert_match_loop_keeps:
  "assert_match_loop ss domain (Some (sr, n, f)) ds = Inr m \<Longrightarrow> \<exists>g. m = Some (sr, n, g)"
proof (induction ds arbitrary: f)
  case Nil
  then show ?case by auto
next
  case (Cons d ds)
  then show ?case
    by (cases d) (auto simp add: Let_def split: if_splits)
qed

lemma assert_match_loop_Some_agree:
  assumes "assert_match_loop ss domain (Some (sr, n, f)) ds = Inr m"
    and "OSignal i \<in> set ds"
  shows "sig_sampling_rate (ss ! i) = sr \<and> sig_n_samples (ss ! i) = n"
  using assms
proof (induction ds arbitrary: f)
  case Nil
  then show ?case by simp
next
  case (Cons d ds)
  then show ?case
    by (cases d) (auto simp add: Let_def split: if_splits)
qed

lemma assert_match_loop_None_agree:
  assumes "assert_match_loop ss domain None ds = Inr m"
    and "OSignal i \<in> set ds"
  shows "\<exists>g. m = Some (sig_sampling_rate (ss ! i), sig_n_samples (ss ! i), g)"
  using assms
proof (induction ds)
  case Nil
  then show ?case by simp
next
  case (Cons d ds)
  show ?case
  proof (cases d)
    case (OSignal j)
    let ?f = "sig_fft_norm (ss ! j)"
    from Cons.prems(1) OSignal
    have run: "assert_match_loop ss domain
                 (Some (sig_sampling_rate (ss ! j), sig_n_samples (ss ! j), ?f)) ds = Inr m"
      by (simp add: Let_def)
    from assert_match_loop_keeps [OF run]
    obtain g where m: "m = Some (sig_sampling_rate (ss ! j), sig_n_samples (ss ! j), g)"
      by blast
    show ?thesis
    proof (cases "i = j")
      case True
      with m show ?thesis by simp
    next
      case False
      with Cons.prems(2) OSignal have "OSignal i \<in> set ds"
        by simp
      from assert_match_loop_Some_agree [OF run this] m show ?thesis
        by simp
    qed
  next
    case (OArray v)
    with Cons show ?thesis
      by (auto split: if_splits)
  qed
qed


lemma assert_match_loop_mismatch:
  assumes "OSignal a \<in> set ds" and "OSignal b \<in> set ds"
    and "sig_sampling_rate (ss ! a) \<noteq> sig_sampling_rate (ss ! b)
         \<or> sig_n_samples (ss ! a) \<noteq> sig_n_samples (ss ! b)"
  shows "\<exists>msg. assert_match_loop ss domain None ds = Inl (ValueError msg)"
proof (cases "assert_match_loop ss domain None ds")
  case (Inl e)
  with assert_match_loop_error [OF Inl] show ?thesis
    by auto
next
  case (Inr m)
  from assert_match_loop_None_agree [OF Inr assms(1)]
       assert_match_loop_None_agree [OF Inr assms(2)] assms(3)
  show ?thesis
    by auto
qed

text \<open>With every other operand of an accepted kind, the error is one of the two mismatches.\<close>

lemma assert_match_loop_mismatch_message:
  assumes "assert_match_loop ss domain acc ds = Inl e"
    and "\<forall>v. OArray v \<in> set ds \<longrightarrow> fst v \<in> set arithmetic_dtypes \<and>
              \<not> (fst v \<in> set [Complex64, Complex128] \<and> domain = ''time'')"
  shows "e = ValueError ''The sampling rates do not match.''
       \<or> e = ValueError ''The number of samples does not match.''"
  using assms
proof (induction ds arbitrary: acc)
  case Nil
  then show ?case by simp
next
  case (Cons d ds)
  have rest: "\<forall>v. OArray v \<in> set ds \<longrightarrow> fst v \<in> set arithmetic_dtypes \<and>
              \<not> (fst v \<in> set [Complex64, Complex128] \<and> domain = ''time'')"
    using Cons.prems(2) by simp
  show ?case
  proof (cases d)
    case (OArray v)
    then have "OArray v \<in> set (d # ds)"
      by simp
    from Cons.prems(2) [rule_format, OF this]
    have "fst v \<in> set arithmetic_dtypes"
      and "\<not> (fst v \<in> set [Complex64, Complex128] \<and> domain = ''time'')"
      by blast+
    with Cons.prems(1) OArray have "assert_match_loop ss domain acc ds = Inl e"
      by auto
    from Cons.IH [OF this rest] show ?thesis .
  next
    case (OSignal i)
    show ?thesis
    proof (cases acc)
      case None
      with Cons.prems(1) OSignal
      have "assert_match_loop ss domain
              (Some (sig_sampling_rate (ss ! i), sig_n_samples (ss ! i), sig_fft_norm (ss ! i))) ds
            = Inl e"
        by (simp add: Let_def)
      from Cons.IH [OF this rest] show ?thesis .
    next
      case (Some t)
      obtain sr n f where t: "t = (sr, n, f)"
        by (cases t)
      consider "sr \<noteq> sig_sampling_rate (ss ! i)"
        | "sr = sig_sampling_rate (ss ! i)" "n \<noteq> sig_n_samples (ss ! i)"
        | "sr = sig_sampling_rate (ss ! i)" "n = sig_n_samples (ss ! i)"
        by blast
      then show ?thesis
      proof cases
        case 1
        with Cons.prems(1) OSignal Some t show ?thesis
          by (simp add: Let_def)
      next
        case 2
        with Cons.prems(1) OSignal Some t show ?thesis
          by (simp add: Let_def)
      next
        case 3
        with Cons.prems(1) OSignal Some t
        have "assert_match_loop ss domain
                (Some (sr, n, if sig_fft_norm (ss ! i) \<noteq> ''none'' \<and> f = ''none''
                              then sig_fft_norm (ss ! i) else f)) ds = Inl e"
          by (simp add: Let_def)
        from Cons.IH [OF this rest] show ?thesis .
      qed
    qed
  qed
qed

lemma arithmetic_functions_cases:
  assumes "f \<in> set (arithmetic_functions nx)"
  shows "\<exists>operation. \<forall>data domain st. f data domain st = arithmetic nx data domain operation st"
proof -
  from assms consider "f = add_signals nx" | "f = subtract_signals nx" | "f = multiply_signals nx"
    | "f = divide_signals nx" | "f = power_signals nx"
    by (auto simp add: arithmetic_functions_def)
  then show ?thesis
  proof cases
    case 1
    then show ?thesis by (intro exI [of _ "add_op nx"]) (simp add: add_signals_def)
  next
    case 2
    then show ?thesis by (intro exI [of _ "subtract_op nx"]) (simp add: subtract_signals_def)
  next
    case 3
    then show ?thesis by (intro exI [of _ "multiply_op nx"]) (simp add: multiply_signals_def)
  next
    case 4
    then show ?thesis by (intro exI [of _ "divide_op nx"]) (simp add: divide_signals_def)
  next
    case 5
    then show ?thesis by (intro exI [of _ "power_op nx"]) (simp add: power_signals_def)
  qed
qed

lemma two_signals_simps [simp]:
  "length (sigs (two_signals d k sh sr n fnorm sr2 n2)) = 2"
  "sig_domain (sigs (two_signals d k sh sr n fnorm sr2 n2) ! 0) = d"
  "sig_domain (sigs (two_signals d k sh sr n fnorm sr2 n2) ! Suc 0) = d"
  "sig_n_samples (sigs (two_signals d k sh sr n fnorm sr2 n2) ! 0) = n"
  "sig_n_samples (sigs (two_signals d k sh sr n fnorm sr2 n2) ! Suc 0) = n2"
  "sig_sampling_rate (sigs (two_signals d k sh sr n fnorm sr2 n2) ! 0) = sr"
  "sig_sampling_rate (sigs (two_signals d k sh sr n fnorm sr2 n2) ! Suc 0) = sr2"
  "sig_fft_norm (sigs (two_signals d k sh sr n fnorm sr2 n2) ! 0) = fnorm"
  "sig_fft_norm (sigs (two_signals d k sh sr n fnorm sr2 n2) ! Suc 0) = fnorm"
  "nd_shape (sig_data (sigs (two_signals d k sh sr n fnorm sr2 n2) ! 0)) = sh"
  "nd_shape (sig_data (sigs (two_signals d k sh sr n fnorm sr2 n2) ! Suc 0)) = sh"
  "trace (two_signals d k sh sr n fnorm sr2 n2) = []"
  by (simp_all add: two_signals_def nd_shape_def)

section \<open>Operands that disagree\<close>

text \<open>
  C6: when two Signal operands of an arithmetic function differ in sampling rate or in
  sample count, each of add, subtract, multiply, divide and power raises ValueError and
  returns the state as it was: no domain is converted, no transform or normalization is
  called and nothing is combined. With a valid domain and every other operand of an
  accepted kind, the message is that of the mismatch, the sampling rates or the number
  of samples.
\<close>

theorem arithmetic_rejects_mismatch:
  assumes "OSignal a \<in> set data" and "OSignal b \<in> set data"
    and "sig_sampling_rate (sigs st ! a) \<noteq> sig_sampling_rate (sigs st ! b)
         \<or> sig_n_samples (sigs st ! a) \<noteq> sig_n_samples (sigs st ! b)"
  shows "\<forall>f \<in> set (arithmetic_functions nx).
           \<exists>msg. f data domain st = (Inl (ValueError msg), st)
             \<and> ((domain = ''time'' \<or> domain = ''freq'')
                  \<and> (\<forall>v. OArray v \<in> set data \<longrightarrow> fst v \<in> set arithmetic_dtypes \<and>
                         \<not> (fst v \<in> set [Complex64, Complex128] \<and> domain = ''time''))
                \<longrightarrow> msg = ''The sampling rates do not match.''
                  \<or> msg = ''The number of samples does not match.'')"
proof
  fix f :: "'a operand list \<Rightarrow> string \<Rightarrow> 'a state \<Rightarrow> (error + 'a outcome) \<times> 'a state"
  assume "f \<in> set (arithmetic_functions nx)"
  then obtain operation where f: "f data domain st = arithmetic nx data domain operation st"
    using arithmetic_functions_cases by blast
  from assert_match_loop_mismatch [OF assms, of domain]
  obtain msg where loop: "assert_match_loop (sigs st) domain None data = Inl (ValueError msg)"
    by blast
  have fails: "\<exists>m. assert_match_for_arithmetic st data domain = Inl (ValueError m)
      \<and> ((domain = ''time'' \<or> domain = ''freq'') \<longrightarrow> m = msg)"
    using loop by (auto simp add: assert_match_for_arithmetic_def)
  then obtain m where m: "assert_match_for_arithmetic st data domain = Inl (ValueError m)"
    and mm: "(domain = ''time'' \<or> domain = ''freq'') \<longrightarrow> m = msg"
    by blast
  have run: "f data domain st = (Inl (ValueError m), st)"
    by (simp add: f arithmetic_def m)
  have "m = ''The sampling rates do not match.'' \<or> m = ''The number of samples does not match.''"
    if "domain = ''time'' \<or> domain = ''freq''"
      and "\<forall>v. OArray v \<in> set data \<longrightarrow> fst v \<in> set arithmetic_dtypes \<and>
                         \<not> (fst v \<in> set [Complex64, Complex128] \<and> domain = ''time'')"
    using assert_match_loop_mismatch_message [OF loop that(2)] mm that(1) by simp
  with run show "\<exists>msg. f data domain st = (Inl (ValueError msg), st)
             \<and> ((domain = ''time'' \<or> domain = ''freq'')
                  \<and> (\<forall>v. OArray v \<in> set data \<longrightarrow> fst v \<in> set arithmetic_dtypes \<and>
                         \<not> (fst v \<in> set [Complex64, Complex128] \<and> domain = ''time''))
                \<longrightarrow> msg = ''The sampling rates do not match.''
                  \<or> msg = ''The number of samples does not match.'')"
    by blast
qed

theorem arithmetic_rejects_mismatch_witness:
  "OSignal 0 \<in> set [OSignal 0, OSignal 1 :: real operand] \<and>
   OSignal 1 \<in> set [OSignal 0, OSignal 1 :: real operand] \<and>
   sig_sampling_rate (sigs (two_signals ''time'' Float64 [1, 1024] 48000 1024 ''none'' 44100 1024) ! 0)
     \<noteq> sig_sampling_rate (sigs (two_signals ''time'' Float64 [1, 1024] 48000 1024 ''none'' 44100 1024) ! 1) \<and>
   add_signals toy_backend [OSignal 0, OSignal 1] ''freq''
       (two_signals ''time'' Float64 [1, 1024] 48000 1024 ''none'' 44100 1024)
     = (Inl (ValueError ''The sampling rates do not match.''),
        two_signals ''time'' Float64 [1, 1024] 48000 1024 ''none'' 44100 1024)"
proof -
  define st where "st = two_signals ''time'' Float64 [1, 1024] 48000 1024 ''none'' 44100 1024"
  let ?data = "[OSignal 0, OSignal 1 :: real operand]"
  have h1: "OSignal 0 \<in> set ?data" and h2: "OSignal 1 \<in> set ?data"
    by simp_all
  have rates: "sig_sampling_rate (sigs st ! 0) = 48000" "sig_sampling_rate (sigs st ! 1) = 44100"
    and counts: "sig_n_samples (sigs st ! 0) = 1024" "sig_n_samples (sigs st ! 1) = 1024"
    by (simp_all add: st_def)
  have h3: "sig_sampling_rate (sigs st ! 0) \<noteq> sig_sampling_rate (sigs st ! 1)
         \<or> sig_n_samples (sigs st ! 0) \<noteq> sig_n_samples (sigs st ! 1)"
    using rates by simp
  have mem: "add_signals toy_backend \<in> set (arithmetic_functions toy_backend)"
    by (simp add: arithmetic_functions_def)
  have arrays: "\<forall>v. OArray v \<in> set ?data \<longrightarrow> fst v \<in> set arithmetic_dtypes \<and>
                         \<not> (fst v \<in> set [Complex64, Complex128] \<and> ''freq'' = ''time'')"
    by simp
  note T = arithmetic_rejects_mismatch [OF h1 h2 h3, of toy_backend "''freq''", THEN bspec, OF mem]
  then obtain msg where r: "add_signals toy_backend ?data ''freq'' st = (Inl (ValueError msg), st)"
    and m: "(''freq'' = ''time'' \<or> ''freq'' = ''freq'')
                  \<and> (\<forall>v. OArray v \<in> set ?data \<longrightarrow> fst v \<in> set arithmetic_dtypes \<and>
                         \<not> (fst v \<in> set [Complex64, Complex128] \<and> ''freq'' = ''time''))
          \<longrightarrow> msg = ''The sampling rates do not match.'' \<or> msg = ''The number of samples does not match.''"
    by (elim exE conjE)
  have loop: "assert_match_loop (sigs st) ''freq'' None ?data
      = Inl (ValueError ''The sampling rates do not match.'')"
    using rates counts by (simp add: Let_def)
  have "assert_match_for_arithmetic st ?data ''freq''
      = Inl (ValueError ''The sampling rates do not match.'')"
    unfolding assert_match_for_arithmetic_def loop by simp
  then have "add_signals toy_backend ?data ''freq'' st
      = (Inl (ValueError ''The sampling rates do not match.''), st)"
    by (simp add: add_signals_def arithmetic_def)
  with r have res: "add_signals toy_backend ?data ''freq'' st
      = (Inl (ValueError ''The sampling rates do not match.''), st)"
    by simp
  have neq: "sig_sampling_rate (sigs st ! 0) \<noteq> sig_sampling_rate (sigs st ! 1)"
    by (simp only: rates)
  show ?thesis
    unfolding st_def [symmetric] by (intro conjI h1 h2 neq res)
qed

lemma assert_match_loop_skip:
  assumes "fst v \<in> set arithmetic_dtypes"
    and "\<not> (fst v \<in> set [Complex64, Complex128] \<and> domain = ''time'')"
  shows "assert_match_loop ss domain acc (pre @ OArray v # post)
       = assert_match_loop ss domain acc (pre @ post)"
proof (induction pre arbitrary: acc)
  case Nil
  from assms show ?case by auto
next
  case (Cons d pre)
  show ?case
  proof (cases d)
    case (OArray w)
    then show ?thesis by (simp add: Cons.IH)
  next
    case (OSignal i)
    then show ?thesis
      by (simp add: Cons.IH Let_def split: option.splits sum.splits prod.splits)
  qed
qed

lemma assert_match_loop_bad_kind:
  assumes "fst v \<notin> set arithmetic_dtypes
           \<or> (fst v \<in> set [Complex64, Complex128] \<and> domain = ''time'')"
  shows "\<exists>msg. assert_match_loop ss domain acc (pre @ OArray v # post) = Inl (ValueError msg)"
proof (cases "assert_match_loop ss domain acc (pre @ OArray v # post)")
  case (Inl e)
  with assert_match_loop_error [OF Inl] show ?thesis by auto
next
  case (Inr m)
  have "\<not> (\<exists>m. assert_match_loop ss domain acc (pre @ OArray v # post) = Inr m)"
  proof (induction pre arbitrary: acc)
    case Nil
    from assms show ?case by auto
  next
    case (Cons d pre)
    show ?case
    proof (cases d)
      case (OArray w)
      with Cons.IH show ?thesis by auto
    next
      case (OSignal i)
      with Cons.IH show ?thesis
        by (auto simp add: Let_def split: option.splits sum.splits prod.splits if_splits)
    qed
  qed
  with Inr show ?thesis by blast
qed

section \<open>The kinds of the other operands\<close>

text \<open>
  C7, as the code has it: an operand that is not a Signal is accepted when its kind is
  int8, int16, int32, int64, float32 or float64, or complex64 or complex128 with a target
  domain other than 'time'; the validation then goes on as if the operand were not
  there. An operand of any other kind, the unsigned integers among them, and a complex
  operand in the time domain make each of add, subtract, multiply, divide and power
  raise ValueError and return the state as it was.
\<close>

theorem operand_kinds:
  "(fst v \<in> {Int8, Int16, Int32, Int64, Float32, Float64}
      \<or> (fst v \<in> {Complex64, Complex128} \<and> domain \<noteq> ''time'')
    \<longrightarrow> assert_match_for_arithmetic st (pre @ OArray v # post) domain
        = assert_match_for_arithmetic st (pre @ post) domain)
   \<and> (\<not> (fst v \<in> {Int8, Int16, Int32, Int64, Float32, Float64}
          \<or> (fst v \<in> {Complex64, Complex128} \<and> domain \<noteq> ''time''))
    \<longrightarrow> (\<forall>f \<in> set (arithmetic_functions nx).
           \<exists>msg. f (pre @ OArray v # post) domain st = (Inl (ValueError msg), st)))"
proof (intro conjI impI)
  assume ok: "fst v \<in> {Int8, Int16, Int32, Int64, Float32, Float64}
      \<or> (fst v \<in> {Complex64, Complex128} \<and> domain \<noteq> ''time'')"
  then have "fst v \<in> set arithmetic_dtypes"
    and "\<not> (fst v \<in> set [Complex64, Complex128] \<and> domain = ''time'')"
    by (auto simp add: arithmetic_dtypes_def)
  from assert_match_loop_skip [OF this, of "sigs st" None pre post]
  show "assert_match_for_arithmetic st (pre @ OArray v # post) domain
        = assert_match_for_arithmetic st (pre @ post) domain"
    by (simp only: assert_match_for_arithmetic_def)
next
  assume bad: "\<not> (fst v \<in> {Int8, Int16, Int32, Int64, Float32, Float64}
          \<or> (fst v \<in> {Complex64, Complex128} \<and> domain \<noteq> ''time''))"
  then have "fst v \<notin> set arithmetic_dtypes
           \<or> (fst v \<in> set [Complex64, Complex128] \<and> domain = ''time'')"
    by (auto simp add: arithmetic_dtypes_def)
  from assert_match_loop_bad_kind [OF this, of "sigs st" None pre post]
  obtain msg where "assert_match_loop (sigs st) domain None (pre @ OArray v # post)
      = Inl (ValueError msg)"
    by blast
  then have fails: "\<exists>m. assert_match_for_arithmetic st (pre @ OArray v # post) domain
      = Inl (ValueError m)"
    by (simp add: assert_match_for_arithmetic_def)
  show "\<forall>f \<in> set (arithmetic_functions nx).
           \<exists>msg. f (pre @ OArray v # post) domain st = (Inl (ValueError msg), st)"
  proof
    fix f :: "'a operand list \<Rightarrow> string \<Rightarrow> 'a state \<Rightarrow> (error + 'a outcome) \<times> 'a state"
    assume "f \<in> set (arithmetic_functions nx)"
    then obtain operation
      where f: "f (pre @ OArray v # post) domain st
                  = arithmetic nx (pre @ OArray v # post) domain operation st"
      using arithmetic_functions_cases by blast
    from fails obtain m where "assert_match_for_arithmetic st (pre @ OArray v # post) domain
      = Inl (ValueError m)"
      by blast
    then have "f (pre @ OArray v # post) domain st = (Inl (ValueError m), st)"
      by (simp add: f arithmetic_def)
    then show "\<exists>msg. f (pre @ OArray v # post) domain st = (Inl (ValueError msg), st)"
      by blast
  qed
qed

theorem operand_kinds_witness:
  "assert_match_for_arithmetic (one_signal ''freq'' Complex128 [1, 5] 8 8 ''none'')
       ([OSignal 0] @ OArray (Float64, \<lparr>shape = [], elems = [2]\<rparr>) # []) ''freq''
     = assert_match_for_arithmetic (one_signal ''freq'' Complex128 [1, 5] 8 8 ''none'')
       ([OSignal 0] @ []) ''freq'' \<and>
   (\<exists>msg. multiply_signals toy_backend
       ([OSignal 0] @ OArray (UInt8, \<lparr>shape = [], elems = [2]\<rparr>) # []) ''freq''
       (one_signal ''freq'' Complex128 [1, 5] 8 8 ''none'')
     = (Inl (ValueError msg), one_signal ''freq'' Complex128 [1, 5] 8 8 ''none''))"
proof -
  define st where "st = one_signal ''freq'' Complex128 [1, 5] 8 8 ''none''"
  let ?sc = "\<lparr>shape = [], elems = [2::real]\<rparr>"
  note a = operand_kinds [of "(Float64, ?sc)" "''freq''" st "[OSignal 0]" "[]" toy_backend]
  note b = operand_kinds [of "(UInt8, ?sc)" "''freq''" st "[OSignal 0]" "[]" toy_backend]
  have p1: "assert_match_for_arithmetic st ([OSignal 0] @ OArray (Float64, ?sc) # []) ''freq''
     = assert_match_for_arithmetic st ([OSignal 0] @ []) ''freq''"
    using a [THEN conjunct1] by simp
  have "\<forall>f \<in> set (arithmetic_functions toy_backend).
           \<exists>msg. f ([OSignal 0] @ OArray (UInt8, ?sc) # []) ''freq'' st = (Inl (ValueError msg), st)"
    using b [THEN conjunct2] by simp
  moreover have "multiply_signals toy_backend \<in> set (arithmetic_functions toy_backend)"
    by (simp add: arithmetic_functions_def)
  ultimately have p2: "\<exists>msg. multiply_signals toy_backend
       ([OSignal 0] @ OArray (UInt8, ?sc) # []) ''freq'' st = (Inl (ValueError msg), st)"
    by (rule bspec)
  show ?thesis
    unfolding st_def [symmetric] by (intro conjI p1 p2)
qed

text \<open>
  The claim as stated fails on an unsigned integer: multiplying a Signal by a number of
  kind uint8 raises ValueError.
\<close>

theorem unsigned_operand_counterexample:
  "multiply_signals toy_backend [OSignal 0, OArray (UInt8, \<lparr>shape = [], elems = [2]\<rparr>)] ''freq''
       (one_signal ''freq'' Complex128 [1, 5] 8 8 ''none'')
     = (Inl (ValueError ''Input must be of type Signal, int8, int16, int32, int64, float32, float64, complex64, complex128''),
        one_signal ''freq'' Complex128 [1, 5] 8 8 ''none'')"
  by (simp add: multiply_signals_def arithmetic_def assert_match_for_arithmetic_def
      arithmetic_dtypes_def Let_def)

subsection \<open>What the validation returns\<close>

lemma first_not_none_Cons:
  "first_not_none (f # vs) = (if f \<noteq> ''none'' then f else first_not_none vs)"
  by (simp add: first_not_none_def)

lemma assert_match_loop_Some_norm:
  "assert_match_loop ss domain (Some (sr, n, f)) ds = Inr m \<Longrightarrow>
   m = Some (sr, n, first_not_none (f # map (\<lambda>i. sig_fft_norm (ss ! i)) (signal_operands ds)))"
proof (induction ds arbitrary: f)
  case Nil
  then show ?case by (auto simp add: first_not_none_def)
next
  case (Cons d ds)
  show ?case
  proof (cases d)
    case (OArray v)
    with Cons.prems have "assert_match_loop ss domain (Some (sr, n, f)) ds = Inr m"
      by (auto split: if_splits)
    from Cons.IH [OF this] OArray show ?thesis by simp
  next
    case (OSignal i)
    let ?g = "if sig_fft_norm (ss ! i) \<noteq> ''none'' \<and> f = ''none'' then sig_fft_norm (ss ! i) else f"
    from Cons.prems OSignal have "assert_match_loop ss domain (Some (sr, n, ?g)) ds = Inr m"
      by (auto simp add: Let_def split: if_splits)
    from Cons.IH [OF this] OSignal show ?thesis
      by (simp add: first_not_none_Cons)
  qed
qed

lemma assert_match_loop_None_norm:
  assumes "assert_match_loop ss domain None ds = Inr m" and "OSignal i \<in> set ds"
  shows "m = Some (sig_sampling_rate (ss ! i), sig_n_samples (ss ! i),
                   first_not_none (map (\<lambda>j. sig_fft_norm (ss ! j)) (signal_operands ds)))"
proof -
  have "\<exists>sr n. m = Some (sr, n, first_not_none (map (\<lambda>j. sig_fft_norm (ss ! j)) (signal_operands ds)))"
    using assms
  proof (induction ds)
    case Nil
    then show ?case by simp
  next
    case (Cons d ds)
    show ?case
    proof (cases d)
      case (OArray v)
      with Cons.prems have "assert_match_loop ss domain None ds = Inr m" and "OSignal i \<in> set ds"
        by (auto split: if_splits)
      from Cons.IH [OF this] OArray show ?thesis by simp
    next
      case (OSignal j)
      with Cons.prems(1)
      have "assert_match_loop ss domain
              (Some (sig_sampling_rate (ss ! j), sig_n_samples (ss ! j), sig_fft_norm (ss ! j))) ds
            = Inr m"
        by (simp add: Let_def)
      from assert_match_loop_Some_norm [OF this] OSignal show ?thesis
        by simp
    qed
  qed
  with assert_match_loop_None_agree [OF assms] show ?thesis
    by auto
qed

subsection \<open>The result of the arithmetic functions\<close>

lemma arithmetic_Inr_Signal:
  assumes "arithmetic nx data domain operation st = (Inr out, st')"
    and "assert_match_for_arithmetic st data domain = Inr (Some (sr, n, fnorm))"
  shows "\<exists>a st4 r. Signal_init nx a sr (Some n) domain (Some fnorm) None Float64 st4 = (Inr r, st')
            \<and> out = RSignal r"
  using assms
  by (auto simp add: arithmetic_def split: list.splits sum.splits prod.splits)

subsection \<open>Facts for the examples\<close>

lemma contents_simps [simp]:
  "fst (contents st a) = nd_dtype a"
  "shape (snd (contents st a)) = nd_shape a"
  by (simp_all add: contents_def map_arr_def nd_shape_def)

lemma Signal_time_in_time:
  "sig_domain (sigs st ! sid) = ''time'' \<Longrightarrow>
   Signal_time nx sid st = (Inr (sig_data (sigs st ! sid)), st)"
  by (simp add: Signal_time_def Signal_domain_set_def VALID_DOMAINS_def)

lemma one_signal_data_dtype [simp]:
  "nd_dtype (sig_data (sigs (one_signal d k sh sr n fnorm) ! 0)) = k"
  by (simp add: one_signal_def)

lemma toy_backend_simps [simp]:
  "normalization toy_backend v n sr fnorm flag = v"
  "result_type toy_backend f a b = fst a"
  by (simp_all add: toy_backend_def)

lemma np_binop_shape:
  "broadcast_shapes (shape (snd a)) (shape (snd b)) = Some t \<Longrightarrow>
   \<exists>xs. np_binop nx f a b = Inr (result_type nx f a b, \<lparr>shape = t, elems = xs\<rparr>)"
  by (simp add: np_binop_def)

section \<open>Assigning channels\<close>

text \<open>
  C8: the sample count, sampling rate and normalization of the value are checked first,
  and a value that differs raises ValueError. With a value that matches, an index that
  is a tuple raises TypeError in \<^verbatim>\<open>__setitem__\<close>, which tests the key against
  \<^verbatim>\<open>(int, slice)\<close>, while \<^verbatim>\<open>__getitem__\<close>, which tests it against
  \<^verbatim>\<open>(int, slice, tuple)\<close>, returns the channel for the same key. The example is
  a Signal of channel shape (2, 3) with 4 samples and the key \<^verbatim>\<open>(0, 1)\<close>.
\<close>

theorem setitem_tuple_key:
  "Signal_setitem toy_backend 0 (KTuple [IxInt 0, IxInt 1]) (OSignal 1)
       (two_signals ''time'' Float64 [2, 3, 4] 44100 4 ''none'' 44100 4)
     = (Inl (TypeError ''Index must be int, not tuple''),
        two_signals ''time'' Float64 [2, 3, 4] 44100 4 ''none'' 44100 4) \<and>
   Signal_assert_matching_meta_data (two_signals ''time'' Float64 [2, 3, 4] 44100 4 ''none'' 44100 4)
       0 (OSignal 1 :: real operand) = None \<and>
   fst (Signal_getitem toy_backend 0 (KTuple [IxInt 0, IxInt 1])
       (two_signals ''time'' Float64 [2, 3, 4] 44100 4 ''none'' 44100 4)) = Inr 2"
proof -
  define st where "st = two_signals ''time'' Float64 [2, 3, 4] 44100 4 ''none'' 44100 4"
  have meta: "Signal_assert_matching_meta_data st 0 (OSignal 1 :: real operand) = None"
    by (simp add: Signal_assert_matching_meta_data_def Let_def st_def)
  have set: "Signal_setitem toy_backend 0 (KTuple [IxInt 0, IxInt 1]) (OSignal 1) st
     = (Inl (TypeError ''Index must be int, not tuple''), st)"
    unfolding Signal_setitem_def meta by simp
  have s0: "sig_domain (sigs st ! 0) = ''time''" "sig_fft_norm (sigs st ! 0) = ''none''"
    "sig_sampling_rate (sigs st ! 0) = 44100" "length (sigs st) = 2"
    "sig_dtype (sigs st ! 0) = Float64" 
    by (simp_all add: st_def two_signals_def)
  have d: "cells (sig_data (sigs st ! 0)) = \<lparr>shape = [2, 3, 4], elems = [0..<24]\<rparr>"
    by (simp add: st_def two_signals_def del: upt_rec_numeral)
  have ix: "nd_view (sig_data (sigs st ! 0)) [IxInt 0, IxInt 1]
      = Inr ((sig_data (sigs st ! 0))\<lparr>cells := \<lparr>shape = [4], elems = [4..<8]\<rparr>\<rparr>)"
    by (simp add: nd_view_def getitem_arr_def d norm_index_def row_def take_upt del: upt_rec_numeral)
  have get: "fst (Signal_getitem toy_backend 0 (KTuple [IxInt 0, IxInt 1]) st) = Inr 2"
    by (simp add: Signal_getitem_def nd_getitem_basic ix Signal_return_item_def Let_def s0
        Signal_init_time nd_shape_def check_fft_norm_def VALID_FFT_NORMS_def
        del: upt_rec_numeral)
  show ?thesis
    unfolding st_def [symmetric] by (intro conjI set meta get)
qed

subsection \<open>Stepping the iterator\<close>

lemma nd_view_int:
  assumes "nd_shape a = m # rest" and "j < m"
  shows "nd_view a [IxInt (int j)] = Inr (channel_view a j)"
proof -
  have "shape (cells a) = m # rest"
    using assms(1) by (simp add: nd_shape_def)
  then show ?thesis
    using assms
    by (simp add: nd_view_def getitem_arr_def norm_index_def channel_view_def)
qed

lemma array_iterator_next_in:
  assumes "nd_shape (it_array ai) = m # rest" and "it_index ai < m"
  shows "array_iterator_next ai
       = (Inr (channel_view (it_array ai) (it_index ai)), ai\<lparr>it_index := Suc (it_index ai)\<rparr>)"
  using assms by (simp add: array_iterator_next_def nd_view_int)

lemma array_iterator_next_end:
  assumes "nd_shape (it_array ai) = m # rest" and "it_index ai = m"
  shows "array_iterator_next ai = (Inl StopIteration, ai)"
  using assms by (simp add: array_iterator_next_def)

text \<open>
  \<open>k\<close> steps of an iterator that has at least \<open>k\<close> positions left: the snapshots are
  the iterated Signal with the views of the positions as data, one after the other.
\<close>

lemma take_steps_run:
  assumes "si_iterated_sig it < length (sigs st)"
    and "sig_domain (sigs st ! si_signal it) = sig_domain (sigs st ! si_iterated_sig it)"
    and "nd_shape (it_array (si_array_iterator it)) = m # rest"
    and "it_index (si_array_iterator it) + k \<le> m"
  shows "\<exists>st'. take_steps k it st
       = (Inr (map (\<lambda>j. (sigs st ! si_iterated_sig it)
                         \<lparr>sig_data := atleast_2d (channel_view (it_array (si_array_iterator it)) j)\<rparr>)
                   [it_index (si_array_iterator it) ..< it_index (si_array_iterator it) + k]),
          it\<lparr>si_array_iterator := (si_array_iterator it)
                \<lparr>it_index := it_index (si_array_iterator it) + k\<rparr>\<rparr>,
          st')
     \<and> length (sigs st') = length (sigs st)
     \<and> (\<forall>i. i \<noteq> si_iterated_sig it \<longrightarrow> sigs st' ! i = sigs st ! i)
     \<and> sig_domain (sigs st' ! si_iterated_sig it) = sig_domain (sigs st ! si_iterated_sig it)
     \<and> mem st' = mem st \<and> trace st' = trace st"
  using assms
proof (induction k arbitrary: it st)
  case 0
  then show ?case by simp
next
  case (Suc k)
  let ?q = "si_iterated_sig it" and ?ai = "si_array_iterator it"
  let ?A = "it_array ?ai" and ?k0 = "it_index ?ai"
  let ?s1 = "(sigs st ! ?q)\<lparr>sig_data := atleast_2d (channel_view ?A ?k0)\<rparr>"
  let ?it1 = "it\<lparr>si_array_iterator := ?ai\<lparr>it_index := Suc ?k0\<rparr>\<rparr>"
  let ?st1 = "set_sig ?q ?s1 st"
  have lt: "?k0 < m"
    using Suc.prems(4) by simp
  have step: "SignalIterator_next it st = (Inr ?q, ?it1, ?st1)"
    using Suc.prems(2) array_iterator_next_in [OF Suc.prems(3) lt]
    by (simp add: SignalIterator_next_def)
  have q1: "sigs ?st1 ! ?q = ?s1"
    using Suc.prems(1) by (simp add: sigs_set_sig)
  have other: "sigs ?st1 ! i = sigs st ! i" if "i \<noteq> ?q" for i
    using that by (simp add: set_sig_def)
  have dom1: "sig_domain (sigs ?st1 ! si_signal ?it1) = sig_domain (sigs ?st1 ! si_iterated_sig ?it1)"
  proof (cases "si_signal it = ?q")
    case True
    then show ?thesis by simp
  next
    case False
    with other [OF False] q1 Suc.prems(2) show ?thesis by simp
  qed
  have pre: "si_iterated_sig ?it1 < length (sigs ?st1)"
    "nd_shape (it_array (si_array_iterator ?it1)) = m # rest"
    "it_index (si_array_iterator ?it1) + k \<le> m"
    using Suc.prems by simp_all
  from Suc.IH [OF pre(1) dom1 pre(2,3)]
  obtain st' where run: "take_steps k ?it1 ?st1
       = (Inr (map (\<lambda>j. (sigs ?st1 ! ?q)\<lparr>sig_data := atleast_2d (channel_view ?A j)\<rparr>)
                   [Suc ?k0 ..< Suc ?k0 + k]),
          it\<lparr>si_array_iterator := ?ai\<lparr>it_index := Suc ?k0 + k\<rparr>\<rparr>, st')"
    and fr: "length (sigs st') = length (sigs ?st1)"
      "\<forall>i. i \<noteq> ?q \<longrightarrow> sigs st' ! i = sigs ?st1 ! i"
      "sig_domain (sigs st' ! ?q) = sig_domain (sigs ?st1 ! ?q)"
      "mem st' = mem ?st1" "trace st' = trace ?st1"
    by auto
  have u: "[?k0 ..< ?k0 + Suc k] = ?k0 # [Suc ?k0 ..< Suc ?k0 + k]"
    by (simp add: upt_conv_Cons del: upt_Suc)
  have snaps: "?s1 # map (\<lambda>j. (sigs ?st1 ! ?q)\<lparr>sig_data := atleast_2d (channel_view ?A j)\<rparr>)
                   [Suc ?k0 ..< Suc ?k0 + k]
      = map (\<lambda>j. (sigs st ! ?q)\<lparr>sig_data := atleast_2d (channel_view ?A j)\<rparr>)
            [?k0 ..< ?k0 + Suc k]"
    unfolding u by (simp add: q1 del: upt_Suc)
  have "take_steps (Suc k) it st
       = (Inr (map (\<lambda>j. (sigs st ! ?q)\<lparr>sig_data := atleast_2d (channel_view ?A j)\<rparr>)
                   [?k0 ..< ?k0 + Suc k]),
          it\<lparr>si_array_iterator := ?ai\<lparr>it_index := ?k0 + Suc k\<rparr>\<rparr>, st')"
    using step run snaps q1 by simp
  moreover have "length (sigs st') = length (sigs st)"
    using fr(1) by simp
  moreover have "\<forall>i. i \<noteq> ?q \<longrightarrow> sigs st' ! i = sigs st ! i"
    using fr(2) other by simp
  moreover have "sig_domain (sigs st' ! ?q) = sig_domain (sigs st ! ?q)"
    using fr(3) q1 by simp
  moreover have "mem st' = mem st" "trace st' = trace st"
    using fr(4,5) by simp_all
  ultimately show ?case
    by blast
qed

subsection \<open>Making the iterator\<close>

lemma last_atleast_2d_shape: "sh \<noteq> [] \<Longrightarrow> last (atleast_2d_shape sh) = last sh"
  by (induction sh rule: atleast_2d_shape.induct) simp_all

lemma nd_ellipsis_0_colon_Inr:
  assumes "nd_ellipsis_0_colon a = Inr d"
  shows "2 \<le> length (nd_shape a)"
    and "nd_shape d = butlast (butlast (nd_shape a)) @ [last (nd_shape a)]"
    and "nd_base d = nd_base a" and "nd_dtype d = nd_dtype a"
  using assms
  by (auto simp add: nd_ellipsis_0_colon_def ellipsis_0_colon_def nd_shape_def Let_def
      split: sum.splits if_splits)

lemma Signal_iter_Inr:
  assumes "Signal_iter nx sid st = (Inr it, st1)"
  shows "si_signal it = sid"
    and "si_array_iterator it = \<lparr>it_array = sig_data (sigs st ! sid), it_index = 0\<rparr>"
    and "\<exists>d. nd_ellipsis_0_colon (sig_data (sigs st ! sid)) = Inr d \<and>
             Signal_init nx d (sig_sampling_rate (sigs st ! sid)) (Some (sig_n_samples (sigs st ! sid)))
               (sig_domain (sigs st ! sid)) (Some (sig_fft_norm (sigs st ! sid))) None
               (sig_dtype (sigs st ! sid)) st = (Inr (si_iterated_sig it), st1)"
  using assms
  by (auto simp add: Signal_iter_def SignalIterator_init_def ndarray_iter_def Let_def
      split: sum.splits if_splits prod.splits)

lemma cshape_of_view:
  assumes "sh = m # rest" and "2 \<le> length sh"
  shows "butlast (atleast_2d_shape rest)
       = (if length (butlast sh) = 1 then [1] else tl (butlast sh))"
proof (cases rest)
  case Nil
  with assms show ?thesis by simp
next
  case (Cons a as)
  with assms(1) show ?thesis
    by (cases as) simp_all
qed

text \<open>The whole run: making the iterator and stepping it to its end.\<close>

lemma Signal_iter_run:
  assumes "sid < length (sigs st)"
    and "Signal_iter nx sid st = (Inr it, st1)"
    and "sig_domain (sigs st ! sid) = ''time'' \<longrightarrow>
           sig_n_samples (sigs st ! sid) = int (last (nd_shape (sig_data (sigs st ! sid))))"
  shows "\<exists>xs it' st'.
       take_steps (hd (nd_shape (sig_data (sigs st ! sid)))) it st1 = (Inr xs, it', st')
     \<and> length xs = hd (nd_shape (sig_data (sigs st ! sid)))
     \<and> (\<forall>j < length xs.
          sig_data (xs ! j) = atleast_2d (channel_view (sig_data (sigs st ! sid)) j)
        \<and> sig_n_samples (xs ! j) = sig_n_samples (sigs st ! sid)
        \<and> sig_sampling_rate (xs ! j) = sig_sampling_rate (sigs st ! sid)
        \<and> sig_domain (xs ! j) = sig_domain (sigs st ! sid)
        \<and> sig_fft_norm (xs ! j) = sig_fft_norm (sigs st ! sid)
        \<and> cshape (xs ! j) = (if length (cshape (sigs st ! sid)) = 1 then [1]
                              else tl (cshape (sigs st ! sid))))
     \<and> fst (SignalIterator_next it' st') = Inl StopIteration"
proof -
  let ?p = "sigs st ! sid"
  let ?A = "sig_data ?p"
  let ?q = "si_iterated_sig it"
  note iter = Signal_iter_Inr [OF assms(2)]
  from iter(3) obtain d where d: "nd_ellipsis_0_colon ?A = Inr d"
    and init: "Signal_init nx d (sig_sampling_rate ?p) (Some (sig_n_samples ?p)) (sig_domain ?p)
                 (Some (sig_fft_norm ?p)) None (sig_dtype ?p) st = (Inr ?q, st1)"
    by blast
  note dsh = nd_ellipsis_0_colon_Inr [OF d]
  note new = Signal_init_Inr [OF init]
  obtain m rest where sh: "nd_shape ?A = m # rest"
    using dsh(1) by (cases "nd_shape ?A") auto
  have rest: "rest \<noteq> []"
    using dsh(1) sh by auto
  have q: "?q = length (sigs st)"
    by (rule new(1))
  from new(2) obtain s' where sigs1: "sigs st1 = sigs st @ [s']"
    by blast
  have p1: "sigs st1 ! sid = ?p"
    using assms(1) by (simp add: sigs1 nth_append)
  have qlt: "?q < length (sigs st1)"
    by (simp add: sigs1 q)
  have ne: "sid \<noteq> ?q"
    using assms(1) q by simp
  have lastd: "last (atleast_2d_shape (nd_shape d)) = last (nd_shape ?A)"
    by (simp add: last_atleast_2d_shape dsh(2))
  have n': "sig_n_samples (sigs st1 ! ?q) = sig_n_samples ?p"
  proof (cases "sig_domain ?p = ''time''")
    case True
    from new(9) [OF True] assms(3) True lastd show ?thesis by simp
  next
    case False
    with new(8) have "sig_domain ?p = ''freq''" by simp
    from new(10) [OF this] show ?thesis by simp
  qed
  have norm': "sig_fft_norm (sigs st1 ! ?q) = sig_fft_norm ?p"
    using new(5) by (simp add: check_fft_norm_Some)
  have dom: "sig_domain (sigs st1 ! si_signal it) = sig_domain (sigs st1 ! ?q)"
    using iter(1) p1 new(4) by simp
  have ash: "nd_shape (it_array (si_array_iterator it)) = m # rest"
    and i0: "it_index (si_array_iterator it) + m \<le> m"
    using iter(2) sh by simp_all
  from take_steps_run [OF qlt dom ash i0]
  obtain st' where run: "take_steps m it st1
       = (Inr (map (\<lambda>j. (sigs st1 ! ?q)\<lparr>sig_data := atleast_2d (channel_view ?A j)\<rparr>) [0..<m]),
          it\<lparr>si_array_iterator := (si_array_iterator it)\<lparr>it_index := m\<rparr>\<rparr>, st')"
    and fr: "\<forall>i. i \<noteq> ?q \<longrightarrow> sigs st' ! i = sigs st1 ! i"
      "sig_domain (sigs st' ! ?q) = sig_domain (sigs st1 ! ?q)"
    using iter(2) by auto
  let ?xs = "map (\<lambda>j. (sigs st1 ! ?q)\<lparr>sig_data := atleast_2d (channel_view ?A j)\<rparr>) [0..<m]"
  let ?it' = "it\<lparr>si_array_iterator := (si_array_iterator it)\<lparr>it_index := m\<rparr>\<rparr>"
  have csh: "butlast (atleast_2d_shape rest)
       = (if length (cshape ?p) = 1 then [1] else tl (cshape ?p))"
    using cshape_of_view [OF sh dsh(1)] by (simp add: cshape_def)
  have each: "sig_data (?xs ! j) = atleast_2d (channel_view ?A j)
        \<and> sig_n_samples (?xs ! j) = sig_n_samples ?p
        \<and> sig_sampling_rate (?xs ! j) = sig_sampling_rate ?p
        \<and> sig_domain (?xs ! j) = sig_domain ?p
        \<and> sig_fft_norm (?xs ! j) = sig_fft_norm ?p
        \<and> cshape (?xs ! j) = (if length (cshape ?p) = 1 then [1] else tl (cshape ?p))"
    if "j < length ?xs" for j
  proof -
    from that have j: "j < m" by simp
    have "nd_shape (atleast_2d (channel_view ?A j)) = atleast_2d_shape rest"
      by (simp add: channel_view_def sh) (simp add: nd_shape_def)
    then have "cshape (?xs ! j) = butlast (atleast_2d_shape rest)"
      using j by (simp add: cshape_def)
    with j n' norm' new(3,4) csh show ?thesis
      by simp
  qed
  have stop: "fst (SignalIterator_next ?it' st') = Inl StopIteration"
  proof -
    have "sig_domain (sigs st' ! si_signal ?it') = sig_domain (sigs st' ! si_iterated_sig ?it')"
      using fr ne iter(1) dom by simp
    moreover have "array_iterator_next (si_array_iterator ?it')
        = (Inl StopIteration, si_array_iterator ?it')"
      by (rule array_iterator_next_end [where m = m and rest = rest]) (simp_all add: ash)
    ultimately show ?thesis
      by (simp add: SignalIterator_next_def)
  qed
  have "take_steps (hd (nd_shape ?A)) it st1 = (Inr ?xs, ?it', st')"
    using run by (simp add: sh)
  moreover have "length ?xs = hd (nd_shape ?A)"
    by (simp add: sh)
  ultimately show ?thesis
    using each stop by blast
qed

lemma Signal_iter_time_ok:
  assumes "sig_domain (sigs st ! sid) = ''time''"
    and "sig_fft_norm (sigs st ! sid) \<in> set VALID_FFT_NORMS"
    and "0 \<le> sig_sampling_rate (sigs st ! sid)"
    and "2 \<le> length (nd_shape (sig_data (sigs st ! sid)))"
    and "last (butlast (nd_shape (sig_data (sigs st ! sid)))) \<noteq> 0"
  shows "\<exists>it st1. Signal_iter nx sid st = (Inr it, st1)"
proof -
  let ?A = "sig_data (sigs st ! sid)"
  have ne: "nd_shape ?A \<noteq> []"
    using assms(4) by auto
  obtain d where d: "nd_ellipsis_0_colon ?A = Inr d"
    using assms(4,5)
    by (auto simp add: nd_ellipsis_0_colon_def ellipsis_0_colon_def nd_shape_def Let_def)
  have "check_fft_norm (Some (sig_fft_norm (sigs st ! sid))) = Inr (sig_fft_norm (sigs st ! sid))"
    using assms(2) by (simp add: check_fft_norm_Some)
  then show ?thesis
    using assms(1,3) ne d
    by (simp add: Signal_iter_def ndarray_iter_def SignalIterator_init_def Let_def
        Signal_init_time new_signal_def)
qed

section \<open>Iterating a Signal\<close>

text \<open>
  C1, as the code has it: the iteration is numpy's iteration over the data, which runs
  over the first axis only. Iterating a Signal yields one Signal per position of the
  first channel axis, in order, then stops; each has position \<open>j\<close> of the parent's data
  as its data and shares sample count, sampling rate, domain and normalization with the
  parent; its channel shape is the parent's without the first axis, or (1,) when the
  parent has one channel axis. A time-domain parent has its sample count equal to the
  length of the last axis of its data, as every Signal the class builds has.
\<close>

theorem iteration_over_first_axis:
  assumes "sid < length (sigs st)"
    and "Signal_iter nx sid st = (Inr it, st1)"
    and "sig_domain (sigs st ! sid) = ''time'' \<longrightarrow>
           sig_n_samples (sigs st ! sid) = int (last (nd_shape (sig_data (sigs st ! sid))))"
  shows "\<exists>xs it' st'.
       take_steps (hd (nd_shape (sig_data (sigs st ! sid)))) it st1 = (Inr xs, it', st')
     \<and> length xs = hd (nd_shape (sig_data (sigs st ! sid)))
     \<and> (\<forall>j < length xs.
          sig_data (xs ! j) = atleast_2d (channel_view (sig_data (sigs st ! sid)) j)
        \<and> sig_n_samples (xs ! j) = sig_n_samples (sigs st ! sid)
        \<and> sig_sampling_rate (xs ! j) = sig_sampling_rate (sigs st ! sid)
        \<and> sig_domain (xs ! j) = sig_domain (sigs st ! sid)
        \<and> sig_fft_norm (xs ! j) = sig_fft_norm (sigs st ! sid)
        \<and> cshape (xs ! j) = (if length (cshape (sigs st ! sid)) = 1 then [1]
                              else tl (cshape (sigs st ! sid))))
     \<and> fst (SignalIterator_next it' st') = Inl StopIteration"
  using assms by (rule Signal_iter_run)

theorem iteration_over_first_axis_witness:
  "0 < length (sigs (one_signal ''time'' Float64 [3, 4, 256] 44100 256 ''none'')) \<and>
   sig_n_samples (sigs (one_signal ''time'' Float64 [3, 4, 256] 44100 256 ''none'') ! 0)
     = int (last (nd_shape (sig_data (sigs (one_signal ''time'' Float64 [3, 4, 256] 44100 256 ''none'') ! 0)))) \<and>
   (\<exists>it st1. Signal_iter toy_backend 0 (one_signal ''time'' Float64 [3, 4, 256] 44100 256 ''none'')
                = (Inr it, st1) \<and>
      (\<exists>xs it' st'. take_steps 3 it st1 = (Inr xs, it', st')
         \<and> length xs = 3
         \<and> cshape (xs ! 0) = [4] \<and> cshape (xs ! 1) = [4] \<and> cshape (xs ! 2) = [4]
         \<and> sig_n_samples (xs ! 0) = 256 \<and> sig_n_samples (xs ! 1) = 256 \<and> sig_n_samples (xs ! 2) = 256
         \<and> fst (SignalIterator_next it' st') = Inl StopIteration))"
proof -
  define st where "st = one_signal ''time'' Float64 [3, 4, 256] 44100 256 ''none''"
  have s0: "sig_domain (sigs st ! 0) = ''time''" "sig_fft_norm (sigs st ! 0) = ''none''"
    "sig_sampling_rate (sigs st ! 0) = 44100" "sig_n_samples (sigs st ! 0) = 256"
    "nd_shape (sig_data (sigs st ! 0)) = [3, 4, 256]" "length (sigs st) = 1"
    by (simp_all add: st_def)
  have h1: "0 < length (sigs st)"
    by (simp add: s0)
  have h3: "sig_n_samples (sigs st ! 0) = int (last (nd_shape (sig_data (sigs st ! 0))))"
    by (simp add: s0)
  obtain it st1 where iter: "Signal_iter toy_backend 0 st = (Inr it, st1)"
    using Signal_iter_time_ok [of st 0 toy_backend] by (auto simp add: s0 VALID_FFT_NORMS_def)
  from iteration_over_first_axis [OF h1 iter] h3
  obtain xs it' st' where run: "take_steps 3 it st1 = (Inr xs, it', st')"
    and len: "length xs = 3"
    and each: "\<forall>j < length xs. sig_n_samples (xs ! j) = sig_n_samples (sigs st ! 0)
        \<and> cshape (xs ! j) = (if length (cshape (sigs st ! 0)) = 1 then [1]
                              else tl (cshape (sigs st ! 0)))"
    and stop: "fst (SignalIterator_next it' st') = Inl StopIteration"
    by (auto simp add: s0)
  have csh: "(if length (cshape (sigs st ! 0)) = 1 then [1] else tl (cshape (sigs st ! 0))) = [4]"
    by (simp add: cshape_def s0)
  have e: "sig_n_samples (xs ! j) = 256 \<and> cshape (xs ! j) = [4]" if "j < 3" for j
    using each that len csh s0(4) by simp
  have "\<exists>xs it' st'. take_steps 3 it st1 = (Inr xs, it', st')
         \<and> length xs = 3
         \<and> cshape (xs ! 0) = [4] \<and> cshape (xs ! 1) = [4] \<and> cshape (xs ! 2) = [4]
         \<and> sig_n_samples (xs ! 0) = 256 \<and> sig_n_samples (xs ! 1) = 256 \<and> sig_n_samples (xs ! 2) = 256
         \<and> fst (SignalIterator_next it' st') = Inl StopIteration"
    using run len stop e [of 0] e [of 1] e [of 2] by simp
  with iter have "\<exists>it st1. Signal_iter toy_backend 0 st = (Inr it, st1) \<and>
      (\<exists>xs it' st'. take_steps 3 it st1 = (Inr xs, it', st')
         \<and> length xs = 3
         \<and> cshape (xs ! 0) = [4] \<and> cshape (xs ! 1) = [4] \<and> cshape (xs ! 2) = [4]
         \<and> sig_n_samples (xs ! 0) = 256 \<and> sig_n_samples (xs ! 1) = 256 \<and> sig_n_samples (xs ! 2) = 256
         \<and> fst (SignalIterator_next it' st') = Inl StopIteration)"
    by blast
  then show ?thesis
    unfolding st_def [symmetric] using h1 h3 by blast
qed

text \<open>
  The claim as stated fails on its own example: a Signal of channel shape (3, 4) with
  256 samples yields 3 Signals of channel shape (4,), and the fourth step stops.
\<close>

theorem twelve_signals_counterexample:
  "(case Signal_iter toy_backend 0 (one_signal ''time'' Float64 [3, 4, 256] 44100 256 ''none'') of
      (Inr it, st1) \<Rightarrow>
        (case take_steps 3 it st1 of
           (Inr xs, it', st') \<Rightarrow>
             length xs = 3 \<and> cshape (xs ! 0) = [4] \<and> sig_n_samples (xs ! 0) = 256
             \<and> fst (SignalIterator_next it' st') = Inl StopIteration
         | (Inl e, r) \<Rightarrow> False)
    | (Inl e, st1) \<Rightarrow> False)"
proof -
  define st where "st = one_signal ''time'' Float64 [3, 4, 256] 44100 256 ''none''"
  have s0: "sig_domain (sigs st ! 0) = ''time''" "sig_fft_norm (sigs st ! 0) = ''none''"
    "sig_sampling_rate (sigs st ! 0) = 44100" "sig_n_samples (sigs st ! 0) = 256"
    "nd_shape (sig_data (sigs st ! 0)) = [3, 4, 256]" "length (sigs st) = 1"
    by (simp_all add: st_def)
  obtain it st1 where iter: "Signal_iter toy_backend 0 st = (Inr it, st1)"
    using Signal_iter_time_ok [of st 0 toy_backend] by (auto simp add: s0 VALID_FFT_NORMS_def)
  have "0 < length (sigs st)"
    and "sig_domain (sigs st ! 0) = ''time'' \<longrightarrow>
           sig_n_samples (sigs st ! 0) = int (last (nd_shape (sig_data (sigs st ! 0))))"
    by (simp_all add: s0)
  from Signal_iter_run [OF this(1) iter this(2)]
  obtain xs it' st' where run: "take_steps 3 it st1 = (Inr xs, it', st')"
    and len: "length xs = 3"
    and each: "\<forall>j < length xs. sig_n_samples (xs ! j) = sig_n_samples (sigs st ! 0)
        \<and> cshape (xs ! j) = (if length (cshape (sigs st ! 0)) = 1 then [1]
                              else tl (cshape (sigs st ! 0)))"
    and stop: "fst (SignalIterator_next it' st') = Inl StopIteration"
    by (auto simp add: s0)
  have "(if length (cshape (sigs st ! 0)) = 1 then [1] else tl (cshape (sigs st ! 0))) = [4]"
    by (simp add: cshape_def s0)
  with each len s0(4) have "sig_n_samples (xs ! 0) = 256 \<and> cshape (xs ! 0) = [4]"
    by simp
  with len stop show ?thesis
    unfolding st_def [symmetric] iter by (simp add: run)
qed

subsection \<open>Buffers stay valid and memory only grows\<close>


lemma buffers_ok_emit [simp]: "buffers_ok (emit ev st) = buffers_ok st"
  by (simp add: buffers_ok_def)





lemma TimeData_time_set_frame [simp]:
  "mem (TimeData_time_set sid v st) = mem st"
  "length (sigs (TimeData_time_set sid v st)) = length (sigs st)"
  by (simp_all add: TimeData_time_set_def Let_def)






subsection \<open>Where the data of a new Signal live\<close>



text \<open>A write through one array leaves what is read through an array of another buffer.\<close>

lemma contents_nd_store_other:
  "nd_base a \<noteq> nd_base b \<Longrightarrow> contents (nd_store a k x st) b = contents st b"
  by (simp add: contents_def nd_store_def)



lemma SignalIterator_next_alias:
  assumes "SignalIterator_next it st = (Inr q, it', st')" and "si_iterated_sig it < length (sigs st)"
  shows "q = si_iterated_sig it"
    and "nd_base (sig_data (sigs st' ! q)) = nd_base (it_array (si_array_iterator it))"
proof -
  let ?n = "array_iterator_next (si_array_iterator it)"
  from assms(1) obtain data where n: "fst ?n = Inr data"
    and q: "q = si_iterated_sig it"
    and st': "st' = set_sig q ((sigs st ! q)\<lparr>sig_data := atleast_2d data\<rparr>) st"
    by (cases ?n; cases "fst ?n") (auto simp add: SignalIterator_next_def split: if_splits)
  have "nd_base data = nd_base (it_array (si_array_iterator it))"
    using n by (auto simp add: array_iterator_next_def nd_view_def split: if_splits sum.splits)
  then show "nd_base (sig_data (sigs st' ! q)) = nd_base (it_array (si_array_iterator it))"
    using assms(2) q by (simp add: st' sigs_set_sig)
  show "q = si_iterated_sig it"
    by (rule q)
qed

lemma buffers_ok_one_signal [simp]: "buffers_ok (one_signal d k sh sr n fnorm)"
  by (simp add: buffers_ok_def one_signal_def)

text \<open>The run of \<^verbatim>\<open>add((s, 1.0), 'time')\<close> on a Signal of two samples.\<close>

lemma add_example_runs:
  "\<exists>st'. add_signals toy_backend [OSignal 0, OArray (Float64, \<lparr>shape = [], elems = [1]\<rparr>)]
      ''time'' (one_signal ''time'' Float64 [1, 2] 44100 2 ''none'') = (Inr (RSignal 1), st')
    \<and> length (sigs st') = 2"
proof -
  define st where "st = one_signal ''time'' Float64 [1, 2] 44100 2 ''none''"
  let ?arr = "(Float64, \<lparr>shape = [], elems = [1::real]\<rparr>)"
  let ?data = "[OSignal 0, OArray ?arr]"
  have s0: "sig_domain (sigs st ! 0) = ''time''" "sig_fft_norm (sigs st ! 0) = ''none''"
    "sig_sampling_rate (sigs st ! 0) = 44100" "sig_n_samples (sigs st ! 0) = 2"
    "nd_shape (sig_data (sigs st ! 0)) = [1, 2]" "length (sigs st) = 1"
    by (simp_all add: st_def)
  have meta: "assert_match_for_arithmetic st ?data ''time'' = Inr (Some (44100, 2, ''none''))"
    by (simp add: assert_match_for_arithmetic_def Let_def s0 arithmetic_dtypes_def)
  define v0 where "v0 = contents st (sig_data (sigs st ! 0))"
  have g0: "get_arithmetic_data toy_backend (OSignal 0) (Some 2) ''time'' st = (Inr v0, st)"
    by (simp add: get_arithmetic_data_def Signal_time_in_time [OF s0(1)] v0_def)
  have g1: "get_arithmetic_data toy_backend (OArray ?arr) (Some 2) ''time'' st = (Inr ?arr, st)"
    by (simp add: get_arithmetic_data_def)
  have "broadcast_shapes (shape (snd v0)) (shape (snd ?arr)) = Some [1, 2]"
    by (simp add: v0_def s0 broadcast_shapes_def)
  from np_binop_shape [OF this, of toy_backend Add]
  obtain xs where op: "add_op toy_backend v0 ?arr = Inr (fst v0, \<lparr>shape = [1, 2], elems = xs\<rparr>)"
    by (auto simp add: add_op_def)
  define res where "res = (fst v0, \<lparr>shape = [1, 2], elems = xs\<rparr>)"
  have fold: "arithmetic_fold toy_backend (add_op toy_backend) (Some 2) ''time'' v0
                [OArray ?arr] st = (Inr res, st)"
    by (simp add: g1 op res_def)
  define a where "a = fst (new_array res st)"
  define st4 where "st4 = snd (new_array res st)"
  have sh: "nd_shape a = [1, 2]" and len4: "length (sigs st4) = 1"
    by (simp_all add: a_def st4_def res_def s0)
  obtain r st' where init: "Signal_init toy_backend a 44100 (Some 2) ''time'' (Some ''none'')
      None Float64 st4 = (Inr r, st')"
    by (simp add: Signal_init_time sh check_fft_norm_def VALID_FFT_NORMS_def new_signal_def)
  note new = Signal_init_Inr(1,2) [OF init]
  have r: "r = 1" and len: "length (sigs st') = 2"
    using new len4 by auto
  have "add_signals toy_backend ?data ''time'' st = (Inr (RSignal r), st')"
    unfolding add_signals_def arithmetic_def meta
    using g0 fold init
    by (simp add: case_prod_beta a_def [symmetric] st4_def [symmetric])
  then show ?thesis
    unfolding st_def using r len by blast
qed

subsection \<open>The last axis under broadcasting\<close>

lemma last_axis_rev: "last_axis sh = (case rev sh of [] \<Rightarrow> None | z # _ \<Rightarrow> Some z)"
  by (cases sh rule: rev_cases) (simp_all add: last_axis_def)

lemma broadcast_rev_hd:
  "broadcast_rev xs ys = Some w \<Longrightarrow>
   (case w of [] \<Rightarrow> None | z # _ \<Rightarrow> Some z)
     = broadcast_last (case xs of [] \<Rightarrow> None | x # _ \<Rightarrow> Some x)
                      (case ys of [] \<Rightarrow> None | y # _ \<Rightarrow> Some y)"
  by (cases xs; cases ys) (auto simp add: broadcast_last_def split: if_splits list.splits)

lemma broadcast_shapes_last_axis:
  assumes "broadcast_shapes s t = Some u"
  shows "last_axis u = broadcast_last (last_axis s) (last_axis t)"
proof -
  from assms obtain w where w: "broadcast_rev (rev s) (rev t) = Some w" and u: "u = rev w"
    by (auto simp add: broadcast_shapes_def)
  from broadcast_rev_hd [OF w] show ?thesis
    by (simp add: last_axis_rev u)
qed

lemma np_binop_last_axis:
  assumes "np_binop nx f a b = Inr r"
  shows "last_axis (shape (snd r))
       = broadcast_last (last_axis (shape (snd a))) (last_axis (shape (snd b)))"
proof -
  from assms obtain t where t: "broadcast_shapes (shape (snd a)) (shape (snd b)) = Some t"
    and r: "shape (snd r) = t"
    by (auto simp add: np_binop_def split: option.splits)
  from broadcast_shapes_last_axis [OF t] r show ?thesis
    by simp
qed

lemma last_atleast_2d_shape_axis:
  "last (atleast_2d_shape sh) = (case last_axis sh of None \<Rightarrow> 1 | Some k \<Rightarrow> k)"
  by (cases sh rule: atleast_2d_shape.cases) (simp_all add: last_axis_def)

lemma broadcast_last_None [simp]: "broadcast_last None b = b"
  by (simp add: broadcast_last_def)

text \<open>When every last axis is absent, 1 or \<open>n\<close>, and one is \<open>n\<close>, the combination is \<open>n\<close>.\<close>

lemma foldl_broadcast_last_fit:
  assumes "\<forall>e \<in> set es. e = None \<or> e = Some 1 \<or> e = Some n"
    and "acc = None \<or> acc = Some 1 \<or> acc = Some n"
  shows "(foldl broadcast_last acc es = None \<or> foldl broadcast_last acc es = Some 1
            \<or> foldl broadcast_last acc es = Some n)
       \<and> (acc = Some n \<or> Some n \<in> set es \<longrightarrow> foldl broadcast_last acc es = Some n)"
  using assms
proof (induction es arbitrary: acc)
  case Nil
  then show ?case by simp
next
  case (Cons e es)
  have e: "e = None \<or> e = Some 1 \<or> e = Some n"
    using Cons.prems(1) by simp
  have acc': "broadcast_last acc e = None \<or> broadcast_last acc e = Some 1
      \<or> broadcast_last acc e = Some n"
    using e Cons.prems(2) by (auto simp add: broadcast_last_def)
  have step: "acc = Some n \<or> e = Some n \<Longrightarrow> broadcast_last acc e = Some n"
    using e Cons.prems(2) by (auto simp add: broadcast_last_def)
  from Cons.IH [OF _ acc'] Cons.prems(1)
  have IH: "(foldl broadcast_last (broadcast_last acc e) es = None
        \<or> foldl broadcast_last (broadcast_last acc e) es = Some 1
        \<or> foldl broadcast_last (broadcast_last acc e) es = Some n)
      \<and> (broadcast_last acc e = Some n \<or> Some n \<in> set es \<longrightarrow>
           foldl broadcast_last (broadcast_last acc e) es = Some n)"
    by simp
  show ?case
    using IH step by auto
qed

lemma combined_last_axis_fit:
  assumes "last_axes_fit n data" and "OSignal i \<in> set data"
  shows "combined_last_axis n data = n"
proof -
  have all: "\<forall>e \<in> set (map (operand_last_axis n) data). e = None \<or> e = Some 1 \<or> e = Some n"
  proof
    fix e assume "e \<in> set (map (operand_last_axis n) data)"
    then obtain d where d: "d \<in> set data" and e: "e = operand_last_axis n d"
      by auto
    from assms(1) d show "e = None \<or> e = Some 1 \<or> e = Some n"
      unfolding e
      by (cases d) (auto simp add: last_axes_fit_def list_all_iff operand_last_axis_def last_axis_def)
  qed
  have "Some n \<in> set (map (operand_last_axis n) data)"
    using assms(2) by (force simp add: operand_last_axis_def)
  with foldl_broadcast_last_fit [OF all, of None]
  show ?thesis
    by (simp add: combined_last_axis_def)
qed



subsection \<open>Reading the operands in the time domain\<close>

lemma time_consistent_nth:
  "time_consistent st data \<Longrightarrow> OSignal j \<in> set data \<Longrightarrow>
   j < length (sigs st) \<and>
   (sig_domain (sigs st ! j) = ''time'' \<longrightarrow>
      nd_shape (sig_data (sigs st ! j)) \<noteq> [] \<and>
      int (last (nd_shape (sig_data (sigs st ! j)))) = sig_n_samples (sigs st ! j))"
  by (auto simp add: time_consistent_def list_all_iff split: operand.splits)

lemma time_consistentI:
  assumes "\<And>j. OSignal j \<in> set data \<Longrightarrow> j < length (sigs st) \<and>
      (sig_domain (sigs st ! j) = ''time'' \<longrightarrow>
         nd_shape (sig_data (sigs st ! j)) \<noteq> [] \<and>
         int (last (nd_shape (sig_data (sigs st ! j)))) = sig_n_samples (sigs st ! j))"
  shows "time_consistent st data"
  unfolding time_consistent_def list_all_iff
proof
  fix d assume "d \<in> set data"
  with assms show "case d of OArray _ \<Rightarrow> True
      | OSignal j \<Rightarrow> j < length (sigs st) \<and>
          (sig_domain (sigs st ! j) = ''time'' \<longrightarrow>
             nd_shape (sig_data (sigs st ! j)) \<noteq> [] \<and>
             int (last (nd_shape (sig_data (sigs st ! j)))) = sig_n_samples (sigs st ! j))"
    by (cases d) auto
qed

lemma Signal_time_consistent:
  assumes ok: "irfft_length_ok nx" and n: "0 < n" and tc: "time_consistent st data"
    and ns: "\<forall>j. OSignal j \<in> set data \<longrightarrow> sig_n_samples (sigs st ! j) = n"
    and i: "OSignal i \<in> set data"
  shows "\<exists>a st1. Signal_time nx i st = (Inr a, st1)
           \<and> last_axis (nd_shape a) = Some (nat n)
           \<and> time_consistent st1 data
           \<and> (\<forall>j. OSignal j \<in> set data \<longrightarrow> sig_n_samples (sigs st1 ! j) = n)"
proof (cases "sig_domain (sigs st ! i) = ''time''")
  case True
  from time_consistent_nth [OF tc i] True ns i
  have "last_axis (nd_shape (sig_data (sigs st ! i))) = Some (nat n)"
    by (auto simp add: last_axis_def)
  with Signal_time_in_time [OF True, of nx] tc ns show ?thesis
    by simp
next
  case False
  let ?s = "sigs st ! i"
  define v where "v = irfft nx (contents st (sig_data ?s)) (sig_n_samples ?s)
      (sig_sampling_rate ?s) (sig_fft_norm ?s)"
  define st0 where "st0 = emit (EvIrfft (sig_n_samples ?s) (sig_sampling_rate ?s) (sig_fft_norm ?s)) st"
  define a where "a = fst (new_array v st0)"
  define st1 where "st1 = TimeData_time_set i a (snd (new_array v st0))"
  have len: "i < length (sigs st)"
    using time_consistent_nth [OF tc i] by simp
  have run: "Signal_time nx i st = (Inr (sig_data (sigs st1 ! i)), st1)"
    using False
    by (simp add: Signal_time_def Signal_domain_set_def VALID_DOMAINS_def Let_def case_prod_beta
        v_def st0_def a_def st1_def)
  have ni: "sig_n_samples ?s = n"
    using ns i by simp
  have shv: "shape (snd v) \<noteq> []" "last (shape (snd v)) = nat n"
    using ok n unfolding irfft_length_ok_def v_def ni by blast+
  have sh: "nd_shape a \<noteq> []" "last (nd_shape a) = nat n"
    by (simp_all add: a_def shv)
  have sigs1: "sigs st1 = (sigs st)[i := ?s\<lparr>sig_data := atleast_2d a,
      sig_n_samples := int (last (nd_shape (atleast_2d a))), sig_domain := ''time''\<rparr>]"
    by (simp add: st1_def TimeData_time_set_def Let_def set_sig_def st0_def)
  have last2: "last (atleast_2d_shape (nd_shape a)) = nat n" "atleast_2d_shape (nd_shape a) \<noteq> []"
    using sh by (simp_all add: last_atleast_2d_shape_axis last_axis_def)
       (cases "nd_shape a" rule: atleast_2d_shape.cases, simp_all)
  have new: "sig_data (sigs st1 ! i) = atleast_2d a" "sig_n_samples (sigs st1 ! i) = n"
    "sig_domain (sigs st1 ! i) = ''time''"
    using len n by (simp_all add: sigs1 last2)
  have other: "sigs st1 ! j = sigs st ! j" if "j \<noteq> i" for j
    using that by (simp add: sigs1)
  have length1: "length (sigs st1) = length (sigs st)"
    by (simp add: sigs1)
  have la: "last_axis (nd_shape (sig_data (sigs st1 ! i))) = Some (nat n)"
    using last2 by (simp add: new last_axis_def)
  have tc1: "time_consistent st1 data"
  proof (rule time_consistentI)
    fix j assume j: "OSignal j \<in> set data"
    show "j < length (sigs st1) \<and>
      (sig_domain (sigs st1 ! j) = ''time'' \<longrightarrow>
         nd_shape (sig_data (sigs st1 ! j)) \<noteq> [] \<and>
         int (last (nd_shape (sig_data (sigs st1 ! j)))) = sig_n_samples (sigs st1 ! j))"
    proof (cases "j = i")
      case True
      then show ?thesis
        using len n last2 by (simp add: length1 new)
    next
      case False
      then show ?thesis
        using time_consistent_nth [OF tc j] by (simp add: other length1)
    qed
  qed
  have ns1: "\<forall>j. OSignal j \<in> set data \<longrightarrow> sig_n_samples (sigs st1 ! j) = n"
  proof (intro allI impI)
    fix j assume j: "OSignal j \<in> set data"
    show "sig_n_samples (sigs st1 ! j) = n"
      by (cases "j = i") (use ns j in \<open>simp_all add: new other\<close>)
  qed
  show ?thesis
    using run la tc1 ns1 by blast
qed

lemma get_arithmetic_data_time:
  assumes ok: "irfft_length_ok nx" and n: "0 < n" and tc: "time_consistent st data"
    and ns: "\<forall>j. OSignal j \<in> set data \<longrightarrow> sig_n_samples (sigs st ! j) = n"
    and d: "d \<in> set data"
    and run: "get_arithmetic_data nx d m ''time'' st = (Inr v, st1)"
  shows "last_axis (shape (snd v)) = operand_last_axis (nat n) d"
    and "time_consistent st1 data"
    and "\<forall>j. OSignal j \<in> set data \<longrightarrow> sig_n_samples (sigs st1 ! j) = n"
proof -
  have "last_axis (shape (snd v)) = operand_last_axis (nat n) d \<and> time_consistent st1 data
      \<and> (\<forall>j. OSignal j \<in> set data \<longrightarrow> sig_n_samples (sigs st1 ! j) = n)"
  proof (cases d)
    case (OArray w)
    with run tc ns show ?thesis
      by (simp add: get_arithmetic_data_def operand_last_axis_def)
  next
    case (OSignal i)
    with d have "OSignal i \<in> set data" by simp
    from Signal_time_consistent [OF ok n tc ns this]
    obtain a st2 where t: "Signal_time nx i st = (Inr a, st2)"
      and la: "last_axis (nd_shape a) = Some (nat n)"
      and tc2: "time_consistent st2 data"
      and ns2: "\<forall>j. OSignal j \<in> set data \<longrightarrow> sig_n_samples (sigs st2 ! j) = n"
      by blast
    from run OSignal t have "v = contents st2 a" "st1 = st2"
      by (auto simp add: get_arithmetic_data_def)
    with la tc2 ns2 OSignal show ?thesis
      by (simp add: operand_last_axis_def)
  qed
  then show "last_axis (shape (snd v)) = operand_last_axis (nat n) d"
    and "time_consistent st1 data"
    and "\<forall>j. OSignal j \<in> set data \<longrightarrow> sig_n_samples (sigs st1 ! j) = n"
    by simp_all
qed

lemma arithmetic_fold_time:
  assumes ok: "irfft_length_ok nx" and n: "0 < n"
  shows "time_consistent st data \<Longrightarrow>
    \<forall>j. OSignal j \<in> set data \<longrightarrow> sig_n_samples (sigs st ! j) = n \<Longrightarrow>
    set ds \<subseteq> set data \<Longrightarrow>
    arithmetic_fold nx (np_binop nx f) m ''time'' r ds st = (Inr res, st') \<Longrightarrow>
    last_axis (shape (snd res))
      = foldl broadcast_last (last_axis (shape (snd r))) (map (operand_last_axis (nat n)) ds)"
proof (induction ds arbitrary: r st)
  case Nil
  then show ?case by simp
next
  case (Cons d ds)
  let ?g = "get_arithmetic_data nx d m ''time'' st"
  from Cons.prems(4) obtain v st1 where g: "?g = (Inr v, st1)"
    by (cases ?g; cases "fst ?g") simp_all
  from Cons.prems(4) g obtain r1 where op1: "np_binop nx f r v = Inr r1"
    and rest: "arithmetic_fold nx (np_binop nx f) m ''time'' r1 ds st1 = (Inr res, st')"
    by (cases "np_binop nx f r v") simp_all
  have d: "d \<in> set data" and ds: "set ds \<subseteq> set data"
    using Cons.prems(3) by simp_all
  note G = get_arithmetic_data_time [OF ok n Cons.prems(1,2) d g]
  from Cons.IH [OF G(2,3) ds rest] np_binop_last_axis [OF op1] G(1)
  show ?case
    by simp
qed

lemma arithmetic_Inr_time:
  assumes "arithmetic nx data ''time'' operation st = (Inr out, st')"
    and "assert_match_for_arithmetic st data ''time'' = Inr (Some (sr, n, fnorm))"
  shows "\<exists>d0 ds r0 st1 result st2 r.
           data = d0 # ds
         \<and> get_arithmetic_data nx d0 (Some n) ''time'' st = (Inr r0, st1)
         \<and> arithmetic_fold nx operation (Some n) ''time'' r0 ds st1 = (Inr result, st2)
         \<and> Signal_init nx (fst (new_array result st2)) sr (Some n) ''time'' (Some fnorm) None
               Float64 (snd (new_array result st2)) = (Inr r, st')
         \<and> out = RSignal r"
proof -
  note meta = assms(2)
  from assms(1) meta obtain d0 ds where data: "data = d0 # ds"
    by (cases data) (simp_all add: arithmetic_def)
  let ?g = "get_arithmetic_data nx d0 (Some n) ''time'' st"
  obtain r0 st1 where g: "?g = (Inr r0, st1)"
    using assms(1) meta data
    by (cases ?g; cases "fst ?g") (simp_all add: arithmetic_def)
  let ?f = "arithmetic_fold nx operation (Some n) ''time'' r0 ds st1"
  obtain result st2 where f: "?f = (Inr result, st2)"
    using assms(1) meta data g
    by (cases ?f; cases "fst ?f") (simp_all add: arithmetic_def)
  let ?i = "Signal_init nx (fst (new_array result st2)) sr (Some n) ''time'' (Some fnorm) None
               Float64 (snd (new_array result st2))"
  obtain r where init: "?i = (Inr r, st')" and out: "out = RSignal r"
    using assms(1) meta data g f
    by (cases ?i; cases "fst ?i") (auto simp add: arithmetic_def case_prod_beta)
  show ?thesis
    using data g f init out by blast
qed

lemma arithmetic_functions_binop:
  assumes "f \<in> set (arithmetic_functions nx)"
  shows "\<exists>b. \<forall>data domain st. f data domain st = arithmetic nx data domain (np_binop nx b) st"
proof -
  have ops: "add_op nx = np_binop nx Add" "subtract_op nx = np_binop nx Subtract"
    "multiply_op nx = np_binop nx Multiply" "divide_op nx = np_binop nx Divide"
    "power_op nx = np_binop nx Power"
    by (auto simp add: add_op_def subtract_op_def multiply_op_def divide_op_def power_op_def
        fun_eq_iff)
  from assms consider "f = add_signals nx" | "f = subtract_signals nx" | "f = multiply_signals nx"
    | "f = divide_signals nx" | "f = power_signals nx"
    by (auto simp add: arithmetic_functions_def)
  then show ?thesis
  proof cases
    case 1
    then show ?thesis by (intro exI [of _ Add]) (simp add: add_signals_def ops)
  next
    case 2
    then show ?thesis by (intro exI [of _ Subtract]) (simp add: subtract_signals_def ops)
  next
    case 3
    then show ?thesis by (intro exI [of _ Multiply]) (simp add: multiply_signals_def ops)
  next
    case 4
    then show ?thesis by (intro exI [of _ Divide]) (simp add: divide_signals_def ops)
  next
    case 5
    then show ?thesis by (intro exI [of _ Power]) (simp add: power_signals_def ops)
  qed
qed

text \<open>The sample count of a result made in the time domain.\<close>

lemma arithmetic_time_sample_count:
  assumes ok: "irfft_length_ok nx" and tc: "time_consistent st data"
    and run: "arithmetic nx data ''time'' (np_binop nx b) st = (Inr (RSignal r), st')"
    and i: "OSignal i \<in> set data" and n: "0 < sig_n_samples (sigs st ! i)"
  shows "sig_n_samples (sigs st' ! r)
       = int (combined_last_axis (nat (sig_n_samples (sigs st ! i))) data)"
proof -
  let ?n = "sig_n_samples (sigs st ! i)"
  from run obtain meta where meta: "assert_match_for_arithmetic st data ''time'' = Inr meta"
    by (cases "assert_match_for_arithmetic st data ''time''") (simp_all add: arithmetic_def)
  then have loop: "assert_match_loop (sigs st) ''time'' None data = Inr meta"
    by (simp add: assert_match_for_arithmetic_def split: if_splits)
  from assert_match_loop_None_norm [OF loop i]
  obtain sr fnorm where m: "meta = Some (sr, ?n, fnorm)"
    by blast
  have ns: "\<forall>j. OSignal j \<in> set data \<longrightarrow> sig_n_samples (sigs st ! j) = ?n"
    using assert_match_loop_None_norm [OF loop] m by auto
  from arithmetic_Inr_time [OF run meta [unfolded m]]
  obtain d0 ds r0 st1 result st2 r' where data: "data = d0 # ds"
    and g: "get_arithmetic_data nx d0 (Some ?n) ''time'' st = (Inr r0, st1)"
    and f: "arithmetic_fold nx (np_binop nx b) (Some ?n) ''time'' r0 ds st1 = (Inr result, st2)"
    and init: "Signal_init nx (fst (new_array result st2)) sr (Some ?n) ''time'' (Some fnorm) None
               Float64 (snd (new_array result st2)) = (Inr r', st')"
    and r': "RSignal r = (RSignal r' :: 'a outcome)"
    by blast
  have d0: "d0 \<in> set data" and ds: "set ds \<subseteq> set data"
    using data by auto
  note G = get_arithmetic_data_time [OF ok n tc ns d0 g]
  from arithmetic_fold_time [OF ok n G(2,3) ds f] G(1)
  have "last_axis (shape (snd result))
      = foldl broadcast_last None (map (operand_last_axis (nat ?n)) data)"
    by (simp add: data)
  moreover have "sig_n_samples (sigs st' ! r)
      = int (last (atleast_2d_shape (shape (snd result))))"
    using Signal_init_Inr(9) [OF init] r' by simp
  ultimately show ?thesis
    by (simp add: last_atleast_2d_shape_axis combined_last_axis_def)
qed


lemma irfft_length_ok_toy_backend: "irfft_length_ok toy_backend"
  by (simp add: irfft_length_ok_def toy_backend_def)

text \<open>The run of \<^verbatim>\<open>add((s, t), 'time')\<close> on two Signals of two samples.\<close>

lemma add_two_signals_runs:
  "\<exists>st'. add_signals toy_backend [OSignal 0, OSignal 1] ''time''
            (two_signals ''time'' Float64 [1, 2] 44100 2 ''none'' 44100 2) = (Inr (RSignal 2), st')"
proof -
  define st where "st = two_signals ''time'' Float64 [1, 2] 44100 2 ''none'' 44100 2"
  let ?data = "[OSignal 0, OSignal (Suc 0)] :: real operand list"
  have s0: "sig_domain (sigs st ! 0) = ''time''" "sig_fft_norm (sigs st ! 0) = ''none''"
    "sig_sampling_rate (sigs st ! 0) = 44100" "sig_n_samples (sigs st ! 0) = 2"
    "nd_shape (sig_data (sigs st ! 0)) = [1, 2]" "length (sigs st) = 2"
    and s1: "sig_domain (sigs st ! Suc 0) = ''time''" "sig_fft_norm (sigs st ! Suc 0) = ''none''"
    "sig_sampling_rate (sigs st ! Suc 0) = 44100" "sig_n_samples (sigs st ! Suc 0) = 2"
    "nd_shape (sig_data (sigs st ! Suc 0)) = [1, 2]"
    by (simp_all add: st_def)
  have meta: "assert_match_for_arithmetic st ?data ''time'' = Inr (Some (44100, 2, ''none''))"
    by (simp add: assert_match_for_arithmetic_def Let_def s0 s1)
  define v0 where "v0 = contents st (sig_data (sigs st ! 0))"
  define v1 where "v1 = contents st (sig_data (sigs st ! Suc 0))"
  have g0: "get_arithmetic_data toy_backend (OSignal 0) (Some 2) ''time'' st = (Inr v0, st)"
    by (simp add: get_arithmetic_data_def Signal_time_in_time [OF s0(1)] v0_def)
  have g1: "get_arithmetic_data toy_backend (OSignal (Suc 0)) (Some 2) ''time'' st = (Inr v1, st)"
    by (simp add: get_arithmetic_data_def Signal_time_in_time [OF s1(1)] v1_def)
  have "broadcast_shapes (shape (snd v0)) (shape (snd v1)) = Some [1, 2]"
    by (simp add: v0_def v1_def s0 s1 broadcast_shapes_def)
  from np_binop_shape [OF this, of toy_backend Add]
  obtain xs where op: "add_op toy_backend v0 v1 = Inr (fst v0, \<lparr>shape = [1, 2], elems = xs\<rparr>)"
    by (auto simp add: add_op_def)
  define res where "res = (fst v0, \<lparr>shape = [1, 2], elems = xs\<rparr>)"
  have fold: "arithmetic_fold toy_backend (add_op toy_backend) (Some 2) ''time'' v0
                [OSignal (Suc 0)] st = (Inr res, st)"
    by (simp add: g1 op res_def)
  define a where "a = fst (new_array res st)"
  define st4 where "st4 = snd (new_array res st)"
  have sh: "nd_shape a = [1, 2]" and len4: "length (sigs st4) = 2"
    by (simp_all add: a_def st4_def res_def s0)
  obtain r st' where init: "Signal_init toy_backend a 44100 (Some 2) ''time'' (Some ''none'')
      None Float64 st4 = (Inr r, st')"
    by (simp add: Signal_init_time sh check_fft_norm_def VALID_FFT_NORMS_def new_signal_def)
  have r: "r = 2"
    using Signal_init_Inr(1) [OF init] len4 by simp
  have "add_signals toy_backend ?data ''time'' st = (Inr (RSignal r), st')"
    unfolding add_signals_def arithmetic_def meta
    using g0 fold init
    by (simp add: case_prod_beta a_def [symmetric] st4_def [symmetric])
  then show ?thesis
    unfolding st_def using r by auto
qed

section \<open>The metadata of an arithmetic result\<close>

text \<open>
  C2, as the code has it: when one of add, subtract, multiply, divide and power returns
  and an operand is a Signal, the result is a new Signal whose sampling rate is that of
  the Signal operands, whose domain is the target domain and whose normalization is
  'none' if every Signal operand has 'none' and otherwise that of the first Signal
  operand that has another. Its sample count is that of the Signal operands when the
  target domain is 'freq'. When the target domain is 'time' the initialiser takes the
  sample count from the data, so it is the length of the last axis of the result's data.
  With Signal operands that are consistent (in the time domain, as many samples as the
  last axis of their data is long), a positive sample count \<open>n\<close> and an inverse
  transform that returns \<open>n\<close> samples, this length is what broadcasting makes of the last
  axes of the operands, \<open>n\<close> for each Signal; it is \<open>n\<close> whenever every other operand is
  of rank 0 or has a last axis of length 1 or \<open>n\<close>.
\<close>

theorem arithmetic_result_metadata:
  assumes "f \<in> set (arithmetic_functions nx)"
    and "f data domain st = (Inr out, st')"
    and "OSignal i \<in> set data"
  shows "\<exists>r. out = RSignal r
      \<and> sig_sampling_rate (sigs st' ! r) = sig_sampling_rate (sigs st ! i)
      \<and> sig_domain (sigs st' ! r) = domain
      \<and> sig_fft_norm (sigs st' ! r)
          = first_not_none (map (\<lambda>j. sig_fft_norm (sigs st ! j)) (signal_operands data))
      \<and> (domain = ''freq'' \<longrightarrow> sig_n_samples (sigs st' ! r) = sig_n_samples (sigs st ! i))
      \<and> (domain = ''time'' \<longrightarrow>
            sig_n_samples (sigs st' ! r) = int (last (nd_shape (sig_data (sigs st' ! r)))))
      \<and> (domain = ''time'' \<and> irfft_length_ok nx \<and> time_consistent st data
            \<and> 0 < sig_n_samples (sigs st ! i) \<longrightarrow>
            sig_n_samples (sigs st' ! r)
              = int (combined_last_axis (nat (sig_n_samples (sigs st ! i))) data)
          \<and> (last_axes_fit (nat (sig_n_samples (sigs st ! i))) data \<longrightarrow>
               sig_n_samples (sigs st' ! r) = sig_n_samples (sigs st ! i)))"
proof -
  let ?sr = "sig_sampling_rate (sigs st ! i)" and ?n = "sig_n_samples (sigs st ! i)"
  let ?fn = "first_not_none (map (\<lambda>j. sig_fft_norm (sigs st ! j)) (signal_operands data))"
  from assms(1) obtain b
    where "f data domain st = arithmetic nx data domain (np_binop nx b) st"
    using arithmetic_functions_binop by blast
  with assms(2) have run: "arithmetic nx data domain (np_binop nx b) st = (Inr out, st')"
    by simp
  then obtain meta where meta: "assert_match_for_arithmetic st data domain = Inr meta"
    by (cases "assert_match_for_arithmetic st data domain") (simp_all add: arithmetic_def)
  then have loop: "assert_match_loop (sigs st) domain None data = Inr meta"
    by (simp add: assert_match_for_arithmetic_def split: if_splits)
  from assert_match_loop_None_norm [OF loop assms(3)]
  have m: "meta = Some (?sr, ?n, ?fn)" .
  from arithmetic_Inr_Signal [OF run meta [unfolded m]]
  obtain a st4 r
    where init: "Signal_init nx a ?sr (Some ?n) domain (Some ?fn) None Float64 st4 = (Inr r, st')"
      and out: "out = RSignal r"
    by blast
  note facts = Signal_init_Inr [OF init]
  have norm: "sig_fft_norm (sigs st' ! r) = ?fn"
    using facts(5) by (simp add: check_fft_norm_Some)
  have time: "sig_n_samples (sigs st' ! r) = int (last (nd_shape (sig_data (sigs st' ! r))))"
    if "domain = ''time''"
    using facts(9) [OF that] facts(7) by simp
  have freq: "sig_n_samples (sigs st' ! r) = ?n" if "domain = ''freq''"
    using facts(10) [OF that] by simp
  have comb: "sig_n_samples (sigs st' ! r) = int (combined_last_axis (nat ?n) data)"
    if "domain = ''time''" "irfft_length_ok nx" "time_consistent st data" "0 < ?n"
    using arithmetic_time_sample_count [OF that(2,3) run [unfolded that(1) out] assms(3) that(4)] .
  have fit: "sig_n_samples (sigs st' ! r) = ?n"
    if "domain = ''time''" "irfft_length_ok nx" "time_consistent st data" "0 < ?n"
      "last_axes_fit (nat ?n) data"
    using comb [OF that(1-4)] combined_last_axis_fit [OF that(5) assms(3)] that(4) by simp
  show ?thesis
    using out facts(3,4) norm time freq comb fit by blast
qed

theorem arithmetic_result_metadata_witness:
  "multiply_signals toy_backend \<in> set (arithmetic_functions toy_backend) \<and>
   OSignal 0 \<in> set [OSignal 0, OArray (Float64, \<lparr>shape = [], elems = [2::real]\<rparr>)] \<and>
   (\<exists>r st'. multiply_signals toy_backend
                [OSignal 0, OArray (Float64, \<lparr>shape = [], elems = [2]\<rparr>)] ''freq''
                (one_signal ''freq'' Complex128 [1, 513] 48000 1024 ''rms'') = (Inr (RSignal r), st')
      \<and> sig_sampling_rate (sigs st' ! r) = 48000
      \<and> sig_n_samples (sigs st' ! r) = 1024
      \<and> sig_fft_norm (sigs st' ! r) = ''rms''
      \<and> sig_domain (sigs st' ! r) = ''freq'') \<and>
   add_signals toy_backend \<in> set (arithmetic_functions toy_backend) \<and>
   irfft_length_ok toy_backend \<and>
   time_consistent (one_signal ''time'' Float64 [1, 2] 44100 2 ''none'')
     [OSignal 0, OArray (Float64, \<lparr>shape = [], elems = [1::real]\<rparr>)] \<and>
   last_axes_fit 2 [OSignal 0, OArray (Float64, \<lparr>shape = [], elems = [1::real]\<rparr>)] \<and>
   (\<exists>st'. add_signals toy_backend [OSignal 0, OArray (Float64, \<lparr>shape = [], elems = [1]\<rparr>)]
            ''time'' (one_signal ''time'' Float64 [1, 2] 44100 2 ''none'') = (Inr (RSignal 1), st')
      \<and> sig_sampling_rate (sigs st' ! 1) = 44100
      \<and> sig_n_samples (sigs st' ! 1) = 2
      \<and> sig_domain (sigs st' ! 1) = ''time'') \<and>
   time_consistent (two_signals ''time'' Float64 [1, 2] 44100 2 ''none'' 44100 2)
     [OSignal 0, OSignal 1 :: real operand] \<and>
   (\<exists>st'. add_signals toy_backend [OSignal 0, OSignal 1] ''time''
            (two_signals ''time'' Float64 [1, 2] 44100 2 ''none'' 44100 2) = (Inr (RSignal 2), st')
      \<and> sig_sampling_rate (sigs st' ! 2) = 44100
      \<and> sig_n_samples (sigs st' ! 2) = 2
      \<and> sig_domain (sigs st' ! 2) = ''time'')"
proof -
  define st where "st = one_signal ''freq'' Complex128 [1, 513] 48000 1024 ''rms''"
  let ?two = "(Float64, \<lparr>shape = [], elems = [2::real]\<rparr>)"
  let ?data = "[OSignal 0, OArray ?two]"
  have h1: "multiply_signals toy_backend \<in> set (arithmetic_functions toy_backend)"
    by (simp add: arithmetic_functions_def)
  have h3: "OSignal 0 \<in> set ?data"
    by simp
  have s0: "sig_domain (sigs st ! 0) = ''freq''" "sig_fft_norm (sigs st ! 0) = ''rms''"
    "sig_sampling_rate (sigs st ! 0) = 48000" "sig_n_samples (sigs st ! 0) = 1024"
    "nd_shape (sig_data (sigs st ! 0)) = [1, 513]"
    by (simp_all add: st_def)
  have meta: "assert_match_for_arithmetic st ?data ''freq'' = Inr (Some (48000, 1024, ''rms''))"
    by (simp add: assert_match_for_arithmetic_def Let_def s0 arithmetic_dtypes_def)
  define st1 where "st1 = emit (EvNormalization 1024 48000 ''rms'' True) st"
  define v0 where "v0 = contents st (sig_data (sigs st ! 0))"
  have g0: "get_arithmetic_data toy_backend (OSignal 0) (Some 1024) ''freq'' st = (Inr v0, st1)"
    by (simp add: get_arithmetic_data_def Signal_freq_in_freq [OF s0(1)] s0 Let_def v0_def st1_def)
  have g1: "get_arithmetic_data toy_backend (OArray ?two) (Some 1024) ''freq'' st1 = (Inr ?two, st1)"
    by (simp add: get_arithmetic_data_def)
  have "broadcast_shapes (shape (snd v0)) (shape (snd ?two)) = Some [1, 513]"
    by (simp add: v0_def s0 broadcast_shapes_def)
  from np_binop_shape [OF this, of toy_backend Multiply]
  obtain xs where op: "multiply_op toy_backend v0 ?two = Inr (fst v0, \<lparr>shape = [1, 513], elems = xs\<rparr>)"
    by (auto simp add: multiply_op_def)
  define res where "res = (fst v0, \<lparr>shape = [1, 513], elems = xs\<rparr>)"
  have fold: "arithmetic_fold toy_backend (multiply_op toy_backend) (Some 1024) ''freq'' v0
                [OArray ?two] st1 = (Inr res, st1)"
    by (simp add: g1 op res_def)
  define st3 where "st3 = emit (EvNormalization 1024 48000 ''rms'' False) st1"
  define a where "a = fst (new_array res st3)"
  define st4 where "st4 = snd (new_array res st3)"
  have sh: "nd_shape a = [1, 513]"
    by (simp add: a_def res_def)
  have init: "\<exists>r st'. Signal_init toy_backend a 48000 (Some 1024) ''freq'' (Some ''rms'') None Float64 st4
      = (Inr r, st')"
    by (simp add: Signal_init_freq sh check_fft_norm_def VALID_FFT_NORMS_def new_signal_def)
  then obtain r st' where init': "Signal_init toy_backend a 48000 (Some 1024) ''freq'' (Some ''rms'')
      None Float64 st4 = (Inr r, st')"
    by blast
  have run: "multiply_signals toy_backend ?data ''freq'' st = (Inr (RSignal r), st')"
    unfolding multiply_signals_def arithmetic_def meta
    using g0 fold init'
    by (simp add: case_prod_beta st3_def [symmetric] a_def [symmetric] st4_def [symmetric])
  from arithmetic_result_metadata [OF h1 run h3]
  have "sig_sampling_rate (sigs st' ! r) = 48000 \<and> sig_n_samples (sigs st' ! r) = 1024
      \<and> sig_fft_norm (sigs st' ! r) = ''rms'' \<and> sig_domain (sigs st' ! r) = ''freq''"
    by (simp add: s0 first_not_none_def)
  with run have A: "\<exists>r st'. multiply_signals toy_backend ?data ''freq'' st = (Inr (RSignal r), st')
      \<and> sig_sampling_rate (sigs st' ! r) = 48000
      \<and> sig_n_samples (sigs st' ! r) = 1024
      \<and> sig_fft_norm (sigs st' ! r) = ''rms''
      \<and> sig_domain (sigs st' ! r) = ''freq''"
    by blast
  define su where "su = one_signal ''time'' Float64 [1, 2] 44100 2 ''none''"
  let ?one = "(Float64, \<lparr>shape = [], elems = [1::real]\<rparr>)"
  let ?sum = "[OSignal 0, OArray ?one]"
  have k1: "add_signals toy_backend \<in> set (arithmetic_functions toy_backend)"
    by (simp add: arithmetic_functions_def)
  have k3: "OSignal 0 \<in> set ?sum"
    by simp
  have u0: "sig_sampling_rate (sigs su ! 0) = 44100" "sig_n_samples (sigs su ! 0) = 2"
    by (simp_all add: su_def)
  have tc: "time_consistent su ?sum"
    by (simp add: time_consistent_def su_def)
  have fit: "last_axes_fit 2 ?sum"
    by (simp add: last_axes_fit_def)
  obtain su' where sum: "add_signals toy_backend ?sum ''time'' su = (Inr (RSignal 1), su')"
    using add_example_runs unfolding su_def by blast
  from arithmetic_result_metadata [OF k1 sum k3] irfft_length_ok_toy_backend tc fit
  have "sig_sampling_rate (sigs su' ! 1) = 44100 \<and> sig_n_samples (sigs su' ! 1) = 2
      \<and> sig_domain (sigs su' ! 1) = ''time''"
    by (simp add: u0)
  with sum have B: "\<exists>st'. add_signals toy_backend ?sum ''time'' su = (Inr (RSignal 1), st')
      \<and> sig_sampling_rate (sigs st' ! 1) = 44100
      \<and> sig_n_samples (sigs st' ! 1) = 2
      \<and> sig_domain (sigs st' ! 1) = ''time''"
    by blast
  define sv where "sv = two_signals ''time'' Float64 [1, 2] 44100 2 ''none'' 44100 2"
  let ?both = "[OSignal 0, OSignal 1] :: real operand list"
  have m3: "OSignal 0 \<in> set ?both"
    by simp
  have w0: "sig_sampling_rate (sigs sv ! 0) = 44100" "sig_n_samples (sigs sv ! 0) = 2"
    by (simp_all add: sv_def)
  have tc2: "time_consistent sv ?both"
    by (simp add: time_consistent_def sv_def)
  have fit2: "last_axes_fit 2 ?both"
    by (simp add: last_axes_fit_def)
  obtain sv' where both: "add_signals toy_backend ?both ''time'' sv = (Inr (RSignal 2), sv')"
    using add_two_signals_runs unfolding sv_def by blast
  from arithmetic_result_metadata [OF k1 both m3] irfft_length_ok_toy_backend tc2 fit2
  have "sig_sampling_rate (sigs sv' ! 2) = 44100 \<and> sig_n_samples (sigs sv' ! 2) = 2
      \<and> sig_domain (sigs sv' ! 2) = ''time''"
    by (simp add: w0)
  with both have C: "\<exists>st'. add_signals toy_backend ?both ''time'' sv = (Inr (RSignal 2), st')
      \<and> sig_sampling_rate (sigs st' ! 2) = 44100
      \<and> sig_n_samples (sigs st' ! 2) = 2
      \<and> sig_domain (sigs st' ! 2) = ''time''"
    by blast
  show ?thesis
    unfolding st_def [symmetric] su_def [symmetric] sv_def [symmetric]
    by (intro conjI h1 h3 A k1 irfft_length_ok_toy_backend tc fit B tc2 C)
qed

text \<open>
  The claim as stated fails in the time domain: a Signal of one sample plus an array of
  three numbers is a Signal of three samples.
\<close>

theorem time_domain_sample_count_counterexample:
  "fst (add_signals toy_backend
          [OSignal 0, OArray (Float64, \<lparr>shape = [3], elems = [1, 2, 3]\<rparr>)] ''time''
          (one_signal ''time'' Float64 [1, 1] 48000 1 ''none'')) = Inr (RSignal 1) \<and>
   sig_n_samples (sigs (snd (add_signals toy_backend
          [OSignal 0, OArray (Float64, \<lparr>shape = [3], elems = [1, 2, 3]\<rparr>)] ''time''
          (one_signal ''time'' Float64 [1, 1] 48000 1 ''none''))) ! 1) = 3 \<and>
   sig_n_samples (sigs (one_signal ''time'' Float64 [1, 1] 48000 1 ''none'') ! 0) = 1"
proof -
  define st where "st = one_signal ''time'' Float64 [1, 1] 48000 1 ''none''"
  let ?arr = "(Float64, \<lparr>shape = [3], elems = [1, 2, 3::real]\<rparr>)"
  let ?data = "[OSignal 0, OArray ?arr]"
  have s0: "sig_domain (sigs st ! 0) = ''time''" "sig_fft_norm (sigs st ! 0) = ''none''"
    "sig_sampling_rate (sigs st ! 0) = 48000" "sig_n_samples (sigs st ! 0) = 1"
    "nd_shape (sig_data (sigs st ! 0)) = [1, 1]" "length (sigs st) = 1"
    by (simp_all add: st_def)
  have meta: "assert_match_for_arithmetic st ?data ''time'' = Inr (Some (48000, 1, ''none''))"
    by (simp add: assert_match_for_arithmetic_def Let_def s0 arithmetic_dtypes_def)
  define v0 where "v0 = contents st (sig_data (sigs st ! 0))"
  have g0: "get_arithmetic_data toy_backend (OSignal 0) (Some 1) ''time'' st = (Inr v0, st)"
    by (simp add: get_arithmetic_data_def Signal_time_in_time [OF s0(1)] v0_def)
  have g1: "get_arithmetic_data toy_backend (OArray ?arr) (Some 1) ''time'' st = (Inr ?arr, st)"
    by (simp add: get_arithmetic_data_def)
  have "broadcast_shapes (shape (snd v0)) (shape (snd ?arr)) = Some [1, 3]"
    by (simp add: v0_def s0 broadcast_shapes_def)
  from np_binop_shape [OF this, of toy_backend Add]
  obtain xs where op: "add_op toy_backend v0 ?arr = Inr (fst v0, \<lparr>shape = [1, 3], elems = xs\<rparr>)"
    by (auto simp add: add_op_def)
  define res where "res = (fst v0, \<lparr>shape = [1, 3], elems = xs\<rparr>)"
  have fold: "arithmetic_fold toy_backend (add_op toy_backend) (Some 1) ''time'' v0
                [OArray ?arr] st = (Inr res, st)"
    by (simp add: g1 op res_def)
  define a where "a = fst (new_array res st)"
  define st4 where "st4 = snd (new_array res st)"
  have sh: "nd_shape a = [1, 3]" and len: "length (sigs st4) = 1"
    by (simp_all add: a_def st4_def res_def s0)
  define st5 where "st5 = snd (Signal_init toy_backend a 48000 (Some 1) ''time'' (Some ''none'')
      None Float64 st4)"
  have init: "fst (Signal_init toy_backend a 48000 (Some 1) ''time'' (Some ''none'') None Float64 st4)
      = Inr 1"
    and n5: "sig_n_samples (sigs st5 ! 1) = 3"
    unfolding st5_def
    by (simp_all add: Signal_init_time sh check_fft_norm_def VALID_FFT_NORMS_def len nth_append)
  have run: "add_signals toy_backend ?data ''time'' st = (Inr (RSignal 1), st5)"
    unfolding add_signals_def arithmetic_def meta
    using g0 fold init
    by (simp add: case_prod_beta a_def [symmetric] st4_def [symmetric] st5_def [symmetric]
        split: sum.splits)
  show ?thesis
    unfolding st_def [symmetric] run using n5 s0(4) by simp
qed

subsection \<open>Views\<close>







lemma view_of_atleast_2d [simp]: "view_of (atleast_2d d) a = view_of d a"
  by (simp add: view_of_def atleast_2d_def atleast_2d_arr_def)




lemma sigs_nd_store [simp]: "sigs (nd_store a k x st) = sigs st"
  by (simp add: nd_store_def)


subsection \<open>Channel slices\<close>









subsection \<open>Iterator elements\<close>




subsection \<open>Runs of the examples\<close>





section \<open>Which Signals share a buffer\<close>





end
